(* ===== verification/Roadmap_Prelude.thy ===== *)
theory Roadmap_Prelude
  imports Complex_Main "HOL-Library.Sublist" "HOL-Library.Multiset"
begin

text \<open>
  Shared vocabulary of the development: the collections of unfolding rules, the
  result type that carries a Python exception as a value, sequencing of fallible
  steps, and the list operations that stand for Python's slices, comprehensions
  and \<^verbatim>\<open>dict.get\<close>.  Every component theory imports this one.
\<close>

section \<open>Collections of facts\<close>

named_theorems roadmap_defs "unfolding rules of the non-recursive definitions of the model"
named_theorems catalog_simps "field values and lengths of the static catalogs"
named_theorems res_simps "rules for sequencing of fallible computations"

section \<open>Exceptions as values\<close>

text \<open>
  The exceptions the program can raise: the three that indexing a decoded JSON
  value raises, the one of a division by zero, and FastAPI's \<^verbatim>\<open>HTTPException\<close> with its status code and detail.
\<close>

datatype py_error =
  KeyError | IndexError | TypeError | ZeroDivisionError | HTTPException nat string

type_synonym 'a result = "py_error + 'a"

definition bind_res :: "'a result \<Rightarrow> ('a \<Rightarrow> 'b result) \<Rightarrow> 'b result" where
  "bind_res r f = (case r of Inl e \<Rightarrow> Inl e | Inr v \<Rightarrow> f v)"

text \<open>A loop body run over a list; the first exception ends the loop, as in Python.\<close>

primrec map_res :: "('a \<Rightarrow> 'b result) \<Rightarrow> 'a list \<Rightarrow> 'b list result" where
  "map_res f [] = Inr []"
| "map_res f (x # xs) = bind_res (f x) (\<lambda>y. bind_res (map_res f xs) (\<lambda>ys. Inr (y # ys)))"

definition is_ok :: "'a result \<Rightarrow> bool" where
  "is_ok r = (case r of Inl e \<Rightarrow> False | Inr v \<Rightarrow> True)"

section \<open>Python containers\<close>

text \<open>
  \<^verbatim>\<open>d.get(k, default)\<close> on a dictionary given by its items, \<^verbatim>\<open>xs[lo:hi]\<close> on a list
  (both bounds non-negative), and \<^verbatim>\<open>[x for x in xs if p(x)][:n]\<close>.
\<close>

definition dict_get :: "('k \<times> 'v) list \<Rightarrow> 'k \<Rightarrow> 'v \<Rightarrow> 'v" where
  "dict_get d k dflt = (case map_of d k of None \<Rightarrow> dflt | Some v \<Rightarrow> v)"

definition py_slice :: "nat \<Rightarrow> nat \<Rightarrow> 'a list \<Rightarrow> 'a list" where
  "py_slice lo hi xs = take (hi - lo) (drop lo xs)"

definition first_matches :: "nat \<Rightarrow> ('a \<Rightarrow> bool) \<Rightarrow> 'a list \<Rightarrow> 'a list" where
  "first_matches n p xs = take n (filter p xs)"

section \<open>Sequencing\<close>

lemma bind_res_Inl [simp, res_simps]: "bind_res (Inl e) f = Inl e"
  by (simp add: bind_res_def)

lemma bind_res_Inr [simp, res_simps]: "bind_res (Inr v) f = f v"
  by (simp add: bind_res_def)

lemma bind_res_eq_Inr [res_simps]:
  "bind_res r f = Inr y \<longleftrightarrow> (\<exists>v. r = Inr v \<and> f v = Inr y)"
  by (cases r) simp_all

lemma bind_res_eq_Inl [res_simps]:
  "bind_res r f = Inl e \<longleftrightarrow> r = Inl e \<or> (\<exists>v. r = Inr v \<and> f v = Inl e)"
  by (cases r) simp_all

lemma bind_res_assoc:
  "bind_res (bind_res r f) g = bind_res r (\<lambda>v. bind_res (f v) g)"
  by (cases r) simp_all

lemma is_ok_simps [simp]: "is_ok (Inr v)" "\<not> is_ok (Inl e)"
  by (simp_all add: is_ok_def)

lemma is_ok_iff: "is_ok r \<longleftrightarrow> (\<exists>v. r = Inr v)"
  by (cases r) simp_all

lemma is_ok_projr: "is_ok r \<Longrightarrow> r = Inr (projr r)"
  by (cases r) simp_all

lemma map_res_pure [simp]: "map_res (\<lambda>x. Inr (g x)) xs = Inr (map g xs)"
  by (induction xs) simp_all

lemma map_res_Inr_length:
  "map_res f xs = Inr ys \<Longrightarrow> length ys = length xs"
  by (induction xs arbitrary: ys) (auto simp: bind_res_eq_Inr)

lemma map_res_Inr_nth:
  "map_res f xs = Inr ys \<Longrightarrow> i < length xs \<Longrightarrow> f (xs ! i) = Inr (ys ! i)"
proof (induction xs arbitrary: ys i)
  case Nil
  then show ?case by simp
next
  case (Cons x xs)
  from Cons.prems(1) obtain y ys' where y: "f x = Inr y"
    and ys': "map_res f xs = Inr ys'" and ys: "ys = y # ys'"
    by (auto simp: bind_res_eq_Inr)
  show ?case
  proof (cases i)
    case 0
    with y ys show ?thesis by simp
  next
    case (Suc j)
    with Cons.prems(2) have "j < length xs" by simp
    with ys' have "f (xs ! j) = Inr (ys' ! j)" by (rule Cons.IH)
    with Suc ys show ?thesis by simp
  qed
qed

lemma map_res_all_ok:
  "(\<And>x. x \<in> set xs \<Longrightarrow> is_ok (f x)) \<Longrightarrow> is_ok (map_res f xs)"
proof (induction xs)
  case Nil
  show ?case by simp
next
  case (Cons x xs)
  from Cons.prems obtain y where "f x = Inr y"
    by (auto simp: is_ok_iff)
  moreover from Cons have "is_ok (map_res f xs)" by simp
  ultimately show ?case by (auto simp: is_ok_iff)
qed

lemma is_ok_bind_res: "is_ok (bind_res r f) \<longleftrightarrow> (\<exists>v. r = Inr v \<and> is_ok (f v))"
  by (cases r) simp_all

lemma is_ok_map_res: "is_ok (map_res f xs) \<longleftrightarrow> (\<forall>x \<in> set xs. is_ok (f x))"
proof (induction xs)
  case Nil
  show ?case by simp
next
  case (Cons x xs)
  then show ?case by (cases "f x"; cases "map_res f xs") simp_all
qed

lemma map_res_Inr_map:
  "map_res f xs = Inr ys \<Longrightarrow> map Inr ys = map f xs"
  by (induction xs arbitrary: ys) (auto simp: bind_res_eq_Inr)

lemma map_res_first_error:
  "f x = Inl e \<Longrightarrow> map_res f (x # xs) = Inl e"
  by simp

lemma map_res_error:
  "map_res f xs = Inl e \<Longrightarrow> \<exists>x \<in> set xs. f x = Inl e"
  by (induction xs) (auto simp: bind_res_eq_Inl)

lemma map_res_cong_set:
  "(\<And>x. x \<in> set xs \<Longrightarrow> f x = g x) \<Longrightarrow> map_res f xs = map_res g xs"
  by (induction xs) simp_all

section \<open>Slices and comprehensions\<close>

lemma dict_get_Some [simp]: "map_of d k = Some v \<Longrightarrow> dict_get d k dflt = v"
  by (simp add: dict_get_def)

lemma dict_get_None [simp]: "map_of d k = None \<Longrightarrow> dict_get d k dflt = dflt"
  by (simp add: dict_get_def)

lemma dict_get_cases: "dict_get d k dflt = dflt \<or> (k, dict_get d k dflt) \<in> set d"
  by (auto simp: dict_get_def split: option.splits dest: map_of_SomeD)

lemma py_slice_0 [simp]: "py_slice 0 n xs = take n xs"
  by (simp add: py_slice_def)

lemma length_py_slice: "length (py_slice lo hi xs) = min (hi - lo) (length xs - lo)"
  by (simp add: py_slice_def)

lemma set_py_slice: "set (py_slice lo hi xs) \<subseteq> set xs"
  by (auto simp: py_slice_def dest: in_set_takeD in_set_dropD)

lemma length_first_matches: "length (first_matches n p xs) \<le> n"
  by (simp add: first_matches_def)

lemma length_first_matches_eq:
  "length (first_matches n p xs) = min n (length (filter p xs))"
  by (simp add: first_matches_def min.commute)

lemma set_first_matches: "set (first_matches n p xs) \<subseteq> {x \<in> set xs. p x}"
  unfolding first_matches_def by (auto dest: in_set_takeD)

lemma first_matches_all: "x \<in> set (first_matches n p xs) \<Longrightarrow> p x \<and> x \<in> set xs"
  using set_first_matches [of n p xs] by auto

lemma subseq_take_self: "subseq (take n xs) xs"
proof -
  have "subseq (take n xs @ []) (take n xs @ drop n xs)"
    by (intro list_emb_append_mono) simp_all
  then show ?thesis by simp
qed

lemma subseq_first_matches: "subseq (first_matches n p xs) xs"
proof -
  have "subseq (take n (filter p xs)) (filter p xs)"
    by (rule subseq_take_self)
  also have "subseq (filter p xs) xs" by simp
  finally show ?thesis by (simp add: first_matches_def)
qed

lemma first_matches_prefix:
  "prefix (first_matches n p xs) (filter p xs)"
  by (simp add: first_matches_def take_is_prefix)

lemma map_first_matches:
  "map f (first_matches n (\<lambda>x. p (f x)) xs) = take n (filter p (map f xs))"
  by (simp add: first_matches_def take_map filter_map comp_def)

lemma first_matches_Nil [simp]: "first_matches n p [] = []"
  by (simp add: first_matches_def)

lemma distinct_first_matches: "distinct xs \<Longrightarrow> distinct (first_matches n p xs)"
  by (simp add: first_matches_def)

lemma upt_0_4: "[0..<4] = [0, 1, 2, 3]"
  by (simp add: upt_rec numeral_eq_Suc)

lemma distinct_snoc_new:
  "distinct xs \<Longrightarrow> distinct (if x \<in> set xs then xs else xs @ [x])"
  by simp

end
