(* ===== verification/Py_String.thy ===== *)
theory Py_String
  imports Roadmap_Prelude
begin

text \<open>
  The operations on Python strings that \<^verbatim>\<open>src/main.py\<close> uses: \<^verbatim>\<open>str.lower\<close>, the
  substring test \<^verbatim>\<open>w in s\<close>, \<^verbatim>\<open>', '.join(xs)\<close> and the decimal rendering of an
  integer inside an f-string.  A HOL \<^typ>\<open>char\<close> stands for one character of the
  Python string; \<^verbatim>\<open>lower\<close> is modelled on the ASCII letters and leaves every other
  character alone.
\<close>

section \<open>Lower case\<close>

definition upper_letters :: string where
  "upper_letters = ''ABCDEFGHIJKLMNOPQRSTUVWXYZ''"

definition lower_letters :: string where
  "lower_letters = ''abcdefghijklmnopqrstuvwxyz''"

definition lower_char :: "char \<Rightarrow> char" where
  "lower_char c = (case map_of (zip upper_letters lower_letters) c of None \<Rightarrow> c | Some d \<Rightarrow> d)"

definition lower :: "string \<Rightarrow> string" where
  "lower s = map lower_char s"

definition is_upper_ascii :: "char \<Rightarrow> bool" where
  "is_upper_ascii c \<longleftrightarrow> c \<in> set upper_letters"

section \<open>Substring test\<close>

text \<open>\<^verbatim>\<open>xs in ys\<close> on strings: some suffix of \<open>ys\<close> starts with \<open>xs\<close>.\<close>

fun py_in :: "'a list \<Rightarrow> 'a list \<Rightarrow> bool" where
  "py_in xs [] = (xs = [])"
| "py_in xs (y # ys) = (prefix xs (y # ys) \<or> py_in xs ys)"

text \<open>\<^verbatim>\<open>any(w in s for w in ws)\<close>.\<close>

definition any_in :: "string list \<Rightarrow> string \<Rightarrow> bool" where
  "any_in ws s = list_ex (\<lambda>w. py_in w s) ws"

section \<open>Decimal rendering and joining\<close>

definition digit_char :: "nat \<Rightarrow> char" where
  "digit_char d = ''0123456789'' ! d"

fun str_nat :: "nat \<Rightarrow> string" where
  "str_nat n = (if n < 10 then [digit_char n] else str_nat (n div 10) @ [digit_char (n mod 10)])"

definition digit_val :: "char \<Rightarrow> nat" where
  "digit_val c = length (takeWhile (\<lambda>d. d \<noteq> c) ''0123456789'')"

definition nat_of_digits :: "string \<Rightarrow> nat" where
  "nat_of_digits s = foldl (\<lambda>acc c. 10 * acc + digit_val c) 0 s"

fun join :: "string \<Rightarrow> string list \<Rightarrow> string" where
  "join sep [] = []"
| "join sep [x] = x"
| "join sep (x # y # ys) = x @ sep @ join sep (y # ys)"

declare str_nat.simps [simp del]

section \<open>Facts about lower case\<close>

lemmas lower_eval = lower_char_def upper_letters_def lower_letters_def

lemma lower_char_other [simp]: "\<not> is_upper_ascii c \<Longrightarrow> lower_char c = c"
proof -
  assume "\<not> is_upper_ascii c"
  then have "map_of (zip upper_letters lower_letters) c = None"
    by (simp add: is_upper_ascii_def upper_letters_def lower_letters_def)
  then show ?thesis by (simp add: lower_char_def)
qed

lemma lower_char_in_lower_letters:
  "is_upper_ascii c \<Longrightarrow> lower_char c \<in> set lower_letters"
  by (auto simp: is_upper_ascii_def lower_char_def upper_letters_def lower_letters_def)

lemma lower_letters_not_upper: "c \<in> set lower_letters \<Longrightarrow> \<not> is_upper_ascii c"
  by (auto simp: is_upper_ascii_def upper_letters_def lower_letters_def)

lemma lower_char_not_upper [simp]: "\<not> is_upper_ascii (lower_char c)"
  by (cases "is_upper_ascii c")
    (auto dest: lower_char_in_lower_letters lower_letters_not_upper)

lemma lower_char_idem [simp]: "lower_char (lower_char c) = lower_char c"
  by simp

lemma lower_idem [simp]: "lower (lower s) = lower s"
  by (simp add: lower_def)

lemma length_lower [simp]: "length (lower s) = length s"
  by (simp add: lower_def)

lemma lower_append [simp]: "lower (s @ t) = lower s @ lower t"
  by (simp add: lower_def)

lemma lower_Nil [simp]: "lower [] = []"
  by (simp add: lower_def)

lemma lower_Cons [simp]: "lower (c # s) = lower_char c # lower s"
  by (simp add: lower_def)

lemma lower_fixed: "list_all (\<lambda>c. \<not> is_upper_ascii c) s \<Longrightarrow> lower s = s"
  by (induction s) simp_all

section \<open>Facts about the substring test\<close>

lemma py_in_sublist: "py_in xs ys \<longleftrightarrow> sublist xs ys"
  by (induction ys) (simp_all add: sublist_Cons_right)

lemma py_in_Nil [simp]: "py_in [] ys"
  by (simp add: py_in_sublist)

lemma py_in_refl [simp]: "py_in xs xs"
  by (simp add: py_in_sublist)

lemma py_in_iff: "py_in xs ys \<longleftrightarrow> (\<exists>ps ss. ys = ps @ xs @ ss)"
  by (simp add: py_in_sublist sublist_def)

lemma py_in_appendI [intro]: "py_in xs (ps @ xs @ ss)"
  by (auto simp: py_in_iff)

lemma py_in_trans: "py_in xs ys \<Longrightarrow> py_in ys zs \<Longrightarrow> py_in xs zs"
  unfolding py_in_sublist by (rule sublist_order.order_trans)

lemma py_in_length: "py_in xs ys \<Longrightarrow> length xs \<le> length ys"
  by (auto simp: py_in_iff)

lemma py_in_lower: "py_in xs ys \<Longrightarrow> py_in (lower xs) (lower ys)"
  by (metis py_in_iff lower_append)

lemma any_in_iff: "any_in ws s \<longleftrightarrow> (\<exists>w \<in> set ws. py_in w s)"
  by (simp add: any_in_def list_ex_iff)

lemma any_in_Nil [simp]: "\<not> any_in [] s"
  by (simp add: any_in_def)

lemma any_in_Cons [simp]: "any_in (w # ws) s \<longleftrightarrow> py_in w s \<or> any_in ws s"
  by (simp add: any_in_def)

lemma any_in_mono: "any_in ws s \<Longrightarrow> py_in s t \<Longrightarrow> any_in ws t"
  by (auto simp: any_in_iff intro: py_in_trans)

section \<open>Facts about decimal rendering\<close>

lemma less_10_cases:
  "d < 10 \<Longrightarrow> d \<in> {0, 1, 2, 3, 4, 5, 6, 7, 8, 9 :: nat}"
  by auto

lemma digit_val_digit_char: "d < 10 \<Longrightarrow> digit_val (digit_char d) = d"
  by (drule less_10_cases) (auto simp: digit_val_def digit_char_def)

lemma digit_char_digit: "d < 10 \<Longrightarrow> digit_char d \<in> set ''0123456789''"
  unfolding digit_char_def by (intro nth_mem) simp

lemma str_nat_small: "n < 10 \<Longrightarrow> str_nat n = [digit_char n]"
  by (simp add: str_nat.simps)

lemma str_nat_large:
  "\<not> n < 10 \<Longrightarrow> str_nat n = str_nat (n div 10) @ [digit_char (n mod 10)]"
  by (subst str_nat.simps) simp

lemma str_nat_nonempty [simp]: "str_nat n \<noteq> []"
  by (subst str_nat.simps) simp

lemma nat_of_digits_snoc:
  "nat_of_digits (s @ [c]) = 10 * nat_of_digits s + digit_val c"
  by (simp add: nat_of_digits_def)

lemma nat_of_digits_str_nat: "nat_of_digits (str_nat n) = n"
proof (induction n rule: str_nat.induct)
  case (1 n)
  show ?case
  proof (cases "n < 10")
    case True
    then show ?thesis
      by (simp add: str_nat_small nat_of_digits_def digit_val_digit_char)
  next
    case False
    with "1.IH" have "nat_of_digits (str_nat (n div 10)) = n div 10" by simp
    with False show ?thesis
      by (simp add: str_nat_large nat_of_digits_snoc digit_val_digit_char)
  qed
qed

lemma str_nat_inj: "str_nat m = str_nat n \<Longrightarrow> m = n"
  by (metis nat_of_digits_str_nat)

lemma str_nat_digits: "c \<in> set (str_nat n) \<Longrightarrow> c \<in> set ''0123456789''"
proof (induction n rule: str_nat.induct)
  case (1 n)
  show ?case
  proof (cases "n < 10")
    case True
    with "1.prems" digit_char_digit [of n] show ?thesis by (simp add: str_nat_small)
  next
    case False
    with "1.prems" consider "c \<in> set (str_nat (n div 10))" | "c = digit_char (n mod 10)"
      by (auto simp: str_nat_large)
    then show ?thesis
    proof cases
      case 1
      from "1.IH" [OF False 1] show ?thesis .
    next
      case 2
      with digit_char_digit [of "n mod 10"] show ?thesis by simp
    qed
  qed
qed

lemma str_nat_no_dash: "CHR ''-'' \<notin> set (str_nat n)"
  using str_nat_digits [of "CHR ''-''" n] by auto

lemma takeWhile_str_nat:
  "takeWhile (\<lambda>c. c \<noteq> CHR ''-'') (str_nat n @ CHR ''-'' # r) = str_nat n"
proof -
  have "\<forall>c \<in> set (str_nat n). c \<noteq> CHR ''-''"
    using str_nat_no_dash [of n] by auto
  then show ?thesis by (simp add: takeWhile_tail)
qed

lemma str_nat_numeral_simps:
  "str_nat 4 = ''4''" "str_nat 10 = ''10''" "str_nat 15 = ''15''" "str_nat 20 = ''20''"
  "str_nat 25 = ''25''" "str_nat 30 = ''30''"
  by (simp_all add: str_nat.simps digit_char_def)

end
