(* ===== verification/Json_Value.thy ===== *)
theory Json_Value
  imports Py_String
begin

text \<open>
  Decoded JSON values, as \<^verbatim>\<open>json.loads\<close> and \<^verbatim>\<open>response.json()\<close> hand them to the
  program, and the three operations \<^verbatim>\<open>src/main.py\<close> applies to them: subscription
  with a string key, subscription with a non-negative index, and \<^verbatim>\<open>len\<close>.  Each
  returns the exception Python raises as a value.  An object is the list of its
  items (the keys of a decoded object are distinct); the payload of a number is
  never inspected by the program.
\<close>

datatype json =
    JNull
  | JBool bool
  | JNum int
  | JStr string
  | JArr "json list"
  | JObj "(string \<times> json) list"

section \<open>Subscription and length\<close>

text \<open>\<^verbatim>\<open>x[k]\<close> for a string \<open>k\<close>: only a dictionary accepts a string key.\<close>

fun py_getitem :: "json \<Rightarrow> string \<Rightarrow> json result" where
  "py_getitem (JObj kvs) k = (case map_of kvs k of None \<Rightarrow> Inl KeyError | Some v \<Rightarrow> Inr v)"
| "py_getitem j k = Inl TypeError"

text \<open>
  \<^verbatim>\<open>x[i]\<close> for \<open>i \<ge> 0\<close>: a list or a string is indexed, a dictionary of string
  keys has no integer key, anything else is not subscriptable.
\<close>

fun py_getidx :: "json \<Rightarrow> nat \<Rightarrow> json result" where
  "py_getidx (JArr xs) i = (if i < length xs then Inr (xs ! i) else Inl IndexError)"
| "py_getidx (JStr s) i = (if i < length s then Inr (JStr [s ! i]) else Inl IndexError)"
| "py_getidx (JObj kvs) i = Inl KeyError"
| "py_getidx j i = Inl TypeError"

fun py_len :: "json \<Rightarrow> nat result" where
  "py_len (JArr xs) = Inr (length xs)"
| "py_len (JStr s) = Inr (length s)"
| "py_len (JObj kvs) = Inr (length kvs)"
| "py_len j = Inl TypeError"

text \<open>\<^verbatim>\<open>x[k][i]\<close>, the access path of the plan assembler.\<close>

definition py_path :: "json \<Rightarrow> string \<Rightarrow> nat \<Rightarrow> json result" where
  "py_path x k i = bind_res (py_getitem x k) (\<lambda>v. py_getidx v i)"

definition is_sequence :: "json \<Rightarrow> bool" where
  "is_sequence j = (case j of JArr xs \<Rightarrow> True | JStr s \<Rightarrow> True | _ \<Rightarrow> False)"

text \<open>Subscription and length raise nothing but the three lookup errors.\<close>

definition lookup_error :: "py_error \<Rightarrow> bool" where
  "lookup_error e \<longleftrightarrow> e \<in> {KeyError, IndexError, TypeError}"

fun_cases py_getitem_InrE: "py_getitem j k = Inr v"
fun_cases py_len_InrE: "py_len j = Inr n"
fun_cases py_getidx_InrE: "py_getidx j i = Inr v"

section \<open>Facts\<close>

lemma py_getitem_Inr_iff:
  "py_getitem j k = Inr v \<longleftrightarrow> (\<exists>kvs. j = JObj kvs \<and> map_of kvs k = Some v)"
  by (cases j) (auto split: option.splits)

lemma py_getitem_KeyError_iff:
  "py_getitem j k = Inl KeyError \<longleftrightarrow> (\<exists>kvs. j = JObj kvs \<and> map_of kvs k = None)"
  by (cases j) (auto split: option.splits)

lemma py_getitem_error: "py_getitem j k = Inl e \<Longrightarrow> e = KeyError \<or> e = TypeError"
  by (cases j) (auto split: option.splits)

lemma py_len_Inr_iff:
  "py_len j = Inr n \<longleftrightarrow>
     (\<exists>xs. j = JArr xs \<and> n = length xs) \<or> (\<exists>s. j = JStr s \<and> n = length s)
       \<or> (\<exists>kvs. j = JObj kvs \<and> n = length kvs)"
  by (cases j) auto

lemma py_len_error: "py_len j = Inl e \<Longrightarrow> e = TypeError"
  by (cases j) auto

lemma py_getidx_sequence:
  "is_sequence j \<Longrightarrow> py_len j = Inr n \<Longrightarrow> i < n \<Longrightarrow> is_ok (py_getidx j i)"
  by (cases j) (auto simp: is_sequence_def)

lemma py_getidx_in_range:
  "py_len j = Inr n \<Longrightarrow> i < n \<Longrightarrow> is_ok (py_getidx j i) \<longleftrightarrow> is_sequence j"
  by (cases j) (auto simp: is_sequence_def)

lemma py_getidx_out_of_range:
  "py_len j = Inr n \<Longrightarrow> n \<le> i \<Longrightarrow> \<not> is_ok (py_getidx j i)"
  by (cases j) auto

lemma py_getidx_JArr_ok [simp]: "i < length xs \<Longrightarrow> py_getidx (JArr xs) i = Inr (xs ! i)"
  by simp

lemma py_path_JObj:
  "map_of kvs k = Some v \<Longrightarrow> py_path (JObj kvs) k i = py_getidx v i"
  by (simp add: py_path_def)

lemma py_path_Inr_iff:
  "py_path x k i = Inr w \<longleftrightarrow> (\<exists>v. py_getitem x k = Inr v \<and> py_getidx v i = Inr w)"
  by (simp add: py_path_def bind_res_eq_Inr)

lemma lookup_error_simps [simp]:
  "lookup_error KeyError" "lookup_error IndexError" "lookup_error TypeError"
  "\<not> lookup_error (HTTPException c d)" "\<not> lookup_error ZeroDivisionError"
  by (simp_all add: lookup_error_def)

lemma py_getitem_lookup_error: "py_getitem j k = Inl e \<Longrightarrow> lookup_error e"
  by (auto dest: py_getitem_error)

lemma py_getidx_lookup_error: "py_getidx j i = Inl e \<Longrightarrow> lookup_error e"
  by (cases j) (auto split: if_splits)

lemma py_len_lookup_error: "py_len j = Inl e \<Longrightarrow> lookup_error e"
  by (auto dest: py_len_error)

lemma py_path_lookup_error: "py_path x k i = Inl e \<Longrightarrow> lookup_error e"
  by (auto simp: py_path_def bind_res_eq_Inl
      dest: py_getitem_lookup_error py_getidx_lookup_error)

end
