(* ===== verification/Catalog.thy ===== *)
theory Catalog
  imports Json_Value
begin

text \<open>
  The two static catalogs of \<^verbatim>\<open>src/main.py\<close>: \<^verbatim>\<open>REAL_PROJECTS\<close> (topic to project
  templates) and \<^verbatim>\<open>REAL_RESOURCES\<close> (topic to learning resources), each a dictionary
  given by its items in source order, and the lookup with the \<^verbatim>\<open>python\<close> lists as
  default that both the assembler and the fallback builder start with.  A key that
  a dictionary entry may omit (\<^verbatim>\<open>demo_url\<close>, \<^verbatim>\<open>platform\<close>, \<^verbatim>\<open>channel\<close>, \<^verbatim>\<open>source\<close>,
  \<^verbatim>\<open>free\<close>) is an optional field.
\<close>

section \<open>Entries\<close>

record project =
  pj_title :: string
  pj_description :: string
  pj_github_template :: string
  pj_skills :: "string list"
  pj_demo_url :: "string option"

record resource =
  res_type :: string
  res_title :: string
  res_url :: string
  res_platform :: "string option"
  res_channel :: "string option"
  res_source :: "string option"
  res_free :: "bool option"

section \<open>The catalogs\<close>

definition python_projects :: "project list" where
  "python_projects =
    [\<lparr>pj_title = ''Build a Personal Finance Tracker'',
      pj_description = ''Create a command-line app to track expenses and income'',
      pj_github_template = ''https://github.com/trekhleb/learn-python'',
      pj_skills = [''File I/O'', ''Data Structures'', ''Basic Algorithms''],
      pj_demo_url = Some ''https://replit.com/@python/finance-tracker''\<rparr>,
     \<lparr>pj_title = ''Web Scraper for News Articles'',
      pj_description = ''Scrape news websites and save articles to a database'',
      pj_github_template = ''https://github.com/scrapinghub/python-web-scraper'',
      pj_skills = [''Web Scraping'', ''HTML Parsing'', ''Database''],
      pj_demo_url = Some ''https://replit.com/@python/web-scraper''\<rparr>]"

definition web_projects :: "project list" where
  "web_projects =
    [\<lparr>pj_title = ''Todo List Application'',
      pj_description = ''Build a full-stack todo app with user authentication'',
      pj_github_template = ''https://github.com/spring-projects/spring-petclinic'',
      pj_skills = [''HTML/CSS'', ''JavaScript'', ''Backend API''],
      pj_demo_url = Some ''https://todomvc.com''\<rparr>,
     \<lparr>pj_title = ''Weather Dashboard'',
      pj_description = ''Create a dashboard showing weather from multiple cities'',
      pj_github_template = ''https://github.com/public-apis/public-apis'',
      pj_skills = [''API Integration'', ''Frontend'', ''Data Visualization''],
      pj_demo_url = Some ''https://openweathermap.org/api''\<rparr>]"

definition data_projects :: "project list" where
  "data_projects =
    [\<lparr>pj_title = ''COVID-19 Data Analysis'',
      pj_description = ''Analyze COVID-19 trends and create visualizations'',
      pj_github_template = ''https://github.com/owid/covid-19-data'',
      pj_skills = [''Data Analysis'', ''Visualization'', ''Pandas''],
      pj_demo_url = Some ''https://ourworldindata.org/coronavirus''\<rparr>,
     \<lparr>pj_title = ''Customer Segmentation'',
      pj_description = ''Use clustering algorithms to segment customers'',
      pj_github_template = ''https://github.com/scikit-learn/scikit-learn'',
      pj_skills = [''Machine Learning'', ''Clustering'', ''Analysis''],
      pj_demo_url = Some ''https://scikit-learn.org/stable/auto_examples/cluster/plot_kmeans_digits.html''\<rparr>]"

definition REAL_PROJECTS :: "(string \<times> project list) list" where
  "REAL_PROJECTS =
    [(''python'', python_projects),
     (''web'', web_projects),
     (''data'', data_projects)]"

definition python_resources :: "resource list" where
  "python_resources =
    [\<lparr>res_type = ''Video'', res_title = ''Python for Beginners - Full Course'',
      res_url = ''https://www.youtube.com/watch?v=_uQrJ0TkZlc'',
      res_platform = Some ''YouTube'', res_channel = Some ''Programming with Mosh'', res_source = None, res_free = None\<rparr>,
     \<lparr>res_type = ''Course'', res_title = ''Python for Everybody'',
      res_url = ''https://www.coursera.org/specializations/python'',
      res_platform = Some ''Coursera'', res_channel = None, res_source = None, res_free = Some True\<rparr>,
     \<lparr>res_type = ''Article'', res_title = ''Python Official Tutorial'',
      res_url = ''https://docs.python.org/3/tutorial/'',
      res_platform = None, res_channel = None, res_source = Some ''Python.org'', res_free = None\<rparr>,
     \<lparr>res_type = ''Project'', res_title = ''100 Days of Code: Python'',
      res_url = ''https://github.com/100DaysOfCode-Python'',
      res_platform = Some ''GitHub'', res_channel = None, res_source = None, res_free = None\<rparr>]"

definition web_resources :: "resource list" where
  "web_resources =
    [\<lparr>res_type = ''Video'', res_title = ''HTML & CSS Full Course'',
      res_url = ''https://www.youtube.com/watch?v=mU6anWqZJcc'',
      res_platform = Some ''YouTube'', res_channel = Some ''freeCodeCamp'', res_source = None, res_free = None\<rparr>,
     \<lparr>res_type = ''Course'', res_title = ''The Odin Project'',
      res_url = ''https://www.theodinproject.com/'',
      res_platform = Some ''Odin Project'', res_channel = None, res_source = None, res_free = Some True\<rparr>,
     \<lparr>res_type = ''Article'', res_title = ''MDN Web Docs'',
      res_url = ''https://developer.mozilla.org/en-US/'',
      res_platform = None, res_channel = None, res_source = Some ''Mozilla'', res_free = None\<rparr>,
     \<lparr>res_type = ''Project'', res_title = ''Frontend Mentor Challenges'',
      res_url = ''https://www.frontendmentor.io/'',
      res_platform = Some ''Frontend Mentor'', res_channel = None, res_source = None, res_free = None\<rparr>]"

definition data_resources :: "resource list" where
  "data_resources =
    [\<lparr>res_type = ''Video'', res_title = ''Data Science Full Course'',
      res_url = ''https://www.youtube.com/watch?v=ua-CiDNNj30'',
      res_platform = Some ''YouTube'', res_channel = Some ''edureka!'', res_source = None, res_free = None\<rparr>,
     \<lparr>res_type = ''Course'', res_title = ''Data Science with Python'',
      res_url = ''https://www.kaggle.com/learn/python'',
      res_platform = Some ''Kaggle'', res_channel = None, res_source = None, res_free = Some True\<rparr>,
     \<lparr>res_type = ''Article'', res_title = ''Towards Data Science'',
      res_url = ''https://towardsdatascience.com/'',
      res_platform = None, res_channel = None, res_source = Some ''Medium'', res_free = None\<rparr>,
     \<lparr>res_type = ''Project'', res_title = ''Kaggle Competitions'',
      res_url = ''https://www.kaggle.com/competitions'',
      res_platform = Some ''Kaggle'', res_channel = None, res_source = None, res_free = None\<rparr>]"

definition REAL_RESOURCES :: "(string \<times> resource list) list" where
  "REAL_RESOURCES =
    [(''python'', python_resources),
     (''web'', web_resources),
     (''data'', data_resources)]"


text \<open>
  \<^verbatim>\<open>REAL_RESOURCES.get(topic, REAL_RESOURCES["python"])\<close> and its twin for projects.
\<close>

definition resources_for :: "string \<Rightarrow> resource list" where
  "resources_for topic = dict_get REAL_RESOURCES topic python_resources"

definition projects_for :: "string \<Rightarrow> project list" where
  "projects_for topic = dict_get REAL_PROJECTS topic python_projects"

definition resource_types :: "string list" where
  "resource_types = [''Video'', ''Course'', ''Article'', ''Project'']"

definition catalog_topics :: "string list" where
  "catalog_topics = [''python'', ''web'', ''data'']"

section \<open>Lookups\<close>

lemma map_of_REAL_RESOURCES [catalog_simps]:
  "map_of REAL_RESOURCES ''python'' = Some python_resources"
  "map_of REAL_RESOURCES ''web'' = Some web_resources"
  "map_of REAL_RESOURCES ''data'' = Some data_resources"
  by (simp_all add: REAL_RESOURCES_def)

lemma map_of_REAL_PROJECTS [catalog_simps]:
  "map_of REAL_PROJECTS ''python'' = Some python_projects"
  "map_of REAL_PROJECTS ''web'' = Some web_projects"
  "map_of REAL_PROJECTS ''data'' = Some data_projects"
  by (simp_all add: REAL_PROJECTS_def)

lemma catalog_keys [catalog_simps]:
  "map fst REAL_RESOURCES = catalog_topics" "map fst REAL_PROJECTS = catalog_topics"
  by (simp_all add: REAL_RESOURCES_def REAL_PROJECTS_def catalog_topics_def)

lemma map_of_catalog_other:
  "topic \<notin> set catalog_topics \<Longrightarrow> map_of REAL_RESOURCES topic = None"
  "topic \<notin> set catalog_topics \<Longrightarrow> map_of REAL_PROJECTS topic = None"
  by (simp_all add: REAL_RESOURCES_def REAL_PROJECTS_def catalog_topics_def)

lemma resources_for_simps [catalog_simps]:
  "resources_for ''python'' = python_resources"
  "resources_for ''web'' = web_resources"
  "resources_for ''data'' = data_resources"
  "topic \<notin> set catalog_topics \<Longrightarrow> resources_for topic = python_resources"
  by (simp_all add: resources_for_def catalog_simps map_of_catalog_other)

lemma projects_for_simps [catalog_simps]:
  "projects_for ''python'' = python_projects"
  "projects_for ''web'' = web_projects"
  "projects_for ''data'' = data_projects"
  "topic \<notin> set catalog_topics \<Longrightarrow> projects_for topic = python_projects"
  by (simp_all add: projects_for_def catalog_simps map_of_catalog_other)

lemma topic_cases:
  obtains "topic = ''python''" | "topic = ''web''" | "topic = ''data''"
    | "topic \<notin> set catalog_topics"
  by (auto simp: catalog_topics_def)

section \<open>Shape of the shipped catalogs\<close>

lemma resource_types_of [catalog_simps]:
  "map res_type python_resources = resource_types"
  "map res_type web_resources = resource_types"
  "map res_type data_resources = resource_types"
  by (simp_all add: python_resources_def web_resources_def data_resources_def
      resource_types_def)

lemma length_projects [catalog_simps]:
  "length python_projects = 2" "length web_projects = 2" "length data_projects = 2"
  by (simp_all add: python_projects_def web_projects_def data_projects_def)

lemma resources_for_types: "map res_type (resources_for topic) = resource_types"
  by (cases topic rule: topic_cases) (simp_all add: catalog_simps)

lemma length_resources_for [simp]: "length (resources_for topic) = 4"
  using arg_cong [OF resources_for_types [of topic], of length]
  by (simp add: resource_types_def)

lemma length_projects_for [simp]: "length (projects_for topic) = 2"
  by (cases topic rule: topic_cases) (simp_all add: catalog_simps)

lemma projects_for_nonempty [simp]: "projects_for topic \<noteq> []"
  using length_projects_for [of topic] by (cases "projects_for topic") simp_all

lemma resources_for_nth_type:
  "i < 4 \<Longrightarrow> res_type (resources_for topic ! i) = resource_types ! i"
  using nth_map [of i "resources_for topic" res_type]
  by (simp add: resources_for_types)

end
