(* ===== verification/Topic_Classifier.thy ===== *)
theory Topic_Classifier
  imports Catalog
begin

text \<open>
  The topic classifier \<^verbatim>\<open>detect_topic\<close> of \<^verbatim>\<open>src/main.py\<close>: the goal is lower-cased
  and searched for the keywords of each topic in the order python, web, data; the
  first topic with a keyword occurring anywhere in the text wins, and a text with
  no keyword is \<^verbatim>\<open>general\<close>.  The lemmas give the exact condition under which each
  topic is returned, the priority between topics, and that classification does not
  depend on letter case.
\<close>

section \<open>Keywords and classifier\<close>

definition python_keywords :: "string list" where
  "python_keywords = [''python'', ''programming'', ''coding'', ''software'']"

definition web_keywords :: "string list" where
  "web_keywords =
     [''web'', ''frontend'', ''backend'', ''fullstack'', ''html'', ''css'', ''javascript'']"

definition data_keywords :: "string list" where
  "data_keywords = [''data'', ''machine learning'', ''ai'', ''analysis'', ''visualization'']"

definition detect_topic :: "string \<Rightarrow> string" where
  "detect_topic goal =
     (let goal_lower = lower goal in
      if any_in python_keywords goal_lower then ''python''
      else if any_in web_keywords goal_lower then ''web''
      else if any_in data_keywords goal_lower then ''data''
      else ''general'')"

definition topics :: "string list" where
  "topics = [''python'', ''web'', ''data'', ''general'']"

text \<open>
  A goal mentions a list of keywords when one of them is a contiguous part of the
  lower-cased goal, in the sense of the library's \<open>sublist\<close>.
\<close>

definition mentions :: "string list \<Rightarrow> string \<Rightarrow> bool" where
  "mentions ws goal \<longleftrightarrow> (\<exists>w \<in> set ws. sublist w (lower goal))"

lemmas keyword_defs = python_keywords_def web_keywords_def data_keywords_def

section \<open>Which topic is returned\<close>

lemma detect_topic_python_iff:
  "detect_topic goal = ''python'' \<longleftrightarrow> any_in python_keywords (lower goal)"
  by (simp add: detect_topic_def Let_def)

lemma detect_topic_web_iff:
  "detect_topic goal = ''web'' \<longleftrightarrow>
     \<not> any_in python_keywords (lower goal) \<and> any_in web_keywords (lower goal)"
  by (simp add: detect_topic_def Let_def)

lemma detect_topic_data_iff:
  "detect_topic goal = ''data'' \<longleftrightarrow>
     \<not> any_in python_keywords (lower goal) \<and> \<not> any_in web_keywords (lower goal)
       \<and> any_in data_keywords (lower goal)"
  by (simp add: detect_topic_def Let_def)

lemma detect_topic_general_iff:
  "detect_topic goal = ''general'' \<longleftrightarrow>
     \<not> any_in python_keywords (lower goal) \<and> \<not> any_in web_keywords (lower goal)
       \<and> \<not> any_in data_keywords (lower goal)"
  by (simp add: detect_topic_def Let_def)

lemmas detect_topic_iffs =
  detect_topic_python_iff detect_topic_web_iff detect_topic_data_iff detect_topic_general_iff

lemma detect_topic_in_topics: "detect_topic goal \<in> set topics"
  by (simp add: detect_topic_def topics_def Let_def)

lemma detect_topic_lower: "detect_topic (lower goal) = detect_topic goal"
  by (simp add: detect_topic_def Let_def)

lemma keyword_in_python: "w \<in> set python_keywords \<Longrightarrow> py_in w (lower goal) \<Longrightarrow>
    detect_topic goal = ''python''"
  by (auto simp: detect_topic_python_iff any_in_iff)

lemma keywords_lower_case:
  "w \<in> set (python_keywords @ web_keywords @ data_keywords) \<Longrightarrow> lower w = w"
  by (auto simp: keyword_defs lower_char_def upper_letters_def lower_letters_def)

lemma keyword_in_any_case:
  assumes "w \<in> set (python_keywords @ web_keywords @ data_keywords)" and "py_in w goal"
  shows "py_in w (lower goal)"
  using py_in_lower [OF assms(2)] keywords_lower_case [OF assms(1)] by simp

lemmas detect_eval = detect_topic_def Let_def keyword_defs lower_eval

lemma any_in_mentions: "any_in ws (lower goal) \<longleftrightarrow> mentions ws goal"
  by (simp add: mentions_def any_in_iff py_in_sublist)

section \<open>Properties of the classifier\<close>

text \<open>
  C18.  The classifier tests the three keyword lists in the fixed order python, web,
  data on the lower-cased goal: a goal that mentions \<^verbatim>\<open>python\<close> is classified as
  python whatever else it mentions, a goal with \<^verbatim>\<open>html\<close> and no python keyword as web,
  a goal with \<^verbatim>\<open>analysis\<close> and no python or web keyword as data, and a goal with no
  keyword at all as general.
\<close>

theorem detect_topic_priority:
  "(py_in ''python'' (lower goal) \<longrightarrow> detect_topic goal = ''python'')
   \<and> (py_in ''html'' (lower goal) \<and> \<not> any_in python_keywords (lower goal)
        \<longrightarrow> detect_topic goal = ''web'')
   \<and> (py_in ''analysis'' (lower goal) \<and> \<not> any_in python_keywords (lower goal)
        \<and> \<not> any_in web_keywords (lower goal) \<longrightarrow> detect_topic goal = ''data'')
   \<and> (\<not> any_in (python_keywords @ web_keywords @ data_keywords) (lower goal)
        \<longrightarrow> detect_topic goal = ''general'')"
  by (auto simp: detect_topic_iffs any_in_iff keyword_defs)

theorem detect_topic_priority_witness:
  "detect_topic ''HTML for Analysis'' = ''web''"
  using detect_topic_priority [of "''HTML for Analysis''"]
  by (simp add: keyword_defs lower_eval)

text \<open>
  C31.  The classifier ignores the case of ASCII letters: lower-casing the goal
  first does not change the topic, and two goals that agree up to case get the same
  topic.
\<close>

theorem detect_topic_case_insensitive:
  "detect_topic (lower goal) = detect_topic goal
   \<and> (lower goal = lower goal' \<longrightarrow> detect_topic goal = detect_topic goal')"
  by (simp add: detect_topic_def Let_def)

theorem detect_topic_case_insensitive_witness:
  "detect_topic (lower ''Web DESIGN'') = detect_topic ''Web DESIGN''
   \<and> detect_topic ''Web DESIGN'' = detect_topic ''wEB design''"
  using detect_topic_case_insensitive [of "''Web DESIGN''" "''wEB design''"]
  by (simp add: lower_eval)

text \<open>
  C32.  The classifier is total and its answer is one of the four topic names.
  Whatever the answer, the catalog lookups that follow it find four resources and
  two projects; for the topic general, which has no catalog entry, these are the
  python entries.
\<close>

theorem detect_topic_catalog_total:
  "detect_topic goal \<in> set topics
   \<and> length (resources_for (detect_topic goal)) = 4
   \<and> length (projects_for (detect_topic goal)) = 2
   \<and> (detect_topic goal = ''general'' \<longrightarrow>
        resources_for (detect_topic goal) = python_resources
        \<and> projects_for (detect_topic goal) = python_projects)"
  by (auto simp: detect_topic_in_topics catalog_simps catalog_topics_def)

theorem detect_topic_catalog_total_witness:
  "detect_topic ''Gardening'' \<in> set topics
   \<and> resources_for (detect_topic ''Gardening'') = python_resources
   \<and> projects_for (detect_topic ''Gardening'') = python_projects"
  using detect_topic_catalog_total [of "''Gardening''"]
  by (simp add: detect_eval)

text \<open>
  C33.  The classifier, keyword by keyword.  It answers python exactly when the
  lower-cased goal contains one of \<^verbatim>\<open>python\<close>, \<^verbatim>\<open>programming\<close>, \<^verbatim>\<open>coding\<close>,
  \<^verbatim>\<open>software\<close>; web exactly when it contains none of these and one of \<^verbatim>\<open>web\<close>,
  \<^verbatim>\<open>frontend\<close>, \<^verbatim>\<open>backend\<close>, \<^verbatim>\<open>fullstack\<close>, \<^verbatim>\<open>html\<close>, \<^verbatim>\<open>css\<close>, \<^verbatim>\<open>javascript\<close>; data
  exactly when it contains none of those and one of \<^verbatim>\<open>data\<close>, \<^verbatim>\<open>machine learning\<close>,
  \<^verbatim>\<open>ai\<close>, \<^verbatim>\<open>analysis\<close>, \<^verbatim>\<open>visualization\<close>; and general exactly when it contains
  none of the sixteen.  Containment is as a contiguous part, not as a word: a
  goal about painting contains \<^verbatim>\<open>ai\<close> and is classified as data.
\<close>

theorem detect_topic_keywords:
  "(detect_topic goal = ''python'' \<longleftrightarrow>
      mentions [''python'', ''programming'', ''coding'', ''software''] goal)
   \<and> (detect_topic goal = ''web'' \<longleftrightarrow>
      \<not> mentions [''python'', ''programming'', ''coding'', ''software''] goal
      \<and> mentions [''web'', ''frontend'', ''backend'', ''fullstack'', ''html'', ''css'',
            ''javascript''] goal)
   \<and> (detect_topic goal = ''data'' \<longleftrightarrow>
      \<not> mentions [''python'', ''programming'', ''coding'', ''software''] goal
      \<and> \<not> mentions [''web'', ''frontend'', ''backend'', ''fullstack'', ''html'', ''css'',
            ''javascript''] goal
      \<and> mentions [''data'', ''machine learning'', ''ai'', ''analysis'', ''visualization''] goal)
   \<and> (detect_topic goal = ''general'' \<longleftrightarrow>
      \<not> mentions [''python'', ''programming'', ''coding'', ''software'', ''web'', ''frontend'',
            ''backend'', ''fullstack'', ''html'', ''css'', ''javascript'', ''data'',
            ''machine learning'', ''ai'', ''analysis'', ''visualization''] goal)"
proof -
  have split: "mentions (xs @ ys) goal \<longleftrightarrow> mentions xs goal \<or> mentions ys goal" for xs ys
    by (auto simp: mentions_def)
  have "mentions [''python'', ''programming'', ''coding'', ''software'', ''web'', ''frontend'',
            ''backend'', ''fullstack'', ''html'', ''css'', ''javascript'', ''data'',
            ''machine learning'', ''ai'', ''analysis'', ''visualization''] goal
      \<longleftrightarrow> mentions python_keywords goal \<or> mentions web_keywords goal
        \<or> mentions data_keywords goal"
    using split [of python_keywords "web_keywords @ data_keywords"]
      split [of web_keywords data_keywords]
    by (simp add: keyword_defs)
  then show ?thesis
    by (simp add: detect_topic_iffs any_in_mentions) (simp add: keyword_defs)
qed

theorem detect_topic_keywords_witness:
  "detect_topic ''Learn to paint'' = ''data'' \<and> mentions [''ai''] ''Learn to paint''
   \<and> detect_topic ''Cobweb removal'' = ''web''"
  using detect_topic_keywords [of "''Learn to paint''"]
    detect_topic_keywords [of "''Cobweb removal''"]
  by (simp add: mentions_def py_in_sublist [symmetric] lower_eval)

end
