(* ===== verification/Structure_Provider.thy ===== *)
theory Structure_Provider
  imports Topic_Classifier
begin

text \<open>
  The structure provider of \<^verbatim>\<open>src/main.py\<close>: the request model
  \<^verbatim>\<open>EnhancedUserInput\<close>, the deterministic four-week structure of
  \<^verbatim>\<open>create_basic_structure\<close>, and \<^verbatim>\<open>get_ai_roadmap_structure\<close>, which asks the
  external chat-completion service and falls back to the deterministic structure
  on every failure.  What the program cannot decide by itself is a field of the
  \<open>environment\<close> of one request: the configured API key, the outcome of the HTTP
  call, the JSON decoder applied to the returned text, the fresh identifier and the
  clock.  A structure is a decoded JSON value; nothing is assumed of its shape.
\<close>

section \<open>Request model and environment\<close>

record EnhancedUserInput =
  ui_goal :: string
  ui_proficiency :: string
  ui_time_commitment :: string
  ui_learning_style :: "string list"
  ui_specific_interests :: "string option"
  ui_challenges :: "string option"

record chat_request =
  req_url :: string
  req_authorization :: string
  req_content_type :: string
  req_model :: string
  req_system :: string
  req_user :: string
  req_temperature :: rat
  req_max_tokens :: nat
  req_response_format :: string
  req_timeout :: nat

text \<open>
  The outcome of \<^verbatim>\<open>requests.post\<close>: an exception (no connection, timeout), or a
  response with its status code and the value of \<^verbatim>\<open>response.json()\<close>, \<open>None\<close> when
  the body is not JSON.
\<close>

datatype http_result = Http_failed | Http_response nat "json option"

record environment =
  env_api_key :: "string option"
  env_post :: "chat_request \<Rightarrow> http_result"
  env_loads :: "string \<Rightarrow> json option"
  env_uuid4 :: string
  env_now :: string

section \<open>The deterministic structure\<close>

definition create_basic_structure :: "EnhancedUserInput \<Rightarrow> json" where
  "create_basic_structure user_input =
     (let weeks = 4 in
      JObj
       [(''title'', JStr (''Learn '' @ ui_goal user_input @ '' - ''
            @ ui_proficiency user_input @ '' Roadmap'')),
        (''overview'', JStr (''A '' @ str_nat weeks @ ''-week journey to master ''
            @ ui_goal user_input @ '' through hands-on projects and real resources.'')),
        (''weekly_themes'', JArr
          [JStr ''Foundation & Setup'',
           JStr ''Core Concepts'',
           JStr ''Advanced Techniques'',
           JStr ''Real Projects'']),
        (''weekly_focus'', JArr
          [JStr ''Learn basics and set up environment'',
           JStr ''Master fundamental concepts'',
           JStr ''Explore advanced features'',
           JStr ''Build complete applications'']),
        (''weekly_objectives'', JArr
          [JArr [JStr ''Install tools'', JStr ''Learn syntax'', JStr ''First program''],
           JArr [JStr ''Practice concepts'', JStr ''Debug issues'', JStr ''Small projects''],
           JArr [JStr ''Advanced features'', JStr ''Optimization'', JStr ''Testing''],
           JArr [JStr ''Portfolio project'', JStr ''Deployment'', JStr ''Documentation'']])])"

section \<open>The request to the generation service\<close>

definition dq :: string where
  "dq = [CHR 0x22]"

definition nl :: string where
  "nl = [CHR 0x0A]"

definition system_prompt :: string where
  "system_prompt = join nl
     [''Return ONLY JSON. Structure:'',
      ''    {'',
      ''        '' @ dq @ ''title'' @ dq @ '': '' @ dq @ ''Title'' @ dq @ '','',
      ''        '' @ dq @ ''overview'' @ dq @ '': '' @ dq @ ''Overview'' @ dq @ '','',
      ''        '' @ dq @ ''weekly_themes'' @ dq @ '': ['' @ dq @ ''Theme 1'' @ dq @ '', '' @ dq @ ''Theme 2'' @ dq @ '', '' @ dq @ ''Theme 3'' @ dq @ '', '' @ dq @ ''Theme 4'' @ dq @ ''],'',
      ''        '' @ dq @ ''weekly_focus'' @ dq @ '': ['' @ dq @ ''Focus 1'' @ dq @ '', '' @ dq @ ''Focus 2'' @ dq @ '', '' @ dq @ ''Focus 3'' @ dq @ '', '' @ dq @ ''Focus 4'' @ dq @ ''],'',
      ''        '' @ dq @ ''weekly_objectives'' @ dq @ '': [['' @ dq @ ''Obj1'' @ dq @ '', '' @ dq @ ''Obj2'' @ dq @ ''], ['' @ dq @ ''Obj3'' @ dq @ '', '' @ dq @ ''Obj4'' @ dq @ ''], ['' @ dq @ ''Obj5'' @ dq @ '', '' @ dq @ ''Obj6'' @ dq @ ''], ['' @ dq @ ''Obj7'' @ dq @ '', '' @ dq @ ''Obj8'' @ dq @ '']]'',
      ''    }'']"

definition user_prompt :: "EnhancedUserInput \<Rightarrow> string" where
  "user_prompt user_input =
     nl @ ''    Create a '' @ str_nat (length (ui_learning_style user_input))
     @ ''-week learning roadmap for:'' @ nl @ ''    Goal: '' @ ui_goal user_input
     @ nl @ ''    Level: '' @ ui_proficiency user_input
     @ nl @ ''    Time: '' @ ui_time_commitment user_input
     @ nl @ ''    Styles: '' @ join '', '' (ui_learning_style user_input)
     @ nl @ ''    '' @ nl @ ''    Return only the JSON structure above.'' @ nl @ ''    ''"

definition chat_completion_request :: "string \<Rightarrow> EnhancedUserInput \<Rightarrow> chat_request" where
  "chat_completion_request api_key user_input =
     \<lparr>req_url = ''https://openrouter.ai/api/v1/chat/completions'',
      req_authorization = ''Bearer '' @ api_key,
      req_content_type = ''application/json'',
      req_model = ''meta-llama/llama-3.1-8b-instruct'',
      req_system = system_prompt,
      req_user = user_prompt user_input,
      req_temperature = 3 / 10,
      req_max_tokens = 1000,
      req_response_format = ''json_object'',
      req_timeout = 30\<rparr>"

section \<open>Asking the service\<close>

text \<open>
  \<^verbatim>\<open>result["choices"][0]["message"]["content"]\<close> and \<^verbatim>\<open>json.loads\<close> of it; a \<open>None\<close>
  stands for any exception on the way, which the bare \<^verbatim>\<open>except\<close> swallows.
\<close>

definition message_content :: "json \<Rightarrow> json result" where
  "message_content result =
     bind_res (py_getitem result ''choices'') (\<lambda>choices.
     bind_res (py_getidx choices 0) (\<lambda>choice.
     bind_res (py_getitem choice ''message'') (\<lambda>message.
     py_getitem message ''content'')))"

definition decode_content :: "(string \<Rightarrow> json option) \<Rightarrow> json \<Rightarrow> json option" where
  "decode_content loads result =
     (case message_content result of
        Inl e \<Rightarrow> None
      | Inr content \<Rightarrow> (case content of JStr s \<Rightarrow> loads s | _ \<Rightarrow> None))"

definition get_ai_roadmap_structure :: "environment \<Rightarrow> EnhancedUserInput \<Rightarrow> json" where
  "get_ai_roadmap_structure env user_input =
     (case env_api_key env of
        None \<Rightarrow> create_basic_structure user_input
      | Some api_key \<Rightarrow>
          if api_key = [] then create_basic_structure user_input
          else
            (case env_post env (chat_completion_request api_key user_input) of
               Http_failed \<Rightarrow> create_basic_structure user_input
             | Http_response status_code body \<Rightarrow>
                 if status_code = 200 then
                   (case body of
                      None \<Rightarrow> create_basic_structure user_input
                    | Some result \<Rightarrow>
                        (case decode_content (env_loads env) result of
                           None \<Rightarrow> create_basic_structure user_input
                         | Some structure \<Rightarrow> structure))
                 else create_basic_structure user_input))"

text \<open>The environment in which no credential is configured.\<close>

definition offline_env :: "string \<Rightarrow> string \<Rightarrow> environment" where
  "offline_env uuid now =
     \<lparr>env_api_key = None, env_post = (\<lambda>r. Http_failed), env_loads = (\<lambda>s. None),
      env_uuid4 = uuid, env_now = now\<rparr>"

text \<open>An environment whose service answers 200 with the given structure.\<close>

definition answering_env :: "json \<Rightarrow> string \<Rightarrow> string \<Rightarrow> environment" where
  "answering_env structure uuid now =
     \<lparr>env_api_key = Some ''key'',
      env_post = (\<lambda>r. Http_response 200 (Some (JObj [(''choices'',
         JArr [JObj [(''message'', JObj [(''content'', JStr ''{}'')])]])]))),
      env_loads = (\<lambda>s. Some structure),
      env_uuid4 = uuid, env_now = now\<rparr>"

text \<open>The request of the worked example.\<close>

definition example_input :: EnhancedUserInput where
  "example_input =
     \<lparr>ui_goal = ''Learn Python basics'', ui_proficiency = ''beginner'',
      ui_time_commitment = ''5 hrs/week'', ui_learning_style = [''visual'', ''hands-on''],
      ui_specific_interests = None, ui_challenges = None\<rparr>"

section \<open>The deterministic structure is well formed\<close>

lemma basic_structure_keys:
  "\<exists>kvs. create_basic_structure user_input = JObj kvs
     \<and> map fst kvs = [''title'', ''overview'', ''weekly_themes'', ''weekly_focus'',
          ''weekly_objectives'']"
  by (simp add: create_basic_structure_def)

lemma basic_structure_themes [simp]:
  "py_getitem (create_basic_structure user_input) ''weekly_themes'' =
     Inr (JArr [JStr ''Foundation & Setup'', JStr ''Core Concepts'',
       JStr ''Advanced Techniques'', JStr ''Real Projects''])"
  by (simp add: create_basic_structure_def)

lemma basic_structure_focus [simp]:
  "py_getitem (create_basic_structure user_input) ''weekly_focus'' =
     Inr (JArr [JStr ''Learn basics and set up environment'',
       JStr ''Master fundamental concepts'', JStr ''Explore advanced features'',
       JStr ''Build complete applications''])"
  by (simp add: create_basic_structure_def)

lemma basic_structure_objectives [simp]:
  "py_getitem (create_basic_structure user_input) ''weekly_objectives'' =
     Inr (JArr
       [JArr [JStr ''Install tools'', JStr ''Learn syntax'', JStr ''First program''],
        JArr [JStr ''Practice concepts'', JStr ''Debug issues'', JStr ''Small projects''],
        JArr [JStr ''Advanced features'', JStr ''Optimization'', JStr ''Testing''],
        JArr [JStr ''Portfolio project'', JStr ''Deployment'', JStr ''Documentation'']])"
  by (simp add: create_basic_structure_def)

lemma basic_structure_title [simp]:
  "py_getitem (create_basic_structure user_input) ''title'' =
     Inr (JStr (''Learn '' @ ui_goal user_input @ '' - ''
            @ ui_proficiency user_input @ '' Roadmap''))"
  by (simp add: create_basic_structure_def)

lemma basic_structure_overview [simp]:
  "py_getitem (create_basic_structure user_input) ''overview'' =
     Inr (JStr (''A 4-week journey to master '' @ ui_goal user_input
            @ '' through hands-on projects and real resources.''))"
  by (simp add: create_basic_structure_def str_nat.simps digit_char_def)

section \<open>When the deterministic structure is used\<close>

lemma get_ai_no_key [simp]:
  "env_api_key env = None \<Longrightarrow>
     get_ai_roadmap_structure env user_input = create_basic_structure user_input"
  by (simp add: get_ai_roadmap_structure_def)

lemma get_ai_empty_key [simp]:
  "env_api_key env = Some [] \<Longrightarrow>
     get_ai_roadmap_structure env user_input = create_basic_structure user_input"
  by (simp add: get_ai_roadmap_structure_def)

lemma get_ai_cases:
  "get_ai_roadmap_structure env user_input = create_basic_structure user_input
   \<or> (\<exists>api_key result.
        env_api_key env = Some api_key \<and> api_key \<noteq> []
        \<and> env_post env (chat_completion_request api_key user_input)
             = Http_response 200 (Some result)
        \<and> decode_content (env_loads env) result
             = Some (get_ai_roadmap_structure env user_input))"
  by (auto simp: get_ai_roadmap_structure_def
      split: option.splits http_result.splits)

lemma get_ai_not_200:
  "env_api_key env = Some api_key \<Longrightarrow>
   env_post env (chat_completion_request api_key user_input) = Http_response code body \<Longrightarrow>
   code \<noteq> 200 \<Longrightarrow>
   get_ai_roadmap_structure env user_input = create_basic_structure user_input"
  by (simp add: get_ai_roadmap_structure_def)

lemma get_ai_failed:
  "env_api_key env = Some api_key \<Longrightarrow>
   env_post env (chat_completion_request api_key user_input) = Http_failed \<Longrightarrow>
   get_ai_roadmap_structure env user_input = create_basic_structure user_input"
  by (simp add: get_ai_roadmap_structure_def)

lemma decode_content_Some:
  "decode_content loads result = Some structure \<longleftrightarrow>
     (\<exists>s. message_content result = Inr (JStr s) \<and> loads s = Some structure)"
  by (auto simp: decode_content_def split: sum.splits json.splits)

lemma get_ai_offline [simp]:
  "get_ai_roadmap_structure (offline_env uuid now) user_input =
     create_basic_structure user_input"
  by (simp add: offline_env_def)

lemma get_ai_answering [simp]:
  "get_ai_roadmap_structure (answering_env structure uuid now) user_input = structure"
  by (simp add: get_ai_roadmap_structure_def answering_env_def decode_content_def
      message_content_def)

section \<open>Facts about the example environments\<close>

lemma answering_env_simps [simp]:
  "env_uuid4 (answering_env structure uuid now) = uuid"
  "env_now (answering_env structure uuid now) = now"
  by (simp_all add: answering_env_def)

lemma offline_env_simps [simp]:
  "env_uuid4 (offline_env uuid now) = uuid"
  "env_now (offline_env uuid now) = now"
  "env_api_key (offline_env uuid now) = None"
  by (simp_all add: offline_env_def)

lemma detect_topic_example [simp]:
  "detect_topic (lower (ui_goal example_input)) = ''python''"
  by (simp add: example_input_def detect_eval)

section \<open>Properties of the structure provider\<close>

text \<open>
  C29.  The structure provider never fails.  Without a credential (none, or the
  empty string) it answers with the deterministic four-week structure; and whenever
  its answer is not that structure, a credential was configured, the service
  answered with status 200 and a body whose first choice carries a string, and
  the answer is what \<^verbatim>\<open>json.loads\<close> made of that string.
\<close>

theorem structure_provider_fallbacks:
  "(env_api_key env = None \<or> env_api_key env = Some [] \<longrightarrow>
      get_ai_roadmap_structure env user_input = create_basic_structure user_input)
   \<and> (get_ai_roadmap_structure env user_input = create_basic_structure user_input
      \<or> (\<exists>api_key result s.
           env_api_key env = Some api_key \<and> api_key \<noteq> []
           \<and> env_post env (chat_completion_request api_key user_input)
                = Http_response 200 (Some result)
           \<and> message_content result = Inr (JStr s)
           \<and> env_loads env s = Some (get_ai_roadmap_structure env user_input)))"
  using get_ai_cases [of env user_input]
  by (auto simp: decode_content_Some)

theorem structure_provider_fallbacks_witness:
  "get_ai_roadmap_structure (offline_env ''0f8fad5b-d9cb'' ''2024-01-01T00:00:00'') example_input
     = create_basic_structure example_input"
  using structure_provider_fallbacks
    [of "offline_env ''0f8fad5b-d9cb'' ''2024-01-01T00:00:00''" example_input]
  by (simp add: offline_env_def)

end
