(* ===== verification/Plan_Assembler.thy ===== *)
theory Plan_Assembler
  imports Structure_Provider
begin

text \<open>
  The plan assembler of \<^verbatim>\<open>src/main.py\<close>: \<^verbatim>\<open>enhance_with_real_content\<close> turns a
  structure, a topic and the catalogs into a plan of at most four weeks, and
  \<^verbatim>\<open>generate_timeline_data\<close> derives the timeline from the weeks.  The structure is
  an arbitrary decoded JSON value, so every subscription of it can raise; the
  assembler returns the first exception in evaluation order.  The lemmas give the
  number and numbering of the weeks, the per-week resource policy, the project
  chosen for each week, the time estimates, and the exact condition on the
  structure under which the assembler returns a plan.
\<close>

section \<open>Plans\<close>

record week_plan =
  wp_week :: int
  wp_theme :: json
  wp_focus :: json
  wp_objectives :: json
  wp_time_estimate :: string
  wp_resources :: "resource list"
  wp_project :: project

record timeline_entry =
  tl_week :: int
  tl_theme :: json
  tl_milestones :: json
  tl_project :: "string option"

record prerequisites =
  pre_knowledge :: "string list"
  pre_tools :: "string list"

record named_milestone =
  nm_name :: string
  nm_description :: string
  nm_skills :: "string list"

datatype milestone = Template project | Named named_milestone

record roadmap_content =
  rm_title :: json
  rm_overview :: json
  rm_prerequisites :: prerequisites
  rm_weekly_plan :: "week_plan list"
  rm_milestone_projects :: "milestone list"
  rm_success_tips :: "string list"
  rm_community_recommendations :: "string list"
  rm_visual_timeline :: "timeline_entry list"

record roadmap = roadmap_content +
  rm_roadmap_id :: string
  rm_generated_at :: string
  rm_topic :: string

section \<open>One week\<close>

text \<open>The resource policy by week index: basics, intermediate, advanced.\<close>

definition week_resources :: "nat \<Rightarrow> resource list \<Rightarrow> resource list" where
  "week_resources i topic_resources =
     (if i = 0 then
        first_matches 2 (\<lambda>r. res_type r \<in> set [''Video'', ''Course'']) topic_resources
      else if i = 1 then
        first_matches 2 (\<lambda>r. res_type r \<in> set [''Article'', ''Course'']) topic_resources
      else
        first_matches 2 (\<lambda>r. res_type r \<in> set [''Project'', ''Video'']) topic_resources)"

definition placeholder_project :: "nat \<Rightarrow> project" where
  "placeholder_project week_num =
     \<lparr>pj_title = ''Week '' @ str_nat week_num @ '' Project'',
      pj_description = ''Hands-on project to apply what you learned'',
      pj_github_template = ''https://github.com/'',
      pj_skills = [''Problem Solving'', ''Coding'', ''Debugging''],
      pj_demo_url = None\<rparr>"

definition week_project :: "nat \<Rightarrow> project list \<Rightarrow> project" where
  "week_project i topic_projects =
     (let project_index = min i (length topic_projects - 1) in
      if topic_projects \<noteq> [] then topic_projects ! project_index
      else placeholder_project (i + 1))"

definition time_estimate :: "nat \<Rightarrow> string" where
  "time_estimate i = str_nat (10 + i * 5) @ ''-'' @ str_nat (15 + i * 5) @ '' hours''"

definition build_week :: "json \<Rightarrow> resource list \<Rightarrow> project list \<Rightarrow> nat \<Rightarrow> week_plan result" where
  "build_week structure topic_resources topic_projects i =
     (let week_num = int i + 1;
          resources = week_resources i topic_resources;
          project = week_project i topic_projects in
      bind_res (py_path structure ''weekly_themes'' i) (\<lambda>theme.
      bind_res (py_path structure ''weekly_focus'' i) (\<lambda>focus.
      bind_res (py_path structure ''weekly_objectives'' i) (\<lambda>objectives.
      Inr \<lparr>wp_week = week_num, wp_theme = theme, wp_focus = focus,
           wp_objectives = objectives, wp_time_estimate = time_estimate i,
           wp_resources = resources, wp_project = project\<rparr>))))"

section \<open>The timeline\<close>

definition timeline_of_week :: "week_plan \<Rightarrow> timeline_entry" where
  "timeline_of_week week =
     \<lparr>tl_week = wp_week week, tl_theme = wp_theme week,
      tl_milestones = wp_objectives week,
      tl_project = Some (pj_title (wp_project week))\<rparr>"

definition generate_timeline_data :: "week_plan list \<Rightarrow> timeline_entry list" where
  "generate_timeline_data weekly_plan = map timeline_of_week weekly_plan"

section \<open>The whole plan\<close>

definition success_tips :: "string list" where
  "success_tips =
     [''Code every day, even for 30 minutes'',
      ''Build projects that interest you'',
      ''Join communities for support'',
      ''Document your learning journey'',
      ''Teach others what you learn'']"

definition community_recommendations :: "string list" where
  "community_recommendations =
     [''Discord: Learn Together'',
      ''Reddit: r/learnprogramming'',
      ''GitHub: Open Source'',
      ''Dev.to Community'']"

definition enhance_with_real_content ::
    "json \<Rightarrow> string \<Rightarrow> EnhancedUserInput \<Rightarrow> roadmap_content result" where
  "enhance_with_real_content structure topic user_input =
     (let topic_resources = resources_for topic;
          topic_projects = projects_for topic in
      bind_res (py_getitem structure ''weekly_themes'') (\<lambda>themes.
      bind_res (py_len themes) (\<lambda>n.
      bind_res (map_res (build_week structure topic_resources topic_projects) [0..<min 4 n])
        (\<lambda>weekly_plan.
      bind_res (py_getitem structure ''title'') (\<lambda>title.
      bind_res (py_getitem structure ''overview'') (\<lambda>overview.
      Inr \<lparr>rm_title = title,
           rm_overview = overview,
           rm_prerequisites =
             \<lparr>pre_knowledge = [''Basic computer skills'', ''Internet access''],
              pre_tools = [''Computer'', ''Code editor'', ''Git'']\<rparr>,
           rm_weekly_plan = weekly_plan,
           rm_milestone_projects = map Template (take 3 topic_projects),
           rm_success_tips = success_tips,
           rm_community_recommendations = community_recommendations,
           rm_visual_timeline = generate_timeline_data weekly_plan\<rparr>))))))"

section \<open>Specification-level definitions\<close>

text \<open>The types a week may draw from, as a table indexed by the week.\<close>

definition week_types :: "nat \<Rightarrow> string list" where
  "week_types i =
     (if i = 0 then [''Video'', ''Course'']
      else if i = 1 then [''Article'', ''Course'']
      else [''Project'', ''Video''])"

text \<open>Reading an estimate back: the number before the dash.\<close>

definition estimate_low :: "string \<Rightarrow> nat" where
  "estimate_low s = nat_of_digits (takeWhile (\<lambda>c. c \<noteq> CHR ''-'') s)"

text \<open>
  The shape a structure must have for the assembler to return: a dictionary with a
  title and an overview whose \<^verbatim>\<open>weekly_themes\<close> has a length, and, unless that
  length is zero, whose three weekly entries are lists or strings long enough for
  the weeks that are built.
\<close>

definition long_sequence :: "json option \<Rightarrow> nat \<Rightarrow> bool" where
  "long_sequence v m =
     (case v of Some (JArr xs) \<Rightarrow> m \<le> length xs | Some (JStr s) \<Rightarrow> m \<le> length s
      | _ \<Rightarrow> False)"

fun well_formed_structure :: "json \<Rightarrow> bool" where
  "well_formed_structure (JObj kvs) =
     (map_of kvs ''title'' \<noteq> None \<and> map_of kvs ''overview'' \<noteq> None \<and>
      (case map_of kvs ''weekly_themes'' of
         None \<Rightarrow> False
       | Some themes \<Rightarrow>
           (case py_len themes of
              Inl e \<Rightarrow> False
            | Inr n \<Rightarrow>
                n = 0 \<or> (is_sequence themes
                  \<and> long_sequence (map_of kvs ''weekly_focus'') (min 4 n)
                  \<and> long_sequence (map_of kvs ''weekly_objectives'') (min 4 n)))))"
| "well_formed_structure j = False"

text \<open>The week numbers of a plan of \<open>k\<close> weeks.\<close>

definition week_numbers :: "nat \<Rightarrow> int list" where
  "week_numbers k = map (\<lambda>i. int i + 1) [0..<k]"

text \<open>The number of themes a structure announces, zero when it announces none.\<close>

definition themes_count :: "json \<Rightarrow> nat" where
  "themes_count structure =
     (case bind_res (py_getitem structure ''weekly_themes'') py_len of
        Inl e \<Rightarrow> 0 | Inr n \<Rightarrow> n)"

text \<open>
  A structure with five themes, whose focus is a string and whose objectives are
  numbers: the assembler indexes and copies the entries and never inspects them.
\<close>

definition five_week_structure :: json where
  "five_week_structure =
     JObj [(''title'', JStr ''Web in five weeks''), (''overview'', JStr ''HTML first''),
       (''weekly_themes'', JArr (map JStr [''A'', ''B'', ''C'', ''D'', ''E''])),
       (''weekly_focus'', JStr ''abcde''),
       (''weekly_objectives'', JArr (map JNum [1, 2, 3, 4]))]"

section \<open>The resource policy\<close>

lemma week_resources_eq:
  "week_resources i rs = first_matches 2 (\<lambda>r. res_type r \<in> set (week_types i)) rs"
  by (simp add: week_resources_def week_types_def)

lemma length_week_resources: "length (week_resources i rs) \<le> 2"
  by (simp add: week_resources_eq length_first_matches)

lemma week_resources_member:
  "r \<in> set (week_resources i rs) \<Longrightarrow> r \<in> set rs \<and> res_type r \<in> set (week_types i)"
  unfolding week_resources_eq by (drule first_matches_all) simp

lemma subseq_week_resources: "subseq (week_resources i rs) rs"
  by (simp add: week_resources_eq subseq_first_matches)

lemma week_resources_Nil [simp]: "week_resources i [] = []"
  by (simp add: week_resources_eq)

lemma week_resources_types:
  "map res_type (week_resources i rs) =
     take 2 (filter (\<lambda>t. t \<in> set (week_types i)) (map res_type rs))"
  unfolding week_resources_eq
  by (rule map_first_matches [of res_type 2 "\<lambda>t. t \<in> set (week_types i)" rs])

lemma week_resources_advanced: "2 \<le> i \<Longrightarrow> week_resources i rs = week_resources 2 rs"
  by (simp add: week_resources_def)

lemma week_resources_shipped:
  "map res_type (week_resources i (resources_for topic)) =
     (if i = 0 then [''Video'', ''Course'']
      else if i = 1 then [''Course'', ''Article'']
      else [''Video'', ''Project''])"
  by (simp add: week_resources_types resources_for_types resource_types_def week_types_def)

section \<open>The project of a week\<close>

lemma week_project_Nil [simp]: "week_project i [] = placeholder_project (i + 1)"
  by (simp add: week_project_def)

lemma week_project_nth:
  "topic_projects \<noteq> [] \<Longrightarrow>
     week_project i topic_projects = topic_projects ! min i (length topic_projects - 1)"
  by (simp add: week_project_def)

lemma week_project_in_range:
  "i < length topic_projects \<Longrightarrow> week_project i topic_projects = topic_projects ! i"
  by (auto simp: week_project_def Let_def min_def)

lemma project_index_less:
  "topic_projects \<noteq> [] \<Longrightarrow> min i (length topic_projects - 1) < length topic_projects"
  by (cases topic_projects) simp_all

lemma week_project_beyond:
  assumes "topic_projects \<noteq> []" and "length topic_projects \<le> Suc i"
  shows "week_project i topic_projects = last topic_projects"
proof -
  from assms(2) have "min i (length topic_projects - 1) = length topic_projects - 1"
    by arith
  with assms(1) show ?thesis
    by (simp add: week_project_nth last_conv_nth)
qed

lemma week_project_member:
  assumes "topic_projects \<noteq> []"
  shows "week_project i topic_projects \<in> set topic_projects"
proof -
  from assms have "min i (length topic_projects - 1) < length topic_projects"
    by (rule project_index_less)
  then have "topic_projects ! min i (length topic_projects - 1) \<in> set topic_projects"
    by (rule nth_mem)
  with assms show ?thesis by (simp add: week_project_nth)
qed

lemma week_project_shipped:
  "week_project i (projects_for topic) = projects_for topic ! min i 1"
  by (simp add: week_project_nth)

lemma week_project_never_placeholder:
  "week_project i (projects_for topic) \<in> set (projects_for topic)"
  by (simp add: week_project_member)

section \<open>Time estimates\<close>

lemma estimate_low_time_estimate: "estimate_low (time_estimate i) = 10 + i * 5"
  by (simp add: estimate_low_def time_estimate_def takeWhile_str_nat nat_of_digits_str_nat)

lemma time_estimate_inj: "time_estimate i = time_estimate j \<Longrightarrow> i = j"
proof -
  assume "time_estimate i = time_estimate j"
  then have "estimate_low (time_estimate i) = estimate_low (time_estimate j)"
    by (rule arg_cong)
  then show ?thesis by (simp add: estimate_low_time_estimate)
qed

lemma time_estimate_simps [simp]:
  "time_estimate 0 = ''10-15 hours''"
  "time_estimate 1 = ''15-20 hours''"
  "time_estimate (Suc 0) = ''15-20 hours''"
  "time_estimate 2 = ''20-25 hours''"
  "time_estimate 3 = ''25-30 hours''"
  by (simp_all add: time_estimate_def str_nat_numeral_simps)

section \<open>One week, once built\<close>

lemma build_week_Inr:
  assumes "build_week structure rs ps i = Inr w"
  shows "wp_week w = int i + 1"
    and "wp_time_estimate w = time_estimate i"
    and "wp_resources w = week_resources i rs"
    and "wp_project w = week_project i ps"
    and "py_path structure ''weekly_themes'' i = Inr (wp_theme w)"
    and "py_path structure ''weekly_focus'' i = Inr (wp_focus w)"
    and "py_path structure ''weekly_objectives'' i = Inr (wp_objectives w)"
  using assms by (auto simp: build_week_def Let_def bind_res_eq_Inr)

lemma is_ok_build_week:
  "is_ok (build_week structure rs ps i) \<longleftrightarrow>
     is_ok (py_path structure ''weekly_themes'' i)
     \<and> is_ok (py_path structure ''weekly_focus'' i)
     \<and> is_ok (py_path structure ''weekly_objectives'' i)"
  by (cases "py_path structure ''weekly_themes'' i";
      cases "py_path structure ''weekly_focus'' i";
      cases "py_path structure ''weekly_objectives'' i")
    (simp_all add: build_week_def Let_def)

lemma build_week_error:
  "build_week structure rs ps i = Inl e \<Longrightarrow> lookup_error e"
  by (auto simp: build_week_def Let_def bind_res_eq_Inl dest: py_path_lookup_error)

section \<open>The plan, once assembled\<close>

lemma enhance_Inr:
  assumes "enhance_with_real_content structure topic user_input = Inr c"
  obtains themes n weekly_plan title overview where
    "py_getitem structure ''weekly_themes'' = Inr themes"
    and "py_len themes = Inr n"
    and "map_res (build_week structure (resources_for topic) (projects_for topic))
           [0..<min 4 n] = Inr weekly_plan"
    and "py_getitem structure ''title'' = Inr title"
    and "py_getitem structure ''overview'' = Inr overview"
    and "rm_weekly_plan c = weekly_plan"
    and "rm_title c = title" and "rm_overview c = overview"
    and "rm_milestone_projects c = map Template (take 3 (projects_for topic))"
    and "rm_visual_timeline c = generate_timeline_data weekly_plan"
    and "rm_success_tips c = success_tips"
    and "rm_community_recommendations c = community_recommendations"
  using assms
  by (auto simp: enhance_with_real_content_def Let_def bind_res_eq_Inr)

lemma enhance_week:
  assumes "enhance_with_real_content structure topic user_input = Inr c"
    and "i < length (rm_weekly_plan c)"
  shows "build_week structure (resources_for topic) (projects_for topic) i
           = Inr (rm_weekly_plan c ! i)"
proof -
  from assms(1) obtain n where
    m: "map_res (build_week structure (resources_for topic) (projects_for topic))
          [0..<min 4 n] = Inr (rm_weekly_plan c)"
    by (auto elim: enhance_Inr)
  from map_res_Inr_length [OF m] assms(2) have i: "i < length [0..<min 4 n]" by simp
  from map_res_Inr_nth [OF m i] i show ?thesis by simp
qed

lemma enhance_length:
  assumes "enhance_with_real_content structure topic user_input = Inr c"
    and "py_getitem structure ''weekly_themes'' = Inr themes" and "py_len themes = Inr n"
  shows "length (rm_weekly_plan c) = min 4 n"
  using assms by (auto elim!: enhance_Inr dest: map_res_Inr_length)

lemma enhance_length_le: 
  "enhance_with_real_content structure topic user_input = Inr c \<Longrightarrow>
     length (rm_weekly_plan c) \<le> 4"
  by (auto elim!: enhance_Inr dest: map_res_Inr_length)

lemmas enhance_week_facts = build_week_Inr [OF enhance_week]

lemma enhance_ignores_input:
  "enhance_with_real_content structure topic u = enhance_with_real_content structure topic u'"
  by (simp add: enhance_with_real_content_def)

section \<open>When the assembler returns\<close>

lemma all_less_iff: "0 < m \<Longrightarrow> (\<forall>i<m. i < (k::nat)) \<longleftrightarrow> m \<le> k"
  by (metis Suc_pred less_Suc_eq_le lessI less_le_trans not_less)

lemma all_getidx_ok:
  "0 < m \<Longrightarrow> (\<forall>i<m. is_ok (py_getidx v i)) \<longleftrightarrow> long_sequence (Some v) m"
  by (cases v) (auto simp: long_sequence_def all_less_iff)

lemma all_path_ok:
  "0 < m \<Longrightarrow> (\<forall>i<m. is_ok (py_path (JObj kvs) k i)) \<longleftrightarrow> long_sequence (map_of kvs k) m"
proof (cases "map_of kvs k")
  case None
  assume "0 < m"
  with None show ?thesis by (auto simp: py_path_def long_sequence_def)
next
  case (Some v)
  assume "0 < m"
  then show ?thesis using Some by (simp add: py_path_def all_getidx_ok)
qed

lemma is_ok_enhance:
  "is_ok (enhance_with_real_content s topic u) \<longleftrightarrow>
     (\<exists>themes n. py_getitem s ''weekly_themes'' = Inr themes \<and> py_len themes = Inr n
        \<and> (\<forall>i<min 4 n. is_ok (build_week s (resources_for topic) (projects_for topic) i))
        \<and> is_ok (py_getitem s ''title'') \<and> is_ok (py_getitem s ''overview''))"
  by (auto simp: enhance_with_real_content_def Let_def is_ok_bind_res is_ok_iff [symmetric]
      is_ok_map_res)


lemma long_sequence_of_len:
  "py_len v = Inr n \<Longrightarrow> m \<le> n \<Longrightarrow> long_sequence (Some v) m \<longleftrightarrow> is_sequence v"
  by (cases v) (auto simp: long_sequence_def is_sequence_def)

lemma is_ok_getitem_JObj: "is_ok (py_getitem (JObj kvs) k) \<longleftrightarrow> map_of kvs k \<noteq> None"
  by (cases "map_of kvs k") simp_all

lemma all_weeks_ok:
  assumes "0 < m"
  shows "(\<forall>i<m. is_ok (build_week (JObj kvs) rs ps i)) \<longleftrightarrow>
     long_sequence (map_of kvs ''weekly_themes'') m
     \<and> long_sequence (map_of kvs ''weekly_focus'') m
     \<and> long_sequence (map_of kvs ''weekly_objectives'') m"
  unfolding is_ok_build_week all_path_ok [OF assms, symmetric] by blast

lemma weeks_ok_iff:
  assumes "map_of kvs ''weekly_themes'' = Some themes" and "py_len themes = Inr n"
  shows "(\<forall>i<min 4 n. is_ok (build_week (JObj kvs) rs ps i)) \<longleftrightarrow>
     n = 0 \<or> (is_sequence themes
       \<and> long_sequence (map_of kvs ''weekly_focus'') (min 4 n)
       \<and> long_sequence (map_of kvs ''weekly_objectives'') (min 4 n))"
proof (cases "n = 0")
  case True
  then show ?thesis by simp
next
  case False
  then have m: "0 < min 4 n" by simp
  have "long_sequence (Some themes) (min 4 n) \<longleftrightarrow> is_sequence themes"
    using assms(2) by (rule long_sequence_of_len) simp
  with False show ?thesis
    unfolding all_weeks_ok [OF m] assms(1) by simp
qed

lemma enhance_ok_iff:
  "is_ok (enhance_with_real_content s topic u) \<longleftrightarrow> well_formed_structure s"
proof (cases s)
  case (JObj kvs)
  show ?thesis
  proof (cases "map_of kvs ''weekly_themes''")
    case None
    with JObj show ?thesis by (simp add: is_ok_enhance)
  next
    case (Some themes)
    show ?thesis
    proof (cases "py_len themes")
      case (Inl e)
      with JObj Some show ?thesis by (simp add: is_ok_enhance)
    next
      case (Inr n)
      have "is_ok (enhance_with_real_content s topic u) \<longleftrightarrow>
          (\<forall>i<min 4 n. is_ok (build_week (JObj kvs) (resources_for topic) (projects_for topic) i))
          \<and> is_ok (py_getitem s ''title'') \<and> is_ok (py_getitem s ''overview'')"
        unfolding is_ok_enhance using JObj Some Inr by auto
      also have "\<dots> \<longleftrightarrow> (n = 0 \<or> (is_sequence themes
            \<and> long_sequence (map_of kvs ''weekly_focus'') (min 4 n)
            \<and> long_sequence (map_of kvs ''weekly_objectives'') (min 4 n)))
          \<and> map_of kvs ''title'' \<noteq> None \<and> map_of kvs ''overview'' \<noteq> None"
        unfolding weeks_ok_iff [OF Some Inr] JObj is_ok_getitem_JObj ..
      also have "\<dots> \<longleftrightarrow> well_formed_structure s"
        using JObj Some Inr by auto
      finally show ?thesis .
    qed
  qed
qed (simp_all add: is_ok_enhance)

section \<open>Numbering and content of the weeks\<close>

lemma enhance_week_numbers:
  assumes "enhance_with_real_content structure topic user_input = Inr c"
  shows "map wp_week (rm_weekly_plan c) = week_numbers (length (rm_weekly_plan c))"
  unfolding week_numbers_def
  by (rule nth_equalityI) (simp_all add: enhance_week_facts(1) [OF assms])

lemma week_numbers_upto: "week_numbers k = [1..int k]"
proof (induction k)
  case 0
  show ?case by (simp add: week_numbers_def)
next
  case (Suc k)
  have "[1..int (Suc k)] = [1..int k] @ [int k + 1]"
    by (simp add: upto_rec2 add.commute)
  with Suc show ?case by (simp add: week_numbers_def)
qed

lemma enhance_resource_types:
  assumes "enhance_with_real_content structure topic user_input = Inr c"
    and "i < length (rm_weekly_plan c)"
  shows "map res_type (wp_resources (rm_weekly_plan c ! i)) =
     (if i = 0 then [''Video'', ''Course'']
      else if i = 1 then [''Course'', ''Article'']
      else [''Video'', ''Project''])"
  by (simp only: enhance_week_facts(3) [OF assms] week_resources_shipped)

lemma enhance_timeline:
  assumes "enhance_with_real_content structure topic user_input = Inr c"
  shows "rm_visual_timeline c = map timeline_of_week (rm_weekly_plan c)"
  using assms by (auto elim!: enhance_Inr simp: generate_timeline_data_def)

lemma enhance_milestones:
  assumes "enhance_with_real_content structure topic user_input = Inr c"
  shows "rm_milestone_projects c = map Template (projects_for topic)"
  using assms by (auto elim!: enhance_Inr)

section \<open>The deterministic structure is always accepted\<close>

lemma well_formed_basic [simp]: "well_formed_structure (create_basic_structure user_input)"
  by (simp add: create_basic_structure_def is_sequence_def long_sequence_def)

lemma enhance_basic_ok:
  "is_ok (enhance_with_real_content (create_basic_structure u) topic u')"
  by (simp add: enhance_ok_iff)

section \<open>Errors and the number of weeks\<close>

lemma enhance_error:
  assumes "enhance_with_real_content s topic u = Inl e"
  shows "lookup_error e"
  using assms
  by (auto simp: enhance_with_real_content_def Let_def bind_res_eq_Inl
      dest!: map_res_error
      dest: py_getitem_lookup_error py_len_lookup_error build_week_error)

lemma enhance_themes_count:
  assumes "enhance_with_real_content s topic u = Inr c"
  shows "length (rm_weekly_plan c) = min 4 (themes_count s)"
proof -
  from assms obtain themes n where "py_getitem s ''weekly_themes'' = Inr themes"
    and "py_len themes = Inr n"
    by (rule enhance_Inr)
  with enhance_length [OF assms this] show ?thesis
    by (simp add: themes_count_def)
qed

lemma five_week_ok: "is_ok (enhance_with_real_content five_week_structure topic u)"
  by (simp add: enhance_ok_iff five_week_structure_def long_sequence_def is_sequence_def)

lemmas five_week_Inr = is_ok_projr [OF five_week_ok]

lemma themes_count_five [simp]: "themes_count five_week_structure = 5"
  by (simp add: themes_count_def five_week_structure_def)

lemma five_week_index:
  "i < 4 \<Longrightarrow>
     i < length (rm_weekly_plan (projr (enhance_with_real_content five_week_structure topic u)))"
  using enhance_themes_count [OF five_week_Inr [of topic u]] by simp

lemma five_week_length [simp]:
  "length (rm_weekly_plan (projr (enhance_with_real_content five_week_structure topic u))) = 4"
  using enhance_themes_count [OF five_week_Inr [of topic u]] by simp

section \<open>The python catalog week by week\<close>

lemma python_week_resources:
  "map res_title (week_resources 0 python_resources) =
     [''Python for Beginners - Full Course'', ''Python for Everybody'']"
  "map res_title (week_resources (Suc 0) python_resources) =
     [''Python for Everybody'', ''Python Official Tutorial'']"
  "map res_title (week_resources 2 python_resources) =
     [''Python for Beginners - Full Course'', ''100 Days of Code: Python'']"
  "map res_title (week_resources 3 python_resources) =
     [''Python for Beginners - Full Course'', ''100 Days of Code: Python'']"
  by (simp_all add: week_resources_def first_matches_def python_resources_def)

lemma python_week_projects:
  "map (\<lambda>i. pj_title (week_project i python_projects)) [0, 1, 2, 3] =
     [''Build a Personal Finance Tracker'', ''Web Scraper for News Articles'',
      ''Web Scraper for News Articles'', ''Web Scraper for News Articles'']"
  by (simp add: week_project_def python_projects_def)

section \<open>Properties of the assembler\<close>

text \<open>
  C3.  The assembler returns a plan exactly for the well-formed structures: a
  dictionary with a title, an overview and a \<^verbatim>\<open>weekly_themes\<close> entry that has a
  length, and, unless that length is zero, three weekly sequences with an entry for
  each of the first \<open>min 4 n\<close> weeks.  On every other structure it raises, and what
  it raises is a \<^verbatim>\<open>KeyError\<close>, an \<^verbatim>\<open>IndexError\<close> or a \<^verbatim>\<open>TypeError\<close>, never an HTTP
  error.
\<close>

theorem assembler_returns_iff_well_formed:
  "(is_ok (enhance_with_real_content s topic u) \<longleftrightarrow> well_formed_structure s)
   \<and> (\<forall>e. enhance_with_real_content s topic u = Inl e \<longrightarrow> lookup_error e)"
  by (simp add: enhance_ok_iff enhance_error)

theorem assembler_returns_iff_well_formed_witness:
  "enhance_with_real_content (JArr []) ''python'' example_input = Inl TypeError
   \<and> \<not> well_formed_structure (JArr []) \<and> lookup_error TypeError"
  using assembler_returns_iff_well_formed [of "JArr []" "''python''" example_input]
  by (simp add: enhance_with_real_content_def)

text \<open>
  C11.  A plan the assembler returns has \<open>min 4 n\<close> weeks, where \<open>n\<close> is the number
  of themes of the structure, so never more than four; the weeks are numbered
  1, 2, ... without a gap, and the timeline has one entry per week in the same
  order.
\<close>

theorem assembled_weeks_numbered:
  assumes "enhance_with_real_content s topic u = Inr c"
  shows "length (rm_weekly_plan c) = min 4 (themes_count s)
    \<and> map wp_week (rm_weekly_plan c) = [1..int (length (rm_weekly_plan c))]
    \<and> map tl_week (rm_visual_timeline c) = map wp_week (rm_weekly_plan c)"
  using assms
  by (simp add: enhance_themes_count enhance_week_numbers week_numbers_upto
      enhance_timeline timeline_of_week_def comp_def)

theorem assembled_weeks_numbered_witness:
  "map wp_week (rm_weekly_plan
       (projr (enhance_with_real_content five_week_structure ''web'' example_input)))
     = [1, 2, 3, 4]"
  using assembled_weeks_numbered [OF five_week_Inr [of "''web''" example_input]]
  by (simp add: upto_rec1)

text \<open>
  C12.  The resources of week \<open>i\<close> (counted from 0) of an assembled plan are the
  first two catalog resources of the topic whose type is allowed in that week, in
  catalog order: Video or Course in the first week, Article or Course in the
  second, Project or Video from the third on.  On the shipped catalogs this gives
  the types Video, Course, then Course, Article, then Video, Project.
\<close>

theorem assembled_week_resources:
  assumes "enhance_with_real_content s topic u = Inr c"
    and "i < length (rm_weekly_plan c)"
  shows "wp_resources (rm_weekly_plan c ! i) =
       take 2 (filter (\<lambda>r. res_type r \<in> set (week_types i)) (resources_for topic))
    \<and> subseq (wp_resources (rm_weekly_plan c ! i)) (resources_for topic)
    \<and> map res_type (wp_resources (rm_weekly_plan c ! i)) =
       (if i = 0 then [''Video'', ''Course'']
        else if i = 1 then [''Course'', ''Article'']
        else [''Video'', ''Project''])"
proof (intro conjI)
  have r: "wp_resources (rm_weekly_plan c ! i) = week_resources i (resources_for topic)"
    by (rule enhance_week_facts(3) [OF assms])
  then show "wp_resources (rm_weekly_plan c ! i) =
      take 2 (filter (\<lambda>r. res_type r \<in> set (week_types i)) (resources_for topic))"
    by (simp add: week_resources_eq first_matches_def)
  show "subseq (wp_resources (rm_weekly_plan c ! i)) (resources_for topic)"
    unfolding r by (rule subseq_week_resources)
  show "map res_type (wp_resources (rm_weekly_plan c ! i)) =
      (if i = 0 then [''Video'', ''Course'']
       else if i = 1 then [''Course'', ''Article'']
       else [''Video'', ''Project''])"
    by (rule enhance_resource_types [OF assms])
qed

theorem assembled_week_resources_witness:
  "map res_title (wp_resources (rm_weekly_plan
       (projr (enhance_with_real_content five_week_structure ''web'' example_input)) ! 1))
     = map res_title [web_resources ! 1, web_resources ! 2]"
  using assembled_week_resources [OF five_week_Inr [of "''web''" example_input], of 1]
  by (simp add: week_types_def web_resources_def catalog_simps)

text \<open>
  C25.  The project of week \<open>i\<close> of an assembled plan is the catalog project of the
  topic at index \<open>min i 1\<close>: the first project in week 1 and the last one from week
  2 on.  It always comes from the catalog, the placeholder project is never used,
  and the timeline entry of the week carries its title.
\<close>

theorem assembled_week_project:
  assumes "enhance_with_real_content s topic u = Inr c"
    and "i < length (rm_weekly_plan c)"
  shows "wp_project (rm_weekly_plan c ! i) = projects_for topic ! min i 1
    \<and> wp_project (rm_weekly_plan c ! i) \<in> set (projects_for topic)
    \<and> tl_project (rm_visual_timeline c ! i) = Some (pj_title (projects_for topic ! min i 1))"
  using enhance_week_facts(4) [OF assms] assms(2)
  by (simp add: week_project_shipped week_project_never_placeholder
      enhance_timeline [OF assms(1)] timeline_of_week_def)

theorem assembled_week_project_witness:
  "map (\<lambda>i. wp_project (rm_weekly_plan
       (projr (enhance_with_real_content five_week_structure ''web'' example_input)) ! i))
     [2, 3] = [web_projects ! 1, web_projects ! 1]"
  using assembled_week_project [OF five_week_Inr [of "''web''" example_input], of 2]
    assembled_week_project [OF five_week_Inr [of "''web''" example_input], of 3]
  by (simp add: catalog_simps)

text \<open>
  C26.  The time estimate of week \<open>i\<close> (counted from 0) of an assembled plan is the
  text \<^verbatim>\<open>a-b hours\<close> with \<open>a = 10 + 5 i\<close> and \<open>b = 15 + 5 i\<close> in decimal, the
  number read back from it before the dash is \<open>10 + 5 i\<close>, and the number of the
  week is \<open>i + 1\<close>.
\<close>

theorem assembled_time_estimates:
  assumes "enhance_with_real_content s topic u = Inr c"
    and "i < length (rm_weekly_plan c)"
  shows "wp_time_estimate (rm_weekly_plan c ! i) =
       str_nat (10 + i * 5) @ ''-'' @ str_nat (15 + i * 5) @ '' hours''
    \<and> estimate_low (wp_time_estimate (rm_weekly_plan c ! i)) = 10 + i * 5
    \<and> wp_week (rm_weekly_plan c ! i) = int i + 1"
  using enhance_week_facts(1,2) [OF assms]
  by (simp add: estimate_low_time_estimate) (simp add: time_estimate_def)

theorem assembled_time_estimates_witness:
  "wp_time_estimate (rm_weekly_plan
       (projr (enhance_with_real_content five_week_structure ''web'' example_input)) ! 3)
     = ''25-30 hours''"
  using assembled_time_estimates [OF five_week_Inr [of "''web''" example_input], of 3]
  by (simp add: str_nat_numeral_simps)

text \<open>
  C27.  Theme, focus and objectives of week \<open>i\<close> of an assembled plan are the
  \<open>i\<close>-th entries of the structure's three weekly sequences, title and overview
  are the structure's, and the timeline entry of the week is derived from the
  week.  The entries are copied as they are: a string in place of a list yields
  its \<open>i\<close>-th character.
\<close>

theorem assembled_week_content:
  assumes "enhance_with_real_content s topic u = Inr c"
    and "i < length (rm_weekly_plan c)"
  shows "py_path s ''weekly_themes'' i = Inr (wp_theme (rm_weekly_plan c ! i))
    \<and> py_path s ''weekly_focus'' i = Inr (wp_focus (rm_weekly_plan c ! i))
    \<and> py_path s ''weekly_objectives'' i = Inr (wp_objectives (rm_weekly_plan c ! i))
    \<and> py_getitem s ''title'' = Inr (rm_title c)
    \<and> py_getitem s ''overview'' = Inr (rm_overview c)
    \<and> rm_visual_timeline c ! i = timeline_of_week (rm_weekly_plan c ! i)"
proof -
  from assms(1) have "py_getitem s ''title'' = Inr (rm_title c)"
    and "py_getitem s ''overview'' = Inr (rm_overview c)"
    by (auto elim: enhance_Inr)
  with enhance_week_facts(5,6,7) [OF assms] assms(2) show ?thesis
    by (simp add: enhance_timeline [OF assms(1)])
qed

theorem assembled_week_content_witness:
  "wp_theme (rm_weekly_plan
       (projr (enhance_with_real_content five_week_structure ''web'' example_input)) ! 2)
     = JStr ''C''
   \<and> wp_focus (rm_weekly_plan
       (projr (enhance_with_real_content five_week_structure ''web'' example_input)) ! 2)
     = JStr ''c''"
  using assembled_week_content [OF five_week_Inr five_week_index, of 2 "''web''" example_input]
  by (simp add: five_week_structure_def py_path_def)

end
