(* ===== verification/Fallback_Plan.thy ===== *)
theory Fallback_Plan
  imports Plan_Assembler
begin

text \<open>
  The fallback plan of \<^verbatim>\<open>src/main.py\<close>: \<^verbatim>\<open>create_fallback_roadmap\<close> builds a complete
  four-week plan from the catalogs and fixed text, with its own identifier and time
  stamp, and cannot raise.  It is written independently of the assembler: its weeks
  choose resources by position (the first two, the next two, the projects, one
  fixed entry) and its timeline entries carry no project.  The lemmas give the
  shape of the fallback plan and compare it with an assembled plan.
\<close>

section \<open>The four weeks\<close>

definition fallback_week_1 :: "resource list \<Rightarrow> project list \<Rightarrow> week_plan" where
  "fallback_week_1 topic_resources topic_projects =
     \<lparr>wp_week = 1,
      wp_theme = JStr ''Getting Started & Fundamentals'',
      wp_focus = JStr ''Learn the basics and set up your development environment'',
      wp_objectives = JArr [JStr ''Install necessary tools'', JStr ''Learn basic syntax'',
        JStr ''Complete first project''],
      wp_time_estimate = ''10-15 hours'',
      wp_resources = py_slice 0 2 topic_resources,
      wp_project =
        (if topic_projects \<noteq> [] then topic_projects ! 0
         else \<lparr>pj_title = ''Hello World Project'',
               pj_description = ''Create your first working application'',
               pj_github_template = ''https://github.com/'',
               pj_skills = [''Setup'', ''Basic Syntax'', ''Debugging''],
               pj_demo_url = None\<rparr>)\<rparr>"

definition fallback_week_2 :: "resource list \<Rightarrow> project list \<Rightarrow> week_plan" where
  "fallback_week_2 topic_resources topic_projects =
     \<lparr>wp_week = 2,
      wp_theme = JStr ''Core Concepts & Practice'',
      wp_focus = JStr ''Master fundamental concepts through hands-on exercises'',
      wp_objectives = JArr [JStr ''Practice key concepts'', JStr ''Build small applications'',
        JStr ''Learn debugging''],
      wp_time_estimate = ''15-20 hours'',
      wp_resources = py_slice 2 4 topic_resources,
      wp_project =
        (if length topic_projects > 1 then topic_projects ! 1
         else \<lparr>pj_title = ''Practical Application'',
               pj_description = ''Build a functional application solving a real problem'',
               pj_github_template = ''https://github.com/'',
               pj_skills = [''Problem Solving'', ''Implementation'', ''Testing''],
               pj_demo_url = None\<rparr>)\<rparr>"

definition fallback_week_3 :: "resource list \<Rightarrow> week_plan" where
  "fallback_week_3 topic_resources =
     \<lparr>wp_week = 3,
      wp_theme = JStr ''Advanced Techniques'',
      wp_focus = JStr ''Learn advanced features and optimization techniques'',
      wp_objectives = JArr [JStr ''Implement advanced features'', JStr ''Optimize performance'',
        JStr ''Learn testing''],
      wp_time_estimate = ''20-25 hours'',
      wp_resources = first_matches 2 (\<lambda>r. res_type r = ''Project'') topic_resources,
      wp_project =
        \<lparr>pj_title = ''Advanced Project'',
         pj_description = ''Create an optimized application with advanced features'',
         pj_github_template = ''https://github.com/'',
         pj_skills = [''Advanced Features'', ''Optimization'', ''Deployment''],
         pj_demo_url = None\<rparr>\<rparr>"

definition fallback_week_4 :: week_plan where
  "fallback_week_4 =
     \<lparr>wp_week = 4,
      wp_theme = JStr ''Real-World Projects'',
      wp_focus = JStr ''Build portfolio-worthy projects and deploy them'',
      wp_objectives = JArr [JStr ''Complete major project'', JStr ''Deploy application'',
        JStr ''Document code''],
      wp_time_estimate = ''25-30 hours'',
      wp_resources =
        [\<lparr>res_type = ''Project'', res_title = ''Portfolio Projects'',
          res_url = ''https://github.com/topics/portfolio'',
          res_platform = Some ''GitHub'', res_channel = None, res_source = None,
          res_free = None\<rparr>],
      wp_project =
        \<lparr>pj_title = ''Portfolio Showcase'',
         pj_description = ''Build a complete application for your portfolio'',
         pj_github_template = ''https://github.com/'',
         pj_skills = [''Full-stack Development'', ''Deployment'', ''Documentation''],
         pj_demo_url = None\<rparr>\<rparr>"

section \<open>The fixed parts\<close>

definition fallback_milestones :: "project list \<Rightarrow> milestone list" where
  "fallback_milestones topic_projects =
     (if topic_projects \<noteq> [] then map Template (take 3 topic_projects)
      else
        [Named \<lparr>nm_name = ''Portfolio Project'',
           nm_description = ''Showcase your skills with a complete application'',
           nm_skills = [''Frontend'', ''Backend'', ''Deployment'']\<rparr>,
         Named \<lparr>nm_name = ''Open Source Contribution'',
           nm_description = ''Contribute to a real open-source project'',
           nm_skills = [''Git'', ''Collaboration'', ''Code Review'']\<rparr>])"

definition fallback_success_tips :: "string list" where
  "fallback_success_tips =
     [''Code consistently - small daily progress beats occasional marathons'',
      ''Build projects you're passionate about'',
      ''Join communities and ask for help'',
      ''Document your journey and share learnings'',
      ''Don't fear mistakes - they're learning opportunities'']"

definition fallback_community_recommendations :: "string list" where
  "fallback_community_recommendations =
     [''Discord Programming Communities'',
      ''Reddit Learning Subreddits'',
      ''GitHub Open Source'',
      ''Stack Overflow for Questions'']"

definition fallback_timeline :: "timeline_entry list" where
  "fallback_timeline =
     [\<lparr>tl_week = 1, tl_theme = JStr ''Fundamentals'',
       tl_milestones = JArr [JStr ''Setup'', JStr ''Basics'', JStr ''First Project''],
       tl_project = None\<rparr>,
      \<lparr>tl_week = 2, tl_theme = JStr ''Core Skills'',
       tl_milestones = JArr [JStr ''Practice'', JStr ''Small Apps'', JStr ''Debugging''],
       tl_project = None\<rparr>,
      \<lparr>tl_week = 3, tl_theme = JStr ''Advanced'',
       tl_milestones = JArr [JStr ''Advanced Features'', JStr ''Optimization'', JStr ''Testing''],
       tl_project = None\<rparr>,
      \<lparr>tl_week = 4, tl_theme = JStr ''Real World'',
       tl_milestones = JArr [JStr ''Portfolio Project'', JStr ''Deployment'',
         JStr ''Documentation''],
       tl_project = None\<rparr>]"

section \<open>The fallback plan\<close>

definition create_fallback_roadmap ::
    "environment \<Rightarrow> EnhancedUserInput \<Rightarrow> string \<Rightarrow> roadmap" where
  "create_fallback_roadmap env user_input topic =
     (let topic_resources = resources_for topic;
          topic_projects = projects_for topic;
          roadmap_id = take 8 (env_uuid4 env) in
      \<lparr>rm_title = JStr (''Hands-On '' @ ui_goal user_input @ '' Learning Roadmap''),
       rm_overview = JStr (''A practical '' @ ui_time_commitment user_input
         @ '' journey to master '' @ ui_goal user_input
         @ '' through real projects and working resources.''),
       rm_prerequisites =
         \<lparr>pre_knowledge = [''Basic computer literacy'', ''Problem-solving mindset''],
          pre_tools = [''Computer with internet'', ''Modern browser'', ''Code editor'']\<rparr>,
       rm_weekly_plan =
         [fallback_week_1 topic_resources topic_projects,
          fallback_week_2 topic_resources topic_projects,
          fallback_week_3 topic_resources,
          fallback_week_4],
       rm_milestone_projects = fallback_milestones topic_projects,
       rm_success_tips = fallback_success_tips,
       rm_community_recommendations = fallback_community_recommendations,
       rm_visual_timeline = fallback_timeline,
       rm_roadmap_id = roadmap_id,
       rm_generated_at = env_now env,
       rm_topic = topic\<rparr>)"

lemmas fallback_week_defs =
  fallback_week_1_def fallback_week_2_def fallback_week_3_def fallback_week_4_def

section \<open>Shape of the fallback plan\<close>

lemma fallback_weekly_plan:
  "rm_weekly_plan (create_fallback_roadmap env user_input topic) =
     [fallback_week_1 (resources_for topic) (projects_for topic),
      fallback_week_2 (resources_for topic) (projects_for topic),
      fallback_week_3 (resources_for topic), fallback_week_4]"
  by (simp add: create_fallback_roadmap_def Let_def)

lemma fallback_length [simp]:
  "length (rm_weekly_plan (create_fallback_roadmap env user_input topic)) = 4"
  by (simp add: fallback_weekly_plan)

lemma fallback_week_numbers:
  "map wp_week (rm_weekly_plan (create_fallback_roadmap env user_input topic)) = week_numbers 4"
  by (simp add: fallback_weekly_plan fallback_week_defs week_numbers_def upt_rec)

lemma fallback_time_estimates:
  "map wp_time_estimate (rm_weekly_plan (create_fallback_roadmap env user_input topic)) =
     map time_estimate [0, 1, 2, 3]"
  by (simp add: fallback_weekly_plan fallback_week_defs)

lemma fallback_metadata [simp]:
  "rm_roadmap_id (create_fallback_roadmap env user_input topic) = take 8 (env_uuid4 env)"
  "rm_generated_at (create_fallback_roadmap env user_input topic) = env_now env"
  "rm_topic (create_fallback_roadmap env user_input topic) = topic"
  by (simp_all add: create_fallback_roadmap_def Let_def)

lemma fallback_milestones_shipped:
  "rm_milestone_projects (create_fallback_roadmap env user_input topic) =
     map Template (projects_for topic)"
  by (simp add: create_fallback_roadmap_def Let_def fallback_milestones_def)

lemma fallback_week_1_project:
  "wp_project (fallback_week_1 (resources_for topic) (projects_for topic)) =
     projects_for topic ! 0"
  by (simp add: fallback_week_1_def)

lemma fallback_week_2_project:
  "wp_project (fallback_week_2 (resources_for topic) (projects_for topic)) =
     projects_for topic ! 1"
  by (simp add: fallback_week_2_def)

lemma fallback_resource_types:
  "map (\<lambda>w. map res_type (wp_resources w))
       (rm_weekly_plan (create_fallback_roadmap env user_input topic)) =
     [[''Video'', ''Course''], [''Article'', ''Project''], [''Project''], [''Project'']]"
proof -
  let ?rs = "resources_for topic"
  have types: "map res_type ?rs = resource_types" by (rule resources_for_types)
  have 1: "map res_type (py_slice 0 2 ?rs) = [''Video'', ''Course'']"
    using types by (simp add: take_map [symmetric] resource_types_def)
  have 2: "map res_type (py_slice 2 4 ?rs) = [''Article'', ''Project'']"
    using types
    by (simp add: py_slice_def take_map [symmetric] drop_map [symmetric] resource_types_def)
  have 3: "map res_type (first_matches 2 (\<lambda>r. res_type r = ''Project'') ?rs) = [''Project'']"
    using map_first_matches [of res_type 2 "\<lambda>t. t = ''Project''" ?rs] types
    by (simp add: resource_types_def)
  show ?thesis
    by (simp add: fallback_weekly_plan fallback_week_defs 1 2 3 del: py_slice_0)
qed

lemma fallback_timeline_no_project:
  "\<forall>e \<in> set (rm_visual_timeline (create_fallback_roadmap env user_input topic)).
     tl_project e = None"
  by (simp add: create_fallback_roadmap_def Let_def fallback_timeline_def)

section \<open>Properties of the fallback plan\<close>

text \<open>
  C28.  The fallback plan has four weeks numbered 1 to 4 with the time estimates of
  an assembled plan.  Its first week takes the first two catalog resources and its
  second week the next two, which on the shipped catalogs are Video, Course and
  Article, Project; the last two weeks carry one fixed Project resource each.  The
  first two weeks carry the two catalog projects, which are also the milestones.
  The timeline has four entries, none of which names a project, and the plan
  carries the identifier, the time stamp and the topic of the request.
\<close>

theorem fallback_plan_shape:
  "map wp_week (rm_weekly_plan (create_fallback_roadmap env user_input topic)) = [1, 2, 3, 4]
   \<and> map wp_time_estimate (rm_weekly_plan (create_fallback_roadmap env user_input topic))
       = map time_estimate [0, 1, 2, 3]
   \<and> map (\<lambda>w. map res_type (wp_resources w))
         (rm_weekly_plan (create_fallback_roadmap env user_input topic))
       = [[''Video'', ''Course''], [''Article'', ''Project''], [''Project''], [''Project'']]
   \<and> wp_project (rm_weekly_plan (create_fallback_roadmap env user_input topic) ! 0)
       = projects_for topic ! 0
   \<and> wp_project (rm_weekly_plan (create_fallback_roadmap env user_input topic) ! 1)
       = projects_for topic ! 1
   \<and> rm_milestone_projects (create_fallback_roadmap env user_input topic)
       = map Template (projects_for topic)
   \<and> map tl_week (rm_visual_timeline (create_fallback_roadmap env user_input topic))
       = [1, 2, 3, 4]
   \<and> map tl_project (rm_visual_timeline (create_fallback_roadmap env user_input topic))
       = [None, None, None, None]
   \<and> rm_roadmap_id (create_fallback_roadmap env user_input topic) = take 8 (env_uuid4 env)
   \<and> rm_generated_at (create_fallback_roadmap env user_input topic) = env_now env
   \<and> rm_topic (create_fallback_roadmap env user_input topic) = topic"
proof -
  have "map tl_week (rm_visual_timeline (create_fallback_roadmap env user_input topic))
       = [1, 2, 3, 4]"
    "map tl_project (rm_visual_timeline (create_fallback_roadmap env user_input topic))
       = [None, None, None, None]"
    by (simp_all add: create_fallback_roadmap_def Let_def fallback_timeline_def)
  moreover have "week_numbers 4 = [1, 2, 3, 4]"
    by (simp add: week_numbers_def upt_rec)
  ultimately show ?thesis
    using fallback_week_numbers [of env user_input topic]
      fallback_time_estimates [of env user_input topic]
      fallback_resource_types [of env user_input topic]
      fallback_milestones_shipped [of env user_input topic]
      fallback_week_1_project [of topic] fallback_week_2_project [of topic]
    by (simp add: fallback_weekly_plan)
qed

end
