(* ===== verification/Progress_Tracker.thy ===== *)
theory Progress_Tracker
  imports Fallback_Plan
begin

text \<open>
  The progress tracker of \<^verbatim>\<open>src/main.py\<close>: the request model \<^verbatim>\<open>ProgressUpdate\<close>,
  the progress record kept beside a stored plan, the three conditional appends of
  \<^verbatim>\<open>update_progress\<close> as one function on that record, and the percentage with
  its rounding.  Python computes the percentage in binary floating point; here it
  is an exact rational, and \<^verbatim>\<open>round(x, 1)\<close> is rounding to the nearest tenth with
  ties to the even tenth.  The two can differ only where the exact value is
  close to a tie, which does not happen for a plan of one to four weeks: there the
  rounding is stable under every error below one sixtieth.  The division is the
  one of Python, which raises on a zero divisor.  An abstract tracker (a set of
  weeks, a multiset of project completions, a log of notes) states what the
  record stands for, and the refinement lemmas show that the appends implement it.
\<close>

section \<open>Request model and progress record\<close>

record ProgressUpdate =
  pu_roadmap_id :: string
  pu_week_completed :: int
  pu_project_done :: bool
  pu_notes :: "string option"

record note_entry =
  ne_week :: int
  ne_note :: string
  ne_timestamp :: string

text \<open>
  The dictionary \<^verbatim>\<open>progress\<close>: the key \<^verbatim>\<open>notes\<close> is absent until the first note is
  stored, the other two keys exist from the start.
\<close>

record progress =
  completed_weeks :: "int list"
  completed_projects :: "int list"
  pg_notes :: "note_entry list option"

definition initial_progress :: progress where
  "initial_progress = \<lparr>completed_weeks = [], completed_projects = [], pg_notes = None\<rparr>"

section \<open>Recording an update\<close>

definition mark_week :: "int \<Rightarrow> progress \<Rightarrow> progress" where
  "mark_week week p =
     (if week \<notin> set (completed_weeks p)
      then p\<lparr>completed_weeks := completed_weeks p @ [week]\<rparr> else p)"

definition mark_project :: "bool \<Rightarrow> int \<Rightarrow> progress \<Rightarrow> progress" where
  "mark_project project_done week p =
     (if project_done then p\<lparr>completed_projects := completed_projects p @ [week]\<rparr> else p)"

text \<open>\<^verbatim>\<open>if update.notes:\<close> holds for a note that is present and not empty.\<close>

definition add_note :: "string option \<Rightarrow> int \<Rightarrow> string \<Rightarrow> progress \<Rightarrow> progress" where
  "add_note note week now p =
     (case note of
        None \<Rightarrow> p
      | Some text_of_note \<Rightarrow>
          if text_of_note = [] then p
          else p\<lparr>pg_notes := Some ((case pg_notes p of None \<Rightarrow> [] | Some ns \<Rightarrow> ns)
                 @ [\<lparr>ne_week = week, ne_note = text_of_note, ne_timestamp = now\<rparr>])\<rparr>)"

definition record_update :: "string \<Rightarrow> ProgressUpdate \<Rightarrow> progress \<Rightarrow> progress" where
  "record_update now update p =
     add_note (pu_notes update) (pu_week_completed update) now
       (mark_project (pu_project_done update) (pu_week_completed update)
         (mark_week (pu_week_completed update) p))"

section \<open>Percentage and rounding\<close>

text \<open>
  Python's \<^verbatim>\<open>a / b\<close> raises on a zero divisor, where the division of HOL returns 0.
  \<open>py_percentage\<close> is the conditional expression of lines 460 and 482 with that
  division, so that the test \<^verbatim>\<open>total_weeks > 0\<close> is what keeps it from raising;
  \<open>percentage\<close> is the number it returns.
\<close>

definition py_truediv :: "rat \<Rightarrow> rat \<Rightarrow> rat result" where
  "py_truediv a b = (if b = 0 then Inl ZeroDivisionError else Inr (a / b))"

definition py_percentage :: "nat \<Rightarrow> nat \<Rightarrow> rat result" where
  "py_percentage completed total_weeks =
     (if total_weeks > 0
      then bind_res (py_truediv (of_nat completed) (of_nat total_weeks)) (\<lambda>q. Inr (q * 100))
      else Inr 0)"

definition percentage :: "nat \<Rightarrow> nat \<Rightarrow> rat" where
  "percentage completed total_weeks =
     (if total_weeks > 0 then of_nat completed / of_nat total_weeks * 100 else 0)"

definition round_half_even :: "rat \<Rightarrow> int" where
  "round_half_even y =
     (let f = \<lfloor>y\<rfloor>; d = y - of_int f in
      if d < 1 / 2 then f else if 1 / 2 < d then f + 1
      else if even f then f else f + 1)"

definition py_round1 :: "rat \<Rightarrow> rat" where
  "py_round1 x = of_int (round_half_even (x * 10)) / 10"

text \<open>The same rounding of a quotient of integers, by integer division.\<close>

definition round_div :: "int \<Rightarrow> int \<Rightarrow> int" where
  "round_div a b =
     (let q = a div b; r = a mod b in
      if 2 * r < b then q else if b < 2 * r then q + 1
      else if even q then q else q + 1)"

definition progress_percentage :: "nat \<Rightarrow> nat \<Rightarrow> rat" where
  "progress_percentage completed total_weeks = py_round1 (percentage completed total_weeks)"

section \<open>The abstract tracker\<close>

record tracker =
  tr_weeks :: "int set"
  tr_projects :: "int multiset"
  tr_notes :: "note_entry list"

definition abstraction :: "progress \<Rightarrow> tracker" where
  "abstraction p =
     \<lparr>tr_weeks = set (completed_weeks p),
      tr_projects = mset (completed_projects p),
      tr_notes = (case pg_notes p of None \<Rightarrow> [] | Some ns \<Rightarrow> ns)\<rparr>"


definition track :: "string \<Rightarrow> ProgressUpdate \<Rightarrow> tracker \<Rightarrow> tracker" where
  "track now update t =
     \<lparr>tr_weeks = insert (pu_week_completed update) (tr_weeks t),
      tr_projects =
        (if pu_project_done update then add_mset (pu_week_completed update) (tr_projects t)
         else tr_projects t),
      tr_notes =
        (case pu_notes update of
           None \<Rightarrow> tr_notes t
         | Some n \<Rightarrow>
             if n = [] then tr_notes t
             else tr_notes t @ [\<lparr>ne_week = pu_week_completed update, ne_note = n,
                                  ne_timestamp = now\<rparr>])\<rparr>"

text \<open>What holds of every progress record the service can hold.\<close>

definition notes_of :: "progress \<Rightarrow> note_entry list" where
  "notes_of p = (case pg_notes p of None \<Rightarrow> [] | Some ns \<Rightarrow> ns)"

definition progress_inv :: "progress \<Rightarrow> bool" where
  "progress_inv p \<longleftrightarrow>
     distinct (completed_weeks p)
     \<and> set (completed_projects p) \<subseteq> set (completed_weeks p)
     \<and> (case pg_notes p of
          None \<Rightarrow> True
        | Some ns \<Rightarrow> ns \<noteq> [] \<and> ne_week ` set ns \<subseteq> set (completed_weeks p)
            \<and> (\<forall>n \<in> set ns. ne_note n \<noteq> []))"

text \<open>The update of the worked example.\<close>

definition example_update :: ProgressUpdate where
  "example_update =
     \<lparr>pu_roadmap_id = ''0f8fad5b'', pu_week_completed = 2, pu_project_done = True,
      pu_notes = None\<rparr>"

lemmas tracker_defs = record_update_def mark_week_def mark_project_def add_note_def

section \<open>The three appends\<close>

lemma mark_week_weeks:
  "completed_weeks (mark_week w p) =
     (if w \<in> set (completed_weeks p) then completed_weeks p else completed_weeks p @ [w])"
  by (simp add: mark_week_def)

lemma mark_week_frame [simp]:
  "completed_projects (mark_week w p) = completed_projects p"
  "pg_notes (mark_week w p) = pg_notes p"
  by (simp_all add: mark_week_def)

lemma mark_project_frame [simp]:
  "completed_weeks (mark_project d w p) = completed_weeks p"
  "pg_notes (mark_project d w p) = pg_notes p"
  by (simp_all add: mark_project_def)

lemma mark_project_projects:
  "completed_projects (mark_project d w p) =
     (if d then completed_projects p @ [w] else completed_projects p)"
  by (simp add: mark_project_def)

lemma add_note_frame [simp]:
  "completed_weeks (add_note n w now p) = completed_weeks p"
  "completed_projects (add_note n w now p) = completed_projects p"
  by (simp_all add: add_note_def split: option.splits)

lemma record_update_weeks:
  "completed_weeks (record_update now u p) =
     (if pu_week_completed u \<in> set (completed_weeks p) then completed_weeks p
      else completed_weeks p @ [pu_week_completed u])"
  by (simp add: record_update_def mark_week_weeks)

lemma record_update_projects:
  "completed_projects (record_update now u p) =
     (if pu_project_done u then completed_projects p @ [pu_week_completed u]
      else completed_projects p)"
  by (simp add: record_update_def mark_project_projects)

lemma set_record_update_weeks [simp]:
  "set (completed_weeks (record_update now u p)) =
     insert (pu_week_completed u) (set (completed_weeks p))"
  by (auto simp: record_update_weeks)

lemma prefix_record_update_weeks:
  "prefix (completed_weeks p) (completed_weeks (record_update now u p))"
  by (simp add: record_update_weeks)

lemma length_record_update_weeks:
  "length (completed_weeks (record_update now u p)) =
     (if pu_week_completed u \<in> set (completed_weeks p) then length (completed_weeks p)
      else Suc (length (completed_weeks p)))"
  by (simp add: record_update_weeks)

lemma record_update_idem_weeks:
  "completed_weeks (record_update now' u (record_update now u p)) =
     completed_weeks (record_update now u p)"
  by (simp add: record_update_weeks)

lemma record_update_twice_projects:
  "pu_project_done u \<Longrightarrow>
     completed_projects (record_update now' u (record_update now u p)) =
       completed_projects p @ [pu_week_completed u, pu_week_completed u]"
  by (simp add: record_update_projects)

lemma notes_of_add_note:
  "notes_of (add_note n w now p) =
     (case n of
        None \<Rightarrow> notes_of p
      | Some t \<Rightarrow>
          if t = [] then notes_of p
          else notes_of p @ [\<lparr>ne_week = w, ne_note = t, ne_timestamp = now\<rparr>])"
  by (simp add: notes_of_def add_note_def split: option.splits)

lemma notes_of_mark [simp]:
  "notes_of (mark_week w p) = notes_of p" "notes_of (mark_project d w p) = notes_of p"
  by (simp_all add: notes_of_def)

lemma notes_of_record_update:
  "notes_of (record_update now u p) =
     (case pu_notes u of
        None \<Rightarrow> notes_of p
      | Some t \<Rightarrow>
          if t = [] then notes_of p
          else notes_of p @ [\<lparr>ne_week = pu_week_completed u, ne_note = t,
                               ne_timestamp = now\<rparr>])"
  by (simp add: record_update_def notes_of_add_note split: option.split)

lemma prefix_notes_record_update: "prefix (notes_of p) (notes_of (record_update now u p))"
  by (simp add: notes_of_record_update split: option.splits)

section \<open>Invariant\<close>

lemma progress_inv_initial [simp]: "progress_inv initial_progress"
  by (simp add: progress_inv_def initial_progress_def)

lemma pg_notes_record_update:
  "pg_notes (record_update now u p) =
     (case pu_notes u of
        None \<Rightarrow> pg_notes p
      | Some t \<Rightarrow>
          if t = [] then pg_notes p
          else Some (notes_of p @ [\<lparr>ne_week = pu_week_completed u, ne_note = t,
                                     ne_timestamp = now\<rparr>]))"
  by (simp add: record_update_def add_note_def notes_of_def split: option.split)

lemma progress_inv_record_update:
  assumes "progress_inv p"
  shows "progress_inv (record_update now u p)"
proof -
  from assms have "distinct (completed_weeks (record_update now u p))"
    by (simp add: progress_inv_def record_update_weeks)
  moreover from assms
  have "set (completed_projects (record_update now u p))
      \<subseteq> set (completed_weeks (record_update now u p))"
    by (auto simp: progress_inv_def record_update_projects)
  moreover from assms
  have "case pg_notes (record_update now u p) of
      None \<Rightarrow> True
    | Some ns \<Rightarrow> ns \<noteq> []
        \<and> ne_week ` set ns \<subseteq> set (completed_weeks (record_update now u p))
        \<and> (\<forall>n \<in> set ns. ne_note n \<noteq> [])"
    by (auto simp: progress_inv_def pg_notes_record_update notes_of_def
        split: option.splits)
  ultimately show ?thesis by (simp add: progress_inv_def)
qed

lemma progress_inv_distinct: "progress_inv p \<Longrightarrow> distinct (completed_weeks p)"
  by (simp add: progress_inv_def)

section \<open>Refinement of the abstract tracker\<close>

lemma abstraction_initial:
  "abstraction initial_progress = \<lparr>tr_weeks = {}, tr_projects = {#}, tr_notes = []\<rparr>"
  by (simp add: abstraction_def initial_progress_def)

lemma abstraction_notes: "tr_notes (abstraction p) = notes_of p"
  by (simp add: abstraction_def notes_of_def)

lemma abstraction_record_update:
  "abstraction (record_update now u p) = track now u (abstraction p)"
  by (simp add: abstraction_def track_def record_update_projects
      notes_of_record_update [unfolded notes_of_def] split: option.split)

lemma length_weeks_card:
  "progress_inv p \<Longrightarrow> length (completed_weeks p) = card (tr_weeks (abstraction p))"
  by (simp add: abstraction_def progress_inv_def distinct_card)

section \<open>The division never fails\<close>

lemma py_truediv_simps [simp]:
  "py_truediv a 0 = Inl ZeroDivisionError"
  "b \<noteq> 0 \<Longrightarrow> py_truediv a b = Inr (a / b)"
  by (simp_all add: py_truediv_def)

lemma py_percentage_eq [simp]: "py_percentage k n = Inr (percentage k n)"
  by (simp add: py_percentage_def percentage_def)

section \<open>Rounding\<close>

lemma round_half_even_of_int [simp]: "round_half_even (of_int n) = n"
  by (simp add: round_half_even_def)

lemma round_half_even_bounds:
  "\<bar>of_int (round_half_even y) - y\<bar> \<le> 1 / 2"
proof -
  define f where "f = \<lfloor>y\<rfloor>"
  define d where "d = y - of_int f"
  have d: "0 \<le> d" "d < 1" unfolding d_def f_def by linarith+
  have "round_half_even y =
      (if d < 1 / 2 then f else if 1 / 2 < d then f + 1 else if even f then f else f + 1)"
    by (simp add: round_half_even_def Let_def d_def f_def)
  then have "of_int (round_half_even y) - y =
      (if d < 1 / 2 then - d else if 1 / 2 < d then 1 - d
       else if even f then - d else 1 - d)"
    by (simp add: d_def)
  with d show ?thesis by (auto simp: abs_if split: if_splits)
qed

lemma py_round1_error: "\<bar>py_round1 x - x\<bar> \<le> 1 / 20"
proof -
  have "\<bar>of_int (round_half_even (x * 10)) - x * 10\<bar> \<le> 1 / 2"
    by (rule round_half_even_bounds)
  then have "\<bar>(of_int (round_half_even (x * 10)) - x * 10) / 10\<bar> \<le> (1 / 2) / 10"
    by (simp only: abs_divide) simp
  then show ?thesis
    by (simp add: py_round1_def diff_divide_distrib)
qed

lemma py_round1_tenths [simp]: "py_round1 (of_int n / 10) = of_int n / 10"
  by (simp add: py_round1_def)

lemma py_round1_of_int [simp]: "py_round1 (of_int n) = of_int n"
  using py_round1_tenths [of "10 * n"] by simp

lemma py_round1_0 [simp]: "py_round1 0 = 0"
  using py_round1_of_int [of 0] by simp

lemma round_half_even_div:
  assumes "0 < b"
  shows "round_half_even (of_int a / of_int b) = round_div a b"
proof -
  let ?q = "a div b" and ?r = "a mod b"
  have f: "\<lfloor>(of_int a / of_int b :: rat)\<rfloor> = ?q" by (rule floor_divide_of_int_eq)
  have "(of_int a :: rat) = of_int ?q * of_int b + of_int ?r"
    by (metis of_int_add of_int_mult div_mult_mod_eq)
  with assms have d: "(of_int a / of_int b :: rat) - of_int ?q = of_int ?r / of_int b"
    by (simp add: field_simps)
  have lt: "(of_int ?r / of_int b :: rat) < 1 / 2 \<longleftrightarrow> 2 * ?r < b"
  proof -
    have "(of_int ?r / of_int b :: rat) < 1 / 2 \<longleftrightarrow> (of_int (2 * ?r) :: rat) < of_int b"
      using assms by (simp add: field_simps)
    then show ?thesis by (simp only: of_int_less_iff)
  qed
  have gt: "1 / 2 < (of_int ?r / of_int b :: rat) \<longleftrightarrow> b < 2 * ?r"
  proof -
    have "1 / 2 < (of_int ?r / of_int b :: rat) \<longleftrightarrow> (of_int b :: rat) < of_int (2 * ?r)"
      using assms by (simp add: field_simps)
    then show ?thesis by (simp only: of_int_less_iff)
  qed
  show ?thesis
    unfolding round_half_even_def round_div_def Let_def f d lt gt ..
qed

lemma progress_percentage_eval:
  assumes "0 < n"
  shows "progress_percentage k n = of_int (round_div (1000 * int k) (int n)) / 10"
proof -
  have "percentage k n * 10 = of_int (1000 * int k) / of_int (int n)"
    using assms by (simp add: percentage_def)
  then have "round_half_even (percentage k n * 10) = round_div (1000 * int k) (int n)"
    using assms by (simp only: round_half_even_div of_nat_0_less_iff)
  then show ?thesis by (simp add: progress_percentage_def py_round1_def)
qed

lemma progress_percentage_zero [simp]: "progress_percentage k 0 = 0"
  by (simp add: progress_percentage_def percentage_def)

lemma round_div_le:
  assumes "0 < b" and "a \<le> c * b"
  shows "round_div a b \<le> c"
proof -
  from assms have q: "a div b \<le> c"
    by (metis zdiv_mono1 nonzero_mult_div_cancel_right less_irrefl)
  show ?thesis
  proof (cases "a div b = c")
    case True
    have "a = (a div b) * b + a mod b" by simp
    with True assms(2) have "a mod b \<le> 0" by simp
    moreover from assms(1) have "0 \<le> a mod b" by simp
    ultimately have "a mod b = 0" by simp
    with True assms(1) show ?thesis by (simp add: round_div_def)
  next
    case False
    with q have "a div b + 1 \<le> c" by simp
    then show ?thesis by (auto simp: round_div_def Let_def)
  qed
qed

lemma round_div_ge:
  assumes "0 < b" and "c * b \<le> a"
  shows "c \<le> round_div a b"
proof -
  from assms have "c \<le> a div b"
    by (metis zdiv_mono1 nonzero_mult_div_cancel_right less_irrefl)
  then show ?thesis by (auto simp: round_div_def Let_def)
qed

lemma round_div_exact: "0 < b \<Longrightarrow> round_div (c * b) b = c"
  by (simp add: round_div_def)

lemma progress_percentage_nonneg: "0 \<le> progress_percentage k n"
proof (cases "0 < n")
  case True
  then have "0 \<le> round_div (1000 * int k) (int n)"
    by (intro round_div_ge) simp_all
  with True show ?thesis by (simp add: progress_percentage_eval)
next
  case False
  then show ?thesis by simp
qed

lemma progress_percentage_le_100:
  assumes "k \<le> n"
  shows "progress_percentage k n \<le> 100"
proof (cases "0 < n")
  case True
  from assms have "1000 * int k \<le> 1000 * int n" by simp
  with True have "round_div (1000 * int k) (int n) \<le> 1000"
    by (intro round_div_le) simp_all
  with True show ?thesis by (simp add: progress_percentage_eval)
next
  case False
  then show ?thesis by simp
qed

lemma progress_percentage_full: "0 < n \<Longrightarrow> progress_percentage n n = 100"
  using round_div_exact [of "int n" 1000] by (simp add: progress_percentage_eval)

lemma progress_percentage_error:
  "\<bar>progress_percentage k n - percentage k n\<bar> \<le> 1 / 20"
  by (simp only: progress_percentage_def py_round1_error)

lemma progress_percentage_quarters:
  "progress_percentage k 4 = 25 * of_nat k"
  using round_div_exact [of 4 "250 * int k"]
  by (simp add: progress_percentage_eval)

lemma percentage_overrun:
  assumes "0 < n" and "n \<le> 4" and "n < k"
  shows "125 \<le> progress_percentage k n"
proof -
  from assms have "1250 * int n \<le> 1000 * int k" by simp
  with assms(1) have "1250 \<le> round_div (1000 * int k) (int n)"
    by (intro round_div_ge) simp_all
  then have "(1250 :: rat) \<le> of_int (round_div (1000 * int k) (int n))"
    by (metis of_int_le_iff of_int_numeral)
  with assms(1) show ?thesis
    by (simp add: progress_percentage_eval)
qed

section \<open>Rounding on the totals a stored plan can have\<close>

lemma round_half_even_unique:
  assumes "\<bar>y - of_int m\<bar> < 1 / 2"
  shows "round_half_even y = m"
proof -
  from assms have lo: "of_int m - 1 / 2 < y" and hi: "y < of_int m + 1 / 2" by linarith+
  from lo have "of_int (m - 1) \<le> y" by simp
  then have 1: "m - 1 \<le> \<lfloor>y\<rfloor>" by (simp only: le_floor_iff)
  from hi have "y < of_int m + 1" by linarith
  then have 2: "\<lfloor>y\<rfloor> \<le> m" by (simp add: floor_le_iff)
  from 1 2 consider "\<lfloor>y\<rfloor> = m" | "\<lfloor>y\<rfloor> = m - 1" by linarith
  then show ?thesis
  proof cases
    case 1
    with hi show ?thesis by (simp add: round_half_even_def Let_def)
  next
    case 2
    with lo show ?thesis by (simp add: round_half_even_def Let_def)
  qed
qed

lemma tenths_near_integer:
  assumes "0 < n" and "n \<le> 4"
  shows "\<exists>m. \<bar>percentage k n * 10 - of_int m\<bar> \<le> 1 / 3"
proof -
  from assms consider "n = 1" | "n = 2" | "n = 3" | "n = 4" by linarith
  then show ?thesis
  proof cases
    case 1
    have "percentage k n * 10 = of_int (1000 * int k)"
      by (simp add: percentage_def 1)
    then show ?thesis by (intro exI [of _ "1000 * int k"]) simp
  next
    case 2
    have "percentage k n * 10 = of_int (500 * int k)"
      by (simp add: percentage_def 2)
    then show ?thesis by (intro exI [of _ "500 * int k"]) simp
  next
    case 3
    define a where "a = 1000 * int k"
    define m where "m = (a + 1) div 3"
    have "3 * m \<le> a + 1" and "a - 1 \<le> 3 * m" unfolding m_def by presburger+
    then have "(of_int (3 * m) :: rat) \<le> of_int (a + 1)"
      and "(of_int (a - 1) :: rat) \<le> of_int (3 * m)"
      by (simp_all only: of_int_le_iff)
    then have "3 * of_int m \<le> (of_int a :: rat) + 1" and "(of_int a :: rat) - 1 \<le> 3 * of_int m"
      by simp_all
    moreover have "percentage k n * 10 = of_int a / 3"
      by (simp add: percentage_def 3 a_def)
    ultimately have "\<bar>percentage k n * 10 - of_int m\<bar> \<le> 1 / 3"
      by linarith
    then show ?thesis by blast
  next
    case 4
    have "percentage k n * 10 = of_int (250 * int k)"
      by (simp add: percentage_def 4)
    then show ?thesis by (intro exI [of _ "250 * int k"]) simp
  qed
qed

section \<open>Properties of the tracker\<close>

text \<open>
  C9.  The three appends implement the abstract tracker.  Seen as a set, the
  completed weeks gain the week of the update; seen as a multiset, the completed
  projects gain one occurrence of it when \<^verbatim>\<open>project_done\<close> is set; the log of notes
  gains the note when it is present and not empty.  The progress of a fresh plan
  stands for the empty tracker.
\<close>

theorem record_update_refines_track:
  "abstraction (record_update now u p) = track now u (abstraction p)
   \<and> abstraction initial_progress = \<lparr>tr_weeks = {}, tr_projects = {#}, tr_notes = []\<rparr>"
  by (simp add: abstraction_record_update abstraction_initial)

text \<open>
  C10.  Recording the same update a second time leaves \<^verbatim>\<open>completed_weeks\<close> as it
  was after the first time, and a list of completed weeks without duplicates
  stays without duplicates.  \<^verbatim>\<open>completed_projects\<close> is not guarded: with
  \<^verbatim>\<open>project_done\<close> set, the week is appended both times.
\<close>

theorem repeated_update_duplicates:
  "completed_weeks (record_update now' u (record_update now u p))
     = completed_weeks (record_update now u p)
   \<and> (distinct (completed_weeks p) \<longrightarrow> distinct (completed_weeks (record_update now u p)))
   \<and> (pu_project_done u \<longrightarrow>
        completed_projects (record_update now' u (record_update now u p))
          = completed_projects p @ [pu_week_completed u, pu_week_completed u])"
  by (simp add: record_update_idem_weeks record_update_twice_projects record_update_weeks)

theorem repeated_update_duplicates_witness:
  "completed_weeks (record_update ''t2'' example_update
       (record_update ''t1'' example_update initial_progress)) = [2]
   \<and> completed_projects (record_update ''t2'' example_update
       (record_update ''t1'' example_update initial_progress)) = [2, 2]"
  using repeated_update_duplicates [of "''t2''" example_update "''t1''" initial_progress]
  by (simp add: example_update_def initial_progress_def record_update_weeks)

text \<open>
  C17.  For the totals a stored plan can have, one to four weeks, the reported
  percentage does not depend on how the quotient is computed or how ties are
  broken: every number within one sixtieth of the exact value \<open>100 k / n\<close>, such
  as the double that Python computes for it, is rounded to the same tenth, and
  that tenth is within one thirtieth of the exact value.
\<close>

theorem reported_percentage_stable:
  assumes "0 < n" and "n \<le> 4" and "\<bar>x - of_nat k / of_nat n * 100\<bar> < 1 / 60"
  shows "py_round1 x = progress_percentage k n
    \<and> \<bar>progress_percentage k n - of_nat k / of_nat n * 100\<bar> \<le> 1 / 30"
proof -
  from assms(1) have p: "percentage k n = of_nat k / of_nat n * 100"
    by (simp add: percentage_def)
  from tenths_near_integer [OF assms(1,2)] obtain m
    where m: "\<bar>percentage k n * 10 - of_int m\<bar> \<le> 1 / 3" by blast
  then have exact: "round_half_even (percentage k n * 10) = m"
    by (intro round_half_even_unique) linarith
  from assms(3) p have "\<bar>x - percentage k n\<bar> < 1 / 60" by simp
  then have "\<bar>x * 10 - percentage k n * 10\<bar> < 1 / 6" by linarith
  with m have "\<bar>x * 10 - of_int m\<bar> < 1 / 2" by linarith
  then have "round_half_even (x * 10) = m" by (rule round_half_even_unique)
  with exact have "py_round1 x = progress_percentage k n"
    by (simp add: py_round1_def progress_percentage_def)
  moreover have "progress_percentage k n = of_int m / 10"
    by (simp add: progress_percentage_def py_round1_def exact)
  with m p have "\<bar>progress_percentage k n - of_nat k / of_nat n * 100\<bar> \<le> 1 / 30"
    by linarith
  ultimately show ?thesis by simp
qed

theorem reported_percentage_stable_witness:
  "py_round1 (3333 / 100) = 333 / 10 \<and> py_round1 (3334 / 100) = 333 / 10
   \<and> py_round1 (6666 / 100) = 667 / 10"
  using reported_percentage_stable [of 3 "3333 / 100" 1]
    reported_percentage_stable [of 3 "3334 / 100" 1]
    reported_percentage_stable [of 3 "6666 / 100" 2]
  by (simp add: progress_percentage_eval round_div_def Let_def)

text \<open>
  C35.  The reported percentage is never negative; it is at most 100 when no more
  weeks are completed than the plan has, and exactly 100 when all of them are.
\<close>

theorem progress_percentage_in_range:
  "0 \<le> progress_percentage k n
   \<and> (k \<le> n \<longrightarrow> progress_percentage k n \<le> 100)
   \<and> (0 < n \<longrightarrow> progress_percentage n n = 100)"
  by (simp add: progress_percentage_nonneg progress_percentage_le_100 progress_percentage_full)

theorem progress_percentage_in_range_witness:
  "progress_percentage 4 4 = 100 \<and> progress_percentage 3 4 \<le> 100"
  using progress_percentage_in_range [of 4 4] progress_percentage_in_range [of 3 4]
  by simp

text \<open>
  C34.  A note that is present but empty is treated as no note: the update has the
  effect of the same update without a note, and the \<^verbatim>\<open>notes\<close> key is not created.
  A note that is not empty is appended with the week and the time stamp.
\<close>

theorem empty_note_is_dropped:
  "record_update now (u\<lparr>pu_notes := Some []\<rparr>) p = record_update now (u\<lparr>pu_notes := None\<rparr>) p
   \<and> (pg_notes p = None \<longrightarrow> pg_notes (record_update now (u\<lparr>pu_notes := Some []\<rparr>) p) = None)
   \<and> (note \<noteq> [] \<longrightarrow>
        pg_notes (record_update now (u\<lparr>pu_notes := Some note\<rparr>) p)
          = Some (notes_of p @ [\<lparr>ne_week = pu_week_completed u, ne_note = note,
                                  ne_timestamp = now\<rparr>]))"
proof (intro conjI impI)
  show "record_update now (u\<lparr>pu_notes := Some []\<rparr>) p
      = record_update now (u\<lparr>pu_notes := None\<rparr>) p"
    by (simp add: tracker_defs)
  show "pg_notes (record_update now (u\<lparr>pu_notes := Some []\<rparr>) p) = None"
    if "pg_notes p = None"
    using that by (simp add: pg_notes_record_update)
  show "pg_notes (record_update now (u\<lparr>pu_notes := Some note\<rparr>) p)
      = Some (notes_of p @ [\<lparr>ne_week = pu_week_completed u, ne_note = note,
                              ne_timestamp = now\<rparr>])"
    if "note \<noteq> []"
    using that by (simp add: pg_notes_record_update)
qed

theorem empty_note_is_dropped_witness:
  "pg_notes (record_update ''t1'' (example_update\<lparr>pu_notes := Some []\<rparr>) initial_progress) = None
   \<and> pg_notes (record_update ''t1'' (example_update\<lparr>pu_notes := Some ''done''\<rparr>) initial_progress)
     = Some [\<lparr>ne_week = 2, ne_note = ''done'', ne_timestamp = ''t1''\<rparr>]"
  using empty_note_is_dropped [of "''t1''" example_update initial_progress "''done''"]
  by (simp add: initial_progress_def example_update_def notes_of_def tracker_defs)

end
