(* ===== verification/Roadmap_Service.thy ===== *)
theory Roadmap_Service
  imports Progress_Tracker
begin

text \<open>
  The registry and the request handlers of \<^verbatim>\<open>src/main.py\<close>: the dictionary
  \<^verbatim>\<open>progress_db\<close> as a map from identifiers to entries, and one function per
  endpoint that takes the registry and returns the new registry with the response,
  or the \<^verbatim>\<open>HTTPException\<close> it raises.  \<open>handle\<close> dispatches a request, \<open>run\<close>
  serves a sequence of requests one after the other, and \<open>reachable\<close> are the
  registries the service can be in.  The lemmas give the behaviour of each handler
  on each branch, the invariant of every reachable registry, and what a stored
  plan and its progress can and cannot lose.
\<close>

section \<open>Registry\<close>

record registry_entry =
  entry_roadmap :: roadmap
  entry_progress :: progress
  entry_created_at :: string

type_synonym progress_db = "string \<rightharpoonup> registry_entry"

section \<open>Responses\<close>

record descriptor =
  d_application :: string
  d_version :: string
  d_status :: string
  d_features :: "string list"

record progress_response =
  pr_status :: string
  pr_progress_percentage :: rat
  pr_completed_weeks :: "int list"
  pr_total_weeks :: nat

record stats =
  st_progress_percentage :: rat
  st_completed_weeks :: nat
  st_total_weeks :: nat

record roadmap_view =
  rv_roadmap :: roadmap
  rv_progress :: progress
  rv_created_at :: string
  rv_stats :: stats

record timeline_item =
  ti_week :: int
  ti_theme :: json
  ti_completed :: bool
  ti_project :: string

record timeline_view =
  tv_timeline :: "timeline_item list"
  tv_total_weeks :: nat
  tv_completed_weeks :: nat

section \<open>Handlers\<close>

definition root :: descriptor where
  "root =
     \<lparr>d_application = ''Intelligent Learning Roadmap Generator Pro'',
      d_version = ''3.0'',
      d_status = ''active'',
      d_features = [''Real projects'', ''Working resources'', ''Progress tracking'',
        ''Visual timeline'']\<rparr>"

text \<open>The three assignments that add the identifier, the time stamp and the topic.\<close>

definition add_metadata :: "roadmap_content \<Rightarrow> string \<Rightarrow> string \<Rightarrow> string \<Rightarrow> roadmap" where
  "add_metadata content uuid now topic =
     roadmap_content.extend content (roadmap.fields (take 8 uuid) now topic)"

definition store :: "progress_db \<Rightarrow> roadmap \<Rightarrow> progress_db" where
  "store db roadmap =
     db(rm_roadmap_id roadmap \<mapsto>
       \<lparr>entry_roadmap = roadmap,
        entry_progress = \<lparr>completed_weeks = [], completed_projects = [], pg_notes = None\<rparr>,
        entry_created_at = rm_generated_at roadmap\<rparr>)"

definition generate_roadmap ::
    "progress_db \<Rightarrow> environment \<Rightarrow> EnhancedUserInput \<Rightarrow> progress_db \<times> roadmap" where
  "generate_roadmap db env user_input =
     (let topic = detect_topic (lower (ui_goal user_input));
          roadmap_structure = get_ai_roadmap_structure env user_input in
      case enhance_with_real_content roadmap_structure topic user_input of
        Inr content \<Rightarrow>
          (let roadmap = add_metadata content (env_uuid4 env) (env_now env) topic
           in (store db roadmap, roadmap))
      | Inl e \<Rightarrow> (db, create_fallback_roadmap env user_input topic))"

definition not_found :: py_error where
  "not_found = HTTPException 404 ''Roadmap not found''"

definition update_progress ::
    "progress_db \<Rightarrow> string \<Rightarrow> ProgressUpdate \<Rightarrow> (progress_db \<times> progress_response) result" where
  "update_progress db now update =
     (case db (pu_roadmap_id update) of
        None \<Rightarrow> Inl not_found
      | Some entry \<Rightarrow>
          (let progress = record_update now update (entry_progress entry);
               roadmap = entry_roadmap entry;
               total_weeks = length (rm_weekly_plan roadmap);
               completed = length (completed_weeks progress)
           in bind_res (py_percentage completed total_weeks) (\<lambda>percentage.
              Inr (db(pu_roadmap_id update \<mapsto> entry\<lparr>entry_progress := progress\<rparr>),
                \<lparr>pr_status = ''success'',
                 pr_progress_percentage = py_round1 percentage,
                 pr_completed_weeks = completed_weeks progress,
                 pr_total_weeks = total_weeks\<rparr>))))"

definition get_roadmap :: "progress_db \<Rightarrow> string \<Rightarrow> roadmap_view result" where
  "get_roadmap db roadmap_id =
     (case db roadmap_id of
        None \<Rightarrow> Inl not_found
      | Some data \<Rightarrow>
          (let progress = entry_progress data;
               total_weeks = length (rm_weekly_plan (entry_roadmap data));
               completed = length (completed_weeks progress)
           in bind_res (py_percentage completed total_weeks) (\<lambda>percentage.
              Inr \<lparr>rv_roadmap = entry_roadmap data,
                   rv_progress = progress,
                   rv_created_at = entry_created_at data,
                   rv_stats =
                     \<lparr>st_progress_percentage = py_round1 percentage,
                      st_completed_weeks = completed,
                      st_total_weeks = total_weeks\<rparr>\<rparr>)))"

definition timeline_item_of :: "progress \<Rightarrow> week_plan \<Rightarrow> timeline_item" where
  "timeline_item_of progress week =
     \<lparr>ti_week = wp_week week,
      ti_theme = wp_theme week,
      ti_completed = (wp_week week \<in> set (completed_weeks progress)),
      ti_project = pj_title (wp_project week)\<rparr>"

definition get_visual_timeline :: "progress_db \<Rightarrow> string \<Rightarrow> timeline_view result" where
  "get_visual_timeline db roadmap_id =
     (case db roadmap_id of
        None \<Rightarrow> Inl not_found
      | Some entry \<Rightarrow>
          (let roadmap = entry_roadmap entry;
               progress = entry_progress entry;
               timeline_data = map (timeline_item_of progress) (rm_weekly_plan roadmap)
           in Inr \<lparr>tv_timeline = timeline_data,
                   tv_total_weeks = length timeline_data,
                   tv_completed_weeks = length (completed_weeks progress)\<rparr>))"

section \<open>The service as a state machine\<close>

datatype request =
    Root
  | Generate_roadmap environment EnhancedUserInput
  | Update_progress string ProgressUpdate
  | Get_roadmap string
  | Get_visual_timeline string

datatype response =
    Descriptor descriptor
  | Roadmap roadmap
  | Progress progress_response
  | View roadmap_view
  | Timeline timeline_view
  | Failure py_error

fun handle :: "progress_db \<Rightarrow> request \<Rightarrow> progress_db \<times> response" where
  "handle db Root = (db, Descriptor root)"
| "handle db (Generate_roadmap env user_input) =
     (case generate_roadmap db env user_input of (db', roadmap) \<Rightarrow> (db', Roadmap roadmap))"
| "handle db (Update_progress now update) =
     (case update_progress db now update of
        Inl e \<Rightarrow> (db, Failure e)
      | Inr (db', r) \<Rightarrow> (db', Progress r))"
| "handle db (Get_roadmap roadmap_id) =
     (case get_roadmap db roadmap_id of
        Inl e \<Rightarrow> (db, Failure e)
      | Inr v \<Rightarrow> (db, View v))"
| "handle db (Get_visual_timeline roadmap_id) =
     (case get_visual_timeline db roadmap_id of
        Inl e \<Rightarrow> (db, Failure e)
      | Inr v \<Rightarrow> (db, Timeline v))"

fun run :: "progress_db \<Rightarrow> request list \<Rightarrow> progress_db \<times> response list" where
  "run db [] = (db, [])"
| "run db (r # rs) =
     (case handle db r of (db', out) \<Rightarrow>
        (case run db' rs of (db'', outs) \<Rightarrow> (db'', out # outs)))"

inductive reachable :: "progress_db \<Rightarrow> bool" where
  start: "reachable Map.empty"
| step: "reachable db \<Longrightarrow> reachable (fst (handle db r))"

section \<open>Invariant of the registry\<close>

definition plan_inv :: "roadmap \<Rightarrow> bool" where
  "plan_inv r \<longleftrightarrow>
     length (rm_weekly_plan r) \<le> 4
     \<and> map wp_week (rm_weekly_plan r) = week_numbers (length (rm_weekly_plan r))
     \<and> rm_visual_timeline r = map timeline_of_week (rm_weekly_plan r)
     \<and> rm_milestone_projects r = map Template (projects_for (rm_topic r))
     \<and> (\<forall>i < length (rm_weekly_plan r).
          wp_resources (rm_weekly_plan r ! i) = week_resources i (resources_for (rm_topic r))
          \<and> wp_project (rm_weekly_plan r ! i) = week_project i (projects_for (rm_topic r))
          \<and> wp_time_estimate (rm_weekly_plan r ! i) = time_estimate i)
     \<and> rm_topic r \<in> set topics
     \<and> length (rm_roadmap_id r) \<le> 8"

definition entry_inv :: "string \<Rightarrow> registry_entry \<Rightarrow> bool" where
  "entry_inv rid e \<longleftrightarrow>
     rm_roadmap_id (entry_roadmap e) = rid
     \<and> entry_created_at e = rm_generated_at (entry_roadmap e)
     \<and> plan_inv (entry_roadmap e)
     \<and> progress_inv (entry_progress e)"

definition db_inv :: "progress_db \<Rightarrow> bool" where
  "db_inv db \<longleftrightarrow> (\<forall>rid e. db rid = Some e \<longrightarrow> entry_inv rid e)"

section \<open>The worked example\<close>

text \<open>
  The environment without a credential, with a fixed identifier and clock, the
  plan it generates for the request of the example, and the registry entry of
  that plan with a given progress.
\<close>

definition example_env :: environment where
  "example_env = offline_env ''0f8fad5b-d9cb-469f-a165-70867728950e'' ''2024-01-01T00:00:00''"

definition example_roadmap :: roadmap where
  "example_roadmap = snd (generate_roadmap Map.empty example_env example_input)"

definition example_entry :: "progress \<Rightarrow> registry_entry" where
  "example_entry p =
     \<lparr>entry_roadmap = example_roadmap, entry_progress = p,
      entry_created_at = ''2024-01-01T00:00:00''\<rparr>"

section \<open>Metadata and storing\<close>

lemma add_metadata_simps [simp]:
  "rm_roadmap_id (add_metadata c uuid now topic) = take 8 uuid"
  "rm_generated_at (add_metadata c uuid now topic) = now"
  "rm_topic (add_metadata c uuid now topic) = topic"
  "rm_weekly_plan (add_metadata c uuid now topic) = rm_weekly_plan c"
  "rm_title (add_metadata c uuid now topic) = rm_title c"
  "rm_overview (add_metadata c uuid now topic) = rm_overview c"
  "rm_visual_timeline (add_metadata c uuid now topic) = rm_visual_timeline c"
  "rm_milestone_projects (add_metadata c uuid now topic) = rm_milestone_projects c"
  "rm_success_tips (add_metadata c uuid now topic) = rm_success_tips c"
  "rm_community_recommendations (add_metadata c uuid now topic) = rm_community_recommendations c"
  "rm_prerequisites (add_metadata c uuid now topic) = rm_prerequisites c"
  by (simp_all add: add_metadata_def roadmap_content.defs roadmap.defs)

lemma truncate_add_metadata [simp]:
  "roadmap_content.truncate (add_metadata c uuid now topic) = c"
  by (simp add: add_metadata_def roadmap_content.defs roadmap.defs)

lemma store_simps [simp]:
  "store db r (rm_roadmap_id r) =
     Some \<lparr>entry_roadmap = r, entry_progress = initial_progress,
           entry_created_at = rm_generated_at r\<rparr>"
  "rid \<noteq> rm_roadmap_id r \<Longrightarrow> store db r rid = db rid"
  by (simp_all add: store_def initial_progress_def)

lemma dom_store [simp]: "dom (store db r) = insert (rm_roadmap_id r) (dom db)"
  by (simp add: store_def)

section \<open>Generation\<close>

lemma generate_roadmap_stored:
  assumes "enhance_with_real_content (get_ai_roadmap_structure env user_input)
             (detect_topic (lower (ui_goal user_input))) user_input = Inr content"
  shows "generate_roadmap db env user_input =
     (store db (add_metadata content (env_uuid4 env) (env_now env)
                 (detect_topic (lower (ui_goal user_input)))),
      add_metadata content (env_uuid4 env) (env_now env)
        (detect_topic (lower (ui_goal user_input))))"
  using assms by (simp add: generate_roadmap_def Let_def)

lemma generate_roadmap_fallback:
  assumes "enhance_with_real_content (get_ai_roadmap_structure env user_input)
             (detect_topic (lower (ui_goal user_input))) user_input = Inl e"
  shows "generate_roadmap db env user_input =
     (db, create_fallback_roadmap env user_input (detect_topic (lower (ui_goal user_input))))"
  using assms by (simp add: generate_roadmap_def Let_def)

lemma generate_roadmap_cases:
  obtains
    (stored) content where
      "enhance_with_real_content (get_ai_roadmap_structure env user_input)
         (detect_topic (lower (ui_goal user_input))) user_input = Inr content"
      "well_formed_structure (get_ai_roadmap_structure env user_input)"
      "generate_roadmap db env user_input =
         (store db (add_metadata content (env_uuid4 env) (env_now env)
                     (detect_topic (lower (ui_goal user_input)))),
          add_metadata content (env_uuid4 env) (env_now env)
            (detect_topic (lower (ui_goal user_input))))"
  | (fallback)
      "\<not> well_formed_structure (get_ai_roadmap_structure env user_input)"
      "generate_roadmap db env user_input =
         (db, create_fallback_roadmap env user_input
                (detect_topic (lower (ui_goal user_input))))"
proof (cases "enhance_with_real_content (get_ai_roadmap_structure env user_input)
         (detect_topic (lower (ui_goal user_input))) user_input")
  case (Inl e)
  then have "\<not> well_formed_structure (get_ai_roadmap_structure env user_input)"
    using enhance_ok_iff [of "get_ai_roadmap_structure env user_input"
        "detect_topic (lower (ui_goal user_input))" user_input] by simp
  with Inl show ?thesis by (intro fallback generate_roadmap_fallback)
next
  case (Inr content)
  then have "well_formed_structure (get_ai_roadmap_structure env user_input)"
    using enhance_ok_iff [of "get_ai_roadmap_structure env user_input"
        "detect_topic (lower (ui_goal user_input))" user_input] by simp
  with Inr show ?thesis by (intro stored generate_roadmap_stored)
qed

lemma plan_inv_add_metadata:
  assumes "enhance_with_real_content structure topic user_input = Inr content"
    and "topic \<in> set topics"
  shows "plan_inv (add_metadata content uuid now topic)"
  unfolding plan_inv_def
  using assms enhance_length_le [OF assms(1)] enhance_week_numbers [OF assms(1)]
    enhance_timeline [OF assms(1)] enhance_milestones [OF assms(1)]
    enhance_week_facts(2,3,4) [OF assms(1)]
  by simp


section \<open>Updating progress\<close>

lemma update_progress_not_found:
  "db (pu_roadmap_id u) = None \<Longrightarrow> update_progress db now u = Inl not_found"
  by (simp add: update_progress_def)

lemma update_progress_found:
  assumes "db (pu_roadmap_id u) = Some e"
  shows "update_progress db now u =
     Inr (db(pu_roadmap_id u \<mapsto> e\<lparr>entry_progress := record_update now u (entry_progress e)\<rparr>),
       \<lparr>pr_status = ''success'',
        pr_progress_percentage =
          progress_percentage
            (length (completed_weeks (record_update now u (entry_progress e))))
            (length (rm_weekly_plan (entry_roadmap e))),
        pr_completed_weeks = completed_weeks (record_update now u (entry_progress e)),
        pr_total_weeks = length (rm_weekly_plan (entry_roadmap e))\<rparr>)"
  using assms by (simp add: update_progress_def Let_def progress_percentage_def)

lemma is_ok_update_progress:
  "is_ok (update_progress db now u) \<longleftrightarrow> pu_roadmap_id u \<in> dom db"
  by (cases "db (pu_roadmap_id u)")
    (auto simp: update_progress_not_found update_progress_found)

lemma update_progress_error:
  "update_progress db now u = Inl e \<Longrightarrow> e = not_found \<and> db (pu_roadmap_id u) = None"
  by (cases "db (pu_roadmap_id u)")
    (auto simp: update_progress_not_found update_progress_found)

lemma update_progress_Inr:
  assumes "update_progress db now u = Inr (db', r)"
  obtains e where "db (pu_roadmap_id u) = Some e"
    and "db' = db(pu_roadmap_id u \<mapsto>
           e\<lparr>entry_progress := record_update now u (entry_progress e)\<rparr>)"
    and "pr_status r = ''success''"
    and "pr_completed_weeks r = completed_weeks (record_update now u (entry_progress e))"
    and "pr_total_weeks r = length (rm_weekly_plan (entry_roadmap e))"
    and "pr_progress_percentage r =
           progress_percentage (length (pr_completed_weeks r)) (pr_total_weeks r)"
proof (cases "db (pu_roadmap_id u)")
  case None
  with assms show ?thesis by (simp add: update_progress_not_found)
next
  case (Some e)
  with assms that [of e] show ?thesis by (auto simp: update_progress_found)
qed

section \<open>Reading\<close>

lemma get_roadmap_not_found: "db rid = None \<Longrightarrow> get_roadmap db rid = Inl not_found"
  by (simp add: get_roadmap_def)

lemma get_roadmap_found:
  "db rid = Some e \<Longrightarrow> get_roadmap db rid =
     Inr \<lparr>rv_roadmap = entry_roadmap e, rv_progress = entry_progress e,
          rv_created_at = entry_created_at e,
          rv_stats =
            \<lparr>st_progress_percentage =
               progress_percentage (length (completed_weeks (entry_progress e)))
                 (length (rm_weekly_plan (entry_roadmap e))),
             st_completed_weeks = length (completed_weeks (entry_progress e)),
             st_total_weeks = length (rm_weekly_plan (entry_roadmap e))\<rparr>\<rparr>"
  by (simp add: get_roadmap_def Let_def progress_percentage_def)

lemma get_visual_timeline_not_found:
  "db rid = None \<Longrightarrow> get_visual_timeline db rid = Inl not_found"
  by (simp add: get_visual_timeline_def)

lemma get_visual_timeline_found:
  "db rid = Some e \<Longrightarrow> get_visual_timeline db rid =
     Inr \<lparr>tv_timeline = map (timeline_item_of (entry_progress e))
                           (rm_weekly_plan (entry_roadmap e)),
          tv_total_weeks = length (rm_weekly_plan (entry_roadmap e)),
          tv_completed_weeks = length (completed_weeks (entry_progress e))\<rparr>"
  by (simp add: get_visual_timeline_def Let_def)

lemma is_ok_get_roadmap: "is_ok (get_roadmap db rid) \<longleftrightarrow> rid \<in> dom db"
  by (cases "db rid") (auto simp: get_roadmap_not_found get_roadmap_found)

lemma is_ok_get_visual_timeline: "is_ok (get_visual_timeline db rid) \<longleftrightarrow> rid \<in> dom db"
  by (cases "db rid") (auto simp: get_visual_timeline_not_found get_visual_timeline_found)

section \<open>Preservation of the invariant\<close>

lemma db_inv_empty [simp]: "db_inv Map.empty"
  by (simp add: db_inv_def)

lemma db_inv_store:
  assumes "db_inv db" and "plan_inv r"
  shows "db_inv (store db r)"
  using assms
  by (auto simp: db_inv_def entry_inv_def store_def initial_progress_def [symmetric])

lemma db_inv_generate_roadmap:
  assumes "db_inv db"
  shows "db_inv (fst (generate_roadmap db env user_input))"
proof (cases db env user_input rule: generate_roadmap_cases)
  case (stored content)
  from stored(1) have "plan_inv (add_metadata content (env_uuid4 env) (env_now env)
      (detect_topic (lower (ui_goal user_input))))"
    by (rule plan_inv_add_metadata) (rule detect_topic_in_topics)
  with assms stored(3) show ?thesis by (simp add: db_inv_store)
next
  case fallback
  with assms show ?thesis by simp
qed

lemma db_inv_update_progress:
  assumes "db_inv db" and "update_progress db now u = Inr (db', r)"
  shows "db_inv db'"
proof -
  from assms(2) obtain e where e: "db (pu_roadmap_id u) = Some e"
    and db': "db' = db(pu_roadmap_id u \<mapsto>
        e\<lparr>entry_progress := record_update now u (entry_progress e)\<rparr>)"
    by (rule update_progress_Inr)
  from assms(1) e have "entry_inv (pu_roadmap_id u) e" by (simp add: db_inv_def)
  then have "entry_inv (pu_roadmap_id u)
      (e\<lparr>entry_progress := record_update now u (entry_progress e)\<rparr>)"
    by (simp add: entry_inv_def progress_inv_record_update)
  with assms(1) show ?thesis unfolding db' db_inv_def by simp
qed

lemma fst_handle [simp]:
  "fst (handle db Root) = db"
  "fst (handle db (Generate_roadmap env user_input)) = fst (generate_roadmap db env user_input)"
  "fst (handle db (Update_progress now u)) =
     (case update_progress db now u of Inl e \<Rightarrow> db | Inr x \<Rightarrow> fst x)"
  "fst (handle db (Get_roadmap rid)) = db"
  "fst (handle db (Get_visual_timeline rid)) = db"
  by (simp_all add: case_prod_beta split: sum.splits)

lemma snd_handle [simp]:
  "snd (handle db Root) = Descriptor root"
  "snd (handle db (Generate_roadmap env user_input)) =
     Roadmap (snd (generate_roadmap db env user_input))"
  "snd (handle db (Update_progress now u)) =
     (case update_progress db now u of Inl e \<Rightarrow> Failure e | Inr x \<Rightarrow> Progress (snd x))"
  "snd (handle db (Get_roadmap rid)) =
     (case get_roadmap db rid of Inl e \<Rightarrow> Failure e | Inr v \<Rightarrow> View v)"
  "snd (handle db (Get_visual_timeline rid)) =
     (case get_visual_timeline db rid of Inl e \<Rightarrow> Failure e | Inr v \<Rightarrow> Timeline v)"
  by (simp_all add: case_prod_beta split: sum.splits)

lemma fst_run_Cons [simp]: "fst (run db (r # rs)) = fst (run (fst (handle db r)) rs)"
  by (simp add: case_prod_beta)

lemma snd_run_Cons [simp]:
  "snd (run db (r # rs)) = snd (handle db r) # snd (run (fst (handle db r)) rs)"
  by (simp add: case_prod_beta)

declare handle.simps [simp del] run.simps(2) [simp del]

lemma db_inv_handle:
  assumes "db_inv db"
  shows "db_inv (fst (handle db r))"
proof (cases r)
  case (Generate_roadmap env user_input)
  with db_inv_generate_roadmap [OF assms, of env user_input] show ?thesis
    by simp
next
  case (Update_progress now u)
  with assms db_inv_update_progress [OF assms, of now u] show ?thesis
    by (auto split: sum.splits)
qed (use assms in simp_all)

lemma reachable_db_inv: "reachable db \<Longrightarrow> db_inv db"
  by (induction rule: reachable.induct) (simp_all add: db_inv_handle)

lemma fst_run_append: "fst (run db (rs @ rs')) = fst (run (fst (run db rs)) rs')"
  by (induction rs arbitrary: db) simp_all

lemma snd_run_append:
  "snd (run db (rs @ rs')) = snd (run db rs) @ snd (run (fst (run db rs)) rs')"
  by (induction rs arbitrary: db) simp_all

lemma length_run: "length (snd (run db rs)) = length rs"
  by (induction rs arbitrary: db) simp_all

lemma reachable_run: "reachable db \<Longrightarrow> reachable (fst (run db rs))"
proof (induction rs arbitrary: db)
  case Nil
  then show ?case by simp
next
  case (Cons r rs)
  from Cons.prems have "reachable (fst (handle db r))" by (rule reachable.step)
  then have "reachable (fst (run (fst (handle db r)) rs))" by (rule Cons.IH)
  then show ?case by simp
qed

lemma reachable_iff_run: "reachable db \<longleftrightarrow> (\<exists>rs. db = fst (run Map.empty rs))"
proof
  assume "reachable db"
  then show "\<exists>rs. db = fst (run Map.empty rs)"
  proof (induction rule: reachable.induct)
    case start
    have "Map.empty = fst (run Map.empty [])" by simp
    then show ?case by blast
  next
    case (step db r)
    then obtain rs where "db = fst (run Map.empty rs)" by blast
    then have "fst (handle db r) = fst (run Map.empty (rs @ [r]))"
      by (simp add: fst_run_append)
    then show ?case by blast
  qed
next
  assume "\<exists>rs. db = fst (run Map.empty rs)"
  then show "reachable db"
    using reachable_run [OF reachable.start] by auto
qed

section \<open>What a generation returns and stores\<close>

lemma snd_generate_roadmap:
  "snd (generate_roadmap db env user_input) = snd (generate_roadmap db' env user_input)"
  by (simp add: generate_roadmap_def Let_def split: sum.split)

lemma generate_roadmap_metadata [simp]:
  "rm_roadmap_id (snd (generate_roadmap db env user_input)) = take 8 (env_uuid4 env)"
  "rm_generated_at (snd (generate_roadmap db env user_input)) = env_now env"
  "rm_topic (snd (generate_roadmap db env user_input)) = detect_topic (lower (ui_goal user_input))"
  by (cases rule: generate_roadmap_cases [of env user_input db]; simp)+

lemma fst_generate_roadmap:
  "fst (generate_roadmap db env user_input) =
     (if well_formed_structure (get_ai_roadmap_structure env user_input)
      then store db (snd (generate_roadmap db env user_input)) else db)"
  by (cases rule: generate_roadmap_cases [of env user_input db]) simp_all

lemma generate_roadmap_fallback_iff:
  "\<not> well_formed_structure (get_ai_roadmap_structure env user_input) \<Longrightarrow>
     snd (generate_roadmap db env user_input) =
       create_fallback_roadmap env user_input (detect_topic (lower (ui_goal user_input)))"
  by (cases rule: generate_roadmap_cases [of env user_input db]) simp_all

lemma generate_roadmap_weeks:
  "length (rm_weekly_plan (snd (generate_roadmap db env user_input))) \<le> 4"
  "map wp_week (rm_weekly_plan (snd (generate_roadmap db env user_input))) =
     week_numbers (length (rm_weekly_plan (snd (generate_roadmap db env user_input))))"
  by (cases rule: generate_roadmap_cases [of env user_input db];
      simp add: enhance_length_le enhance_week_numbers fallback_week_numbers)+

lemma generate_roadmap_length:
  "well_formed_structure (get_ai_roadmap_structure env user_input) \<Longrightarrow>
     length (rm_weekly_plan (snd (generate_roadmap db env user_input))) =
       min 4 (themes_count (get_ai_roadmap_structure env user_input))"
  by (cases rule: generate_roadmap_cases [of env user_input db])
    (simp_all add: enhance_themes_count)

section \<open>Facts about the worked example\<close>

lemma example_structure [simp]:
  "get_ai_roadmap_structure example_env user_input = create_basic_structure user_input"
  by (simp add: example_env_def)

lemma example_env_simps [simp]:
  "take 8 (env_uuid4 example_env) = ''0f8fad5b''"
  "env_now example_env = ''2024-01-01T00:00:00''"
  by (simp_all add: example_env_def offline_env_def)

lemma themes_count_basic [simp]: "themes_count (create_basic_structure user_input) = 4"
  by (simp add: themes_count_def)

lemma example_roadmap_simps [simp]:
  "rm_roadmap_id example_roadmap = ''0f8fad5b''"
  "rm_generated_at example_roadmap = ''2024-01-01T00:00:00''"
  "length (rm_weekly_plan example_roadmap) = 4"
  by (simp_all add: example_roadmap_def generate_roadmap_length)

lemma example_generate:
  "generate_roadmap db example_env example_input = (store db example_roadmap, example_roadmap)"
  using fst_generate_roadmap [of db example_env example_input]
    snd_generate_roadmap [of db example_env example_input Map.empty]
  by (simp add: example_roadmap_def prod_eq_iff)

lemma example_stored:
  "fst (generate_roadmap db example_env example_input) ''0f8fad5b'' =
     Some (example_entry initial_progress)"
  using store_simps(1) [of db example_roadmap]
  by (simp add: example_generate example_entry_def)

lemma example_update_simps [simp]:
  "pu_roadmap_id example_update = ''0f8fad5b''"
  "pu_week_completed example_update = 2"
  "pu_project_done example_update"
  "pu_notes example_update = None"
  by (simp_all add: example_update_def)

lemma prefix_record_update_projects:
  "prefix (completed_projects p) (completed_projects (record_update now u p))"
  by (simp add: record_update_projects)

lemma example_update_ok:
  "update_progress (fst (generate_roadmap db example_env example_input)) now example_update =
     Inr (fst (projr (update_progress (fst (generate_roadmap db example_env example_input))
                 now example_update)),
          snd (projr (update_progress (fst (generate_roadmap db example_env example_input))
                 now example_update)))"
  using is_ok_projr [of "update_progress (fst (generate_roadmap db example_env example_input))
      now example_update"]
  by (simp add: is_ok_update_progress example_generate)

lemma example_roadmap_topic [simp]: "rm_topic example_roadmap = ''python''"
  by (simp add: example_roadmap_def)

lemma example_plan:
  "rm_weekly_plan example_roadmap =
     [\<lparr>wp_week = 1, wp_theme = JStr ''Foundation & Setup'',
        wp_focus = JStr ''Learn basics and set up environment'',
        wp_objectives = JArr [JStr ''Install tools'', JStr ''Learn syntax'',
          JStr ''First program''],
        wp_time_estimate = ''10-15 hours'',
        wp_resources = week_resources 0 python_resources,
        wp_project = week_project 0 python_projects\<rparr>,
      \<lparr>wp_week = 2, wp_theme = JStr ''Core Concepts'',
        wp_focus = JStr ''Master fundamental concepts'',
        wp_objectives = JArr [JStr ''Practice concepts'', JStr ''Debug issues'',
          JStr ''Small projects''],
        wp_time_estimate = ''15-20 hours'',
        wp_resources = week_resources 1 python_resources,
        wp_project = week_project 1 python_projects\<rparr>,
      \<lparr>wp_week = 3, wp_theme = JStr ''Advanced Techniques'',
        wp_focus = JStr ''Explore advanced features'',
        wp_objectives = JArr [JStr ''Advanced features'', JStr ''Optimization'',
          JStr ''Testing''],
        wp_time_estimate = ''20-25 hours'',
        wp_resources = week_resources 2 python_resources,
        wp_project = week_project 2 python_projects\<rparr>,
      \<lparr>wp_week = 4, wp_theme = JStr ''Real Projects'',
        wp_focus = JStr ''Build complete applications'',
        wp_objectives = JArr [JStr ''Portfolio project'', JStr ''Deployment'',
          JStr ''Documentation''],
        wp_time_estimate = ''25-30 hours'',
        wp_resources = week_resources 3 python_resources,
        wp_project = week_project 3 python_projects\<rparr>]"
  by (simp add: example_roadmap_def generate_roadmap_def Let_def
      enhance_with_real_content_def build_week_def py_path_def upt_0_4
      resources_for_simps projects_for_simps numeral_2_eq_2 [symmetric])

lemma handle_update_entry:
  assumes "db (pu_roadmap_id u) = Some e"
  shows "fst (handle db (Update_progress now u)) =
     db(pu_roadmap_id u \<mapsto> e\<lparr>entry_progress := record_update now u (entry_progress e)\<rparr>)"
    and "snd (handle db (Update_progress now u)) =
     Progress \<lparr>pr_status = ''success'',
        pr_progress_percentage =
          progress_percentage
            (length (completed_weeks (record_update now u (entry_progress e))))
            (length (rm_weekly_plan (entry_roadmap e))),
        pr_completed_weeks = completed_weeks (record_update now u (entry_progress e)),
        pr_total_weeks = length (rm_weekly_plan (entry_roadmap e))\<rparr>"
  using assms by (simp_all add: update_progress_found [of db u e now])

lemma example_store:
  "store db example_roadmap = db(''0f8fad5b'' \<mapsto> example_entry initial_progress)"
  by (simp add: store_def example_entry_def initial_progress_def)

lemma handle_update_example:
  assumes "pu_roadmap_id u = ''0f8fad5b''"
  shows "fst (handle (db(''0f8fad5b'' \<mapsto> example_entry p)) (Update_progress now u)) =
      db(''0f8fad5b'' \<mapsto> example_entry (record_update now u p))"
    and "snd (handle (db(''0f8fad5b'' \<mapsto> example_entry p)) (Update_progress now u)) =
      Progress \<lparr>pr_status = ''success'',
        pr_progress_percentage =
          progress_percentage (length (completed_weeks (record_update now u p))) 4,
        pr_completed_weeks = completed_weeks (record_update now u p),
        pr_total_weeks = 4\<rparr>"
  using assms
    handle_update_entry [of "db(''0f8fad5b'' \<mapsto> example_entry p)" u "example_entry p" now]
  by (simp_all add: example_entry_def)

lemma example_entry_simps [simp]:
  "entry_roadmap (example_entry p) = example_roadmap"
  "entry_progress (example_entry p) = p"
  "entry_created_at (example_entry p) = ''2024-01-01T00:00:00''"
  by (simp_all add: example_entry_def)

lemma example_roadmap_nonempty [simp]: "rm_weekly_plan example_roadmap \<noteq> []"
  by (metis example_roadmap_simps(3) list.size(3) zero_neq_numeral)

lemmas example_run_simps =
  example_generate example_store handle_update_example
  tracker_defs initial_progress_def

lemma example_served:
  "fst (run db [Generate_roadmap example_env example_input,
        Update_progress now example_update]) =
     db(''0f8fad5b'' \<mapsto>
       example_entry \<lparr>completed_weeks = [2], completed_projects = [2], pg_notes = None\<rparr>)"
  by (simp add: example_run_simps del: fst_handle(3))

section \<open>Properties of the handlers\<close>

text \<open>
  C4.  The three handlers that look an identifier up raise exactly when the
  identifier is not in the registry, and what they raise is the HTTP error 404
  with the detail \<^verbatim>\<open>Roadmap not found\<close>; they have no other error.
\<close>

theorem lookups_fail_on_unknown_id:
  "(update_progress db now u = Inl e \<longleftrightarrow>
      pu_roadmap_id u \<notin> dom db \<and> e = HTTPException 404 ''Roadmap not found'')
   \<and> (get_roadmap db rid = Inl e \<longleftrightarrow>
      rid \<notin> dom db \<and> e = HTTPException 404 ''Roadmap not found'')
   \<and> (get_visual_timeline db rid = Inl e \<longleftrightarrow>
      rid \<notin> dom db \<and> e = HTTPException 404 ''Roadmap not found'')"
  by (auto simp: update_progress_def get_roadmap_def get_visual_timeline_def Let_def
      not_found_def split: option.splits)

theorem lookups_fail_on_unknown_id_witness:
  "get_roadmap Map.empty ''00000000'' = Inl (HTTPException 404 ''Roadmap not found'')
   \<and> update_progress Map.empty ''2024-01-02T00:00:00'' example_update
     = Inl (HTTPException 404 ''Roadmap not found'')"
  using lookups_fail_on_unknown_id [of Map.empty "''2024-01-02T00:00:00''" example_update
      "HTTPException 404 ''Roadmap not found''" "''00000000''"]
  by simp

text \<open>
  C5.  On a known identifier \<^verbatim>\<open>update_progress\<close> answers \<^verbatim>\<open>success\<close> with the
  completed weeks (the stored list, with the week of the update appended unless it
  is in the list already), the number of weeks of the stored plan, and the
  percentage of the two rounded to one decimal.  The new registry differs from the
  old one only in the progress of that entry.
\<close>

theorem update_progress_response:
  assumes "db (pu_roadmap_id u) = Some e"
  shows "\<exists>r. update_progress db now u =
        Inr (db(pu_roadmap_id u \<mapsto>
               e\<lparr>entry_progress := record_update now u (entry_progress e)\<rparr>), r)
     \<and> pr_status r = ''success''
     \<and> pr_completed_weeks r =
         (if pu_week_completed u \<in> set (completed_weeks (entry_progress e))
          then completed_weeks (entry_progress e)
          else completed_weeks (entry_progress e) @ [pu_week_completed u])
     \<and> pr_total_weeks r = length (rm_weekly_plan (entry_roadmap e))
     \<and> pr_progress_percentage r =
         py_round1 (percentage (length (pr_completed_weeks r)) (pr_total_weeks r))"
  using assms
  by (simp add: update_progress_found [of db u e now] record_update_weeks
      progress_percentage_def)

theorem update_progress_response_witness:
  "\<exists>db' r. update_progress (fst (generate_roadmap Map.empty example_env example_input))
        ''2024-01-02T00:00:00'' example_update = Inr (db', r)
     \<and> pr_completed_weeks r = [2] \<and> pr_total_weeks r = 4
     \<and> pr_progress_percentage r = py_round1 (percentage 1 4)"
  using update_progress_response [of "fst (generate_roadmap Map.empty example_env example_input)"
      example_update "example_entry initial_progress" "''2024-01-02T00:00:00''"]
  by (auto simp: example_stored example_entry_def initial_progress_def)

text \<open>
  C30.  No request removes an entry.  After any request, an entry that was in the
  registry is still there and either has the same plan and a progress whose
  completed weeks, completed projects and notes extend the old ones at the end,
  or the request was a generation whose identifier is that of the entry, and the
  progress is empty again.
\<close>

theorem progress_only_grows:
  assumes "db rid = Some e"
  shows "\<exists>e'. fst (handle db r) rid = Some e'
     \<and> ((entry_roadmap e' = entry_roadmap e
          \<and> prefix (completed_weeks (entry_progress e)) (completed_weeks (entry_progress e'))
          \<and> prefix (completed_projects (entry_progress e))
                (completed_projects (entry_progress e'))
          \<and> prefix (notes_of (entry_progress e)) (notes_of (entry_progress e')))
        \<or> (\<exists>env user_input. r = Generate_roadmap env user_input
             \<and> take 8 (env_uuid4 env) = rid
             \<and> entry_progress e' = initial_progress))"
proof (cases r)
  case (Generate_roadmap env user_input)
  show ?thesis
  proof (cases "well_formed_structure (get_ai_roadmap_structure env user_input)
      \<and> take 8 (env_uuid4 env) = rid")
    case True
    with store_simps(1) [of db "snd (generate_roadmap db env user_input)"] Generate_roadmap
    show ?thesis by (simp add: fst_generate_roadmap)
  next
    case False
    with assms Generate_roadmap show ?thesis
      by (auto simp: fst_generate_roadmap)
  qed
next
  case (Update_progress now u)
  show ?thesis
  proof (cases "pu_roadmap_id u = rid")
    case True
    with assms Update_progress show ?thesis
      by (simp add: update_progress_found prefix_record_update_weeks
          prefix_record_update_projects prefix_notes_record_update)
  next
    case False
    with assms Update_progress show ?thesis
      by (cases "db (pu_roadmap_id u)")
        (simp_all add: update_progress_not_found update_progress_found)
  qed
qed (use assms in simp_all)

theorem progress_only_grows_witness:
  "\<exists>e'. fst (handle (fst (generate_roadmap Map.empty example_env example_input))
             (Update_progress ''2024-01-02T00:00:00'' example_update)) ''0f8fad5b'' = Some e'
     \<and> entry_roadmap e' = example_roadmap"
  using progress_only_grows [of "fst (generate_roadmap Map.empty example_env example_input)"
      "''0f8fad5b''" "example_entry initial_progress"
      "Update_progress ''2024-01-02T00:00:00'' example_update"]
  by (auto simp: example_stored example_entry_def)

text \<open>
  C36.  After a successful update, \<^verbatim>\<open>get_roadmap\<close> and \<^verbatim>\<open>get_visual_timeline\<close> on
  the same identifier succeed and agree with the response of the update: the same
  percentage, the same number of completed weeks, the same total; and the
  timeline marks a week as completed exactly when its number is in the list the
  update returned.
\<close>

theorem stats_agree_with_update:
  assumes "update_progress db now u = Inr (db', r)"
  shows "\<exists>v t. get_roadmap db' (pu_roadmap_id u) = Inr v
     \<and> get_visual_timeline db' (pu_roadmap_id u) = Inr t
     \<and> st_progress_percentage (rv_stats v) = pr_progress_percentage r
     \<and> st_completed_weeks (rv_stats v) = length (pr_completed_weeks r)
     \<and> st_total_weeks (rv_stats v) = pr_total_weeks r
     \<and> completed_weeks (rv_progress v) = pr_completed_weeks r
     \<and> tv_total_weeks t = pr_total_weeks r
     \<and> tv_completed_weeks t = length (pr_completed_weeks r)
     \<and> map ti_completed (tv_timeline t) =
         map (\<lambda>w. wp_week w \<in> set (pr_completed_weeks r)) (rm_weekly_plan (rv_roadmap v))"
proof -
  from assms obtain e where e: "db (pu_roadmap_id u) = Some e"
    and db': "db' = db(pu_roadmap_id u \<mapsto>
           e\<lparr>entry_progress := record_update now u (entry_progress e)\<rparr>)"
    and r: "pr_completed_weeks r = completed_weeks (record_update now u (entry_progress e))"
      "pr_total_weeks r = length (rm_weekly_plan (entry_roadmap e))"
      "pr_progress_percentage r =
         progress_percentage (length (pr_completed_weeks r)) (pr_total_weeks r)"
    by (rule update_progress_Inr)
  from db' have "db' (pu_roadmap_id u) =
      Some (e\<lparr>entry_progress := record_update now u (entry_progress e)\<rparr>)"
    by simp
  with r show ?thesis
    by (simp add: get_roadmap_found get_visual_timeline_found timeline_item_of_def comp_def)
qed

theorem stats_agree_with_update_witness:
  "\<exists>v. get_roadmap
        (fst (projr (update_progress (fst (generate_roadmap Map.empty example_env example_input))
                      ''2024-01-02T00:00:00'' example_update))) ''0f8fad5b'' = Inr v
     \<and> st_total_weeks (rv_stats v)
       = pr_total_weeks (snd (projr (update_progress
           (fst (generate_roadmap Map.empty example_env example_input))
           ''2024-01-02T00:00:00'' example_update)))"
  using stats_agree_with_update [OF example_update_ok [of Map.empty "''2024-01-02T00:00:00''"]]
  by auto

end
