(* ===== verification/Registry_Store.thy ===== *)
theory Registry_Store
  imports Roadmap_Service
begin

text \<open>
  The registry of \<^verbatim>\<open>src/main.py\<close> once more, this time with the identity of the
  Python objects the handlers share.  \<^verbatim>\<open>progress_db\<close> maps an identifier to an entry
  dictionary; the entry refers to its progress dictionary; \<^verbatim>\<open>update_progress\<close>
  appends through that reference, and \<^verbatim>\<open>get_roadmap\<close> writes the key \<^verbatim>\<open>stats\<close> into a
  shallow copy of the entry.  Objects live in a heap at addresses handed out by a
  counter.  The lemmas show which objects each handler touches, and that under the
  invariant of the store the handlers here and the handlers of \<open>Roadmap_Service\<close>
  give the same responses and the same registry.  The plan of an entry and the
  lists of a progress dictionary are kept as values: the program never changes a
  stored plan, and it reaches the lists only through their progress dictionary.
\<close>

section \<open>Objects and store\<close>

type_synonym addr = nat

text \<open>An entry dictionary; the key \<^verbatim>\<open>stats\<close> exists only where it was written.\<close>

record entry_dict =
  ed_roadmap :: roadmap
  ed_progress :: addr
  ed_created_at :: string
  ed_stats :: "stats option"

record heap =
  hp_db :: "string \<rightharpoonup> addr"
  hp_entries :: "addr \<Rightarrow> entry_dict"
  hp_progress :: "addr \<Rightarrow> progress"
  hp_next :: addr

text \<open>What the framework serialises when a handler returns an entry dictionary.\<close>

record entry_view =
  ev_roadmap :: roadmap
  ev_progress :: progress
  ev_created_at :: string
  ev_stats :: "stats option"

definition read_entry :: "heap \<Rightarrow> addr \<Rightarrow> entry_view" where
  "read_entry h a =
     \<lparr>ev_roadmap = ed_roadmap (hp_entries h a),
      ev_progress = hp_progress h (ed_progress (hp_entries h a)),
      ev_created_at = ed_created_at (hp_entries h a),
      ev_stats = ed_stats (hp_entries h a)\<rparr>"

definition empty_store :: heap where
  "empty_store =
     \<lparr>hp_db = Map.empty, hp_entries = (\<lambda>a. undefined), hp_progress = (\<lambda>a. undefined),
      hp_next = 0\<rparr>"

section \<open>Allocation\<close>

definition alloc_progress :: "progress \<Rightarrow> heap \<Rightarrow> addr \<times> heap" where
  "alloc_progress p h =
     (hp_next h, h\<lparr>hp_progress := (hp_progress h)(hp_next h := p), hp_next := Suc (hp_next h)\<rparr>)"

definition alloc_entry :: "entry_dict \<Rightarrow> heap \<Rightarrow> addr \<times> heap" where
  "alloc_entry e h =
     (hp_next h, h\<lparr>hp_entries := (hp_entries h)(hp_next h := e), hp_next := Suc (hp_next h)\<rparr>)"

section \<open>Handlers on the store\<close>

text \<open>Lines 145-149: the inner dictionary, the entry, then the assignment.\<close>

definition store_roadmap :: "heap \<Rightarrow> roadmap \<Rightarrow> heap" where
  "store_roadmap h roadmap =
     (case alloc_progress \<lparr>completed_weeks = [], completed_projects = [], pg_notes = None\<rparr> h of
        (progress, h1) \<Rightarrow>
     (case alloc_entry \<lparr>ed_roadmap = roadmap, ed_progress = progress,
             ed_created_at = rm_generated_at roadmap, ed_stats = None\<rparr> h1 of
        (entry, h2) \<Rightarrow> h2\<lparr>hp_db := (hp_db h2)(rm_roadmap_id roadmap \<mapsto> entry)\<rparr>))"

definition generate_roadmap_store ::
    "heap \<Rightarrow> environment \<Rightarrow> EnhancedUserInput \<Rightarrow> heap \<times> roadmap" where
  "generate_roadmap_store h env user_input =
     (let topic = detect_topic (lower (ui_goal user_input));
          roadmap_structure = get_ai_roadmap_structure env user_input in
      case enhance_with_real_content roadmap_structure topic user_input of
        Inr content \<Rightarrow>
          (let roadmap = add_metadata content (env_uuid4 env) (env_now env) topic
           in (store_roadmap h roadmap, roadmap))
      | Inl e \<Rightarrow> (h, create_fallback_roadmap env user_input topic))"

text \<open>
  Lines 439-467: \<^verbatim>\<open>progress\<close> is a reference to the progress dictionary of the
  entry, and the appends change the object it refers to.
\<close>

definition update_progress_store ::
    "heap \<Rightarrow> string \<Rightarrow> ProgressUpdate \<Rightarrow> heap \<times> progress_response result" where
  "update_progress_store h now update =
     (case hp_db h (pu_roadmap_id update) of
        None \<Rightarrow> (h, Inl not_found)
      | Some entry \<Rightarrow>
          (let progress = ed_progress (hp_entries h entry);
               h' = h\<lparr>hp_progress := (hp_progress h)
                      (progress := record_update now update (hp_progress h progress))\<rparr>;
               roadmap = ed_roadmap (hp_entries h' entry);
               total_weeks = length (rm_weekly_plan roadmap);
               completed = length (completed_weeks (hp_progress h' progress))
           in (h', bind_res (py_percentage completed total_weeks) (\<lambda>percentage.
                 Inr \<lparr>pr_status = ''success'',
                      pr_progress_percentage = py_round1 percentage,
                      pr_completed_weeks = completed_weeks (hp_progress h' progress),
                      pr_total_weeks = total_weeks\<rparr>))))"

text \<open>
  Lines 472-487: \<^verbatim>\<open>data\<close> is a new dictionary with the items of the entry, so it
  refers to the same progress dictionary; \<^verbatim>\<open>stats\<close> is written into \<^verbatim>\<open>data\<close>.
\<close>

definition get_roadmap_store :: "heap \<Rightarrow> string \<Rightarrow> heap \<times> entry_view result" where
  "get_roadmap_store h roadmap_id =
     (case hp_db h roadmap_id of
        None \<Rightarrow> (h, Inl not_found)
      | Some entry \<Rightarrow>
          (case alloc_entry (hp_entries h entry) h of (data, h1) \<Rightarrow>
             (let progress = hp_progress h1 (ed_progress (hp_entries h1 data));
                  total_weeks = length (rm_weekly_plan (ed_roadmap (hp_entries h1 data)));
                  completed = length (completed_weeks progress)
              in case py_percentage completed total_weeks of
                   Inl e \<Rightarrow> (h1, Inl e)
                 | Inr pct \<Rightarrow>
                     (let h2 = h1\<lparr>hp_entries := (hp_entries h1)
                            (data := (hp_entries h1 data)
                               \<lparr>ed_stats := Some
                                  \<lparr>st_progress_percentage = py_round1 pct,
                                   st_completed_weeks = completed,
                                   st_total_weeks = total_weeks\<rparr>\<rparr>)\<rparr>
                      in (h2, Inr (read_entry h2 data))))))"

text \<open>Lines 492-511 only read.\<close>

definition get_visual_timeline_store :: "heap \<Rightarrow> string \<Rightarrow> heap \<times> timeline_view result" where
  "get_visual_timeline_store h roadmap_id =
     (case hp_db h roadmap_id of
        None \<Rightarrow> (h, Inl not_found)
      | Some entry \<Rightarrow>
          (let roadmap = ed_roadmap (hp_entries h entry);
               progress = hp_progress h (ed_progress (hp_entries h entry));
               timeline_data = map (timeline_item_of progress) (rm_weekly_plan roadmap)
           in (h, Inr \<lparr>tv_timeline = timeline_data,
                       tv_total_weeks = length timeline_data,
                       tv_completed_weeks = length (completed_weeks progress)\<rparr>)))"

section \<open>The registry a store stands for\<close>

definition entry_of :: "heap \<Rightarrow> addr \<Rightarrow> registry_entry" where
  "entry_of h a =
     \<lparr>entry_roadmap = ed_roadmap (hp_entries h a),
      entry_progress = hp_progress h (ed_progress (hp_entries h a)),
      entry_created_at = ed_created_at (hp_entries h a)\<rparr>"

definition registry_of :: "heap \<Rightarrow> progress_db" where
  "registry_of h = (\<lambda>rid. map_option (entry_of h) (hp_db h rid))"

text \<open>The dictionary sent for a view of the functional handler.\<close>

definition view_dict :: "roadmap_view \<Rightarrow> entry_view" where
  "view_dict v =
     \<lparr>ev_roadmap = rv_roadmap v, ev_progress = rv_progress v,
      ev_created_at = rv_created_at v, ev_stats = Some (rv_stats v)\<rparr>"

text \<open>
  The invariant of the store: what the registry refers to has been allocated, no
  stored entry has the key \<^verbatim>\<open>stats\<close>, and no two identifiers share an entry or a
  progress dictionary.
\<close>

definition store_inv :: "heap \<Rightarrow> bool" where
  "store_inv h \<longleftrightarrow>
     (\<forall>rid a. hp_db h rid = Some a \<longrightarrow>
        a < hp_next h \<and> ed_progress (hp_entries h a) < hp_next h
        \<and> ed_stats (hp_entries h a) = None)
     \<and> (\<forall>rid rid' a a'. hp_db h rid = Some a \<and> hp_db h rid' = Some a'
          \<and> ed_progress (hp_entries h a) = ed_progress (hp_entries h a') \<longrightarrow> rid = rid')"


text \<open>The stores the service can be in: the empty one, and what a handler leaves.\<close>

inductive store_reachable :: "heap \<Rightarrow> bool" where
  empty: "store_reachable empty_store"
| generate: "store_reachable h \<Longrightarrow> store_reachable (fst (generate_roadmap_store h env user_input))"
| update: "store_reachable h \<Longrightarrow> store_reachable (fst (update_progress_store h now u))"
| get: "store_reachable h \<Longrightarrow> store_reachable (fst (get_roadmap_store h rid))"
| timeline: "store_reachable h \<Longrightarrow> store_reachable (fst (get_visual_timeline_store h rid))"

text \<open>The store after the plan of the worked example was generated.\<close>

definition stored_example :: heap where
  "stored_example = store_roadmap empty_store example_roadmap"

section \<open>Storing a plan\<close>

lemma store_roadmap_fields [simp]:
  "hp_db (store_roadmap h r) = (hp_db h)(rm_roadmap_id r \<mapsto> Suc (hp_next h))"
  "hp_next (store_roadmap h r) = Suc (Suc (hp_next h))"
  "hp_progress (store_roadmap h r) = (hp_progress h)(hp_next h := initial_progress)"
  "hp_entries (store_roadmap h r) = (hp_entries h)(Suc (hp_next h) :=
     \<lparr>ed_roadmap = r, ed_progress = hp_next h, ed_created_at = rm_generated_at r,
      ed_stats = None\<rparr>)"
  by (simp_all add: store_roadmap_def alloc_progress_def alloc_entry_def initial_progress_def)

lemma entry_of_frame:
  assumes "hp_entries h' a = hp_entries h a"
    and "hp_progress h' (ed_progress (hp_entries h a)) = hp_progress h (ed_progress (hp_entries h a))"
  shows "entry_of h' a = entry_of h a"
  using assms by (simp add: entry_of_def)

lemma store_inv_allocated:
  assumes "store_inv h" and "hp_db h rid = Some a"
  shows "a < hp_next h" and "ed_progress (hp_entries h a) < hp_next h"
    and "ed_stats (hp_entries h a) = None"
  using assms by (auto simp: store_inv_def)

lemma store_inv_unshared:
  assumes "store_inv h" and "hp_db h rid = Some a" and "hp_db h rid' = Some a'"
    and "ed_progress (hp_entries h a) = ed_progress (hp_entries h a')"
  shows "rid = rid'"
  using assms unfolding store_inv_def by blast

lemma store_invI:
  assumes "\<And>rid a. hp_db h rid = Some a \<Longrightarrow>
      a < hp_next h \<and> ed_progress (hp_entries h a) < hp_next h
      \<and> ed_stats (hp_entries h a) = None"
    and "\<And>rid rid' a a'. hp_db h rid = Some a \<Longrightarrow> hp_db h rid' = Some a' \<Longrightarrow>
      ed_progress (hp_entries h a) = ed_progress (hp_entries h a') \<Longrightarrow> rid = rid'"
  shows "store_inv h"
  unfolding store_inv_def using assms by blast

lemma store_inv_empty [simp]: "store_inv empty_store"
  by (simp add: store_inv_def empty_store_def)

lemma registry_of_empty [simp]: "registry_of empty_store = Map.empty"
  by (simp add: registry_of_def empty_store_def)

lemma registry_of_store_roadmap:
  assumes "store_inv h"
  shows "registry_of (store_roadmap h r) = store (registry_of h) r"
proof
  fix rid
  show "registry_of (store_roadmap h r) rid = store (registry_of h) r rid"
  proof (cases "rid = rm_roadmap_id r")
    case True
    then show ?thesis
      by (simp add: registry_of_def entry_of_def store_def initial_progress_def)
  next
    case False
    show ?thesis
    proof (cases "hp_db h rid")
      case None
      with False show ?thesis by (simp add: registry_of_def store_def)
    next
      case (Some a)
      from store_inv_allocated [OF assms Some]
      have "entry_of (store_roadmap h r) a = entry_of h a"
        by (intro entry_of_frame) simp_all
      with False Some show ?thesis by (simp add: registry_of_def store_def)
    qed
  qed
qed

lemma store_inv_store_roadmap:
  assumes "store_inv h"
  shows "store_inv (store_roadmap h r)"
proof (rule store_invI)
  fix rid a
  assume a: "hp_db (store_roadmap h r) rid = Some a"
  show "a < hp_next (store_roadmap h r)
      \<and> ed_progress (hp_entries (store_roadmap h r) a) < hp_next (store_roadmap h r)
      \<and> ed_stats (hp_entries (store_roadmap h r) a) = None"
  proof (cases "rid = rm_roadmap_id r")
    case True
    with a show ?thesis by auto
  next
    case False
    with a have "hp_db h rid = Some a" by simp
    from store_inv_allocated [OF assms this] show ?thesis by simp
  qed
next
  fix rid rid' a a'
  assume a: "hp_db (store_roadmap h r) rid = Some a"
    and a': "hp_db (store_roadmap h r) rid' = Some a'"
    and eq: "ed_progress (hp_entries (store_roadmap h r) a)
      = ed_progress (hp_entries (store_roadmap h r) a')"
  consider "rid = rm_roadmap_id r" "rid' = rm_roadmap_id r"
    | "rid = rm_roadmap_id r" "rid' \<noteq> rm_roadmap_id r"
    | "rid \<noteq> rm_roadmap_id r" "rid' = rm_roadmap_id r"
    | "rid \<noteq> rm_roadmap_id r" "rid' \<noteq> rm_roadmap_id r" by blast
  then show "rid = rid'"
  proof cases
    case 1
    then show ?thesis by simp
  next
    case 2
    with a' have "hp_db h rid' = Some a'" by simp
    from store_inv_allocated [OF assms this] 2 a eq show ?thesis by auto
  next
    case 3
    with a have "hp_db h rid = Some a" by simp
    from store_inv_allocated [OF assms this] 3 a' eq show ?thesis by auto
  next
    case 4
    with a a' have h: "hp_db h rid = Some a" "hp_db h rid' = Some a'" by simp_all
    from store_inv_allocated [OF assms h(1)] store_inv_allocated [OF assms h(2)] eq
    have "ed_progress (hp_entries h a) = ed_progress (hp_entries h a')" by auto
    with assms h show ?thesis by (rule store_inv_unshared)
  qed
qed


lemma generate_roadmap_store_refines:
  assumes "store_inv h"
  shows "map_prod registry_of id (generate_roadmap_store h env user_input)
      = generate_roadmap (registry_of h) env user_input"
    and "store_inv (fst (generate_roadmap_store h env user_input))"
  using assms
  by (auto simp: generate_roadmap_store_def generate_roadmap_def Let_def
        registry_of_store_roadmap store_inv_store_roadmap split: sum.splits)

section \<open>Recording progress\<close>

lemma update_progress_store_unknown:
  "hp_db h (pu_roadmap_id u) = None \<Longrightarrow> update_progress_store h now u = (h, Inl not_found)"
  by (simp add: update_progress_store_def)

lemma update_progress_store_found:
  assumes "hp_db h (pu_roadmap_id u) = Some a"
  shows "fst (update_progress_store h now u) =
      h\<lparr>hp_progress := (hp_progress h)(ed_progress (hp_entries h a) :=
          record_update now u (hp_progress h (ed_progress (hp_entries h a))))\<rparr>"
    and "snd (update_progress_store h now u) =
      map_sum id snd (update_progress (registry_of h) now u)"
  using assms
  by (simp_all add: update_progress_store_def update_progress_def registry_of_def entry_of_def
        Let_def)

lemma registry_of_update:
  assumes "store_inv h" and "hp_db h rid = Some a"
  shows "registry_of (h\<lparr>hp_progress := (hp_progress h)(ed_progress (hp_entries h a) := p)\<rparr>)
      = (registry_of h)(rid \<mapsto> (entry_of h a)\<lparr>entry_progress := p\<rparr>)"
    (is "registry_of ?h' = _")
proof
  fix rid'
  show "registry_of ?h' rid' = ((registry_of h)(rid \<mapsto> (entry_of h a)\<lparr>entry_progress := p\<rparr>)) rid'"
  proof (cases "hp_db h rid'")
    case None
    with assms(2) show ?thesis by (auto simp: registry_of_def)
  next
    case (Some a')
    show ?thesis
    proof (cases "rid' = rid")
      case True
      with assms(2) show ?thesis by (simp add: registry_of_def entry_of_def)
    next
      case False
      with store_inv_unshared [OF assms(1) Some assms(2)]
      have "ed_progress (hp_entries h a') \<noteq> ed_progress (hp_entries h a)" by blast
      with False Some show ?thesis by (simp add: registry_of_def entry_of_def)
    qed
  qed
qed

lemma store_inv_progress_update:
  "store_inv (h\<lparr>hp_progress := f\<rparr>) = store_inv h"
  by (simp add: store_inv_def)

lemma update_progress_store_refines:
  assumes "store_inv h"
  shows "update_progress (registry_of h) now u =
      map_sum id (Pair (registry_of (fst (update_progress_store h now u))))
        (snd (update_progress_store h now u))"
    and "store_inv (fst (update_progress_store h now u))"
proof -
  show "store_inv (fst (update_progress_store h now u))"
    using assms
    by (cases "hp_db h (pu_roadmap_id u)")
      (simp_all add: update_progress_store_unknown update_progress_store_found(1)
        store_inv_progress_update)
  show "update_progress (registry_of h) now u =
      map_sum id (Pair (registry_of (fst (update_progress_store h now u))))
        (snd (update_progress_store h now u))"
  proof (cases "hp_db h (pu_roadmap_id u)")
    case None
    then show ?thesis
      by (simp add: update_progress_store_unknown update_progress_def registry_of_def)
  next
    case (Some a)
    show ?thesis
      unfolding update_progress_store_found [OF Some] registry_of_update [OF assms Some]
      using Some by (simp add: update_progress_def registry_of_def entry_of_def Let_def)
  qed
qed

section \<open>Reading an entry\<close>

lemma get_roadmap_store_unknown:
  "hp_db h rid = None \<Longrightarrow> get_roadmap_store h rid = (h, Inl not_found)"
  by (simp add: get_roadmap_store_def)

lemma get_roadmap_store_found:
  assumes "hp_db h rid = Some a"
  shows "fst (get_roadmap_store h rid) =
      h\<lparr>hp_entries := (hp_entries h)(hp_next h := (hp_entries h a)
            \<lparr>ed_stats := Some (rv_stats (projr (get_roadmap (registry_of h) rid)))\<rparr>),
        hp_next := Suc (hp_next h)\<rparr>"
    and "snd (get_roadmap_store h rid) = map_sum id view_dict (get_roadmap (registry_of h) rid)"
  using assms
  by (simp_all add: get_roadmap_store_def get_roadmap_def registry_of_def entry_of_def
        alloc_entry_def read_entry_def view_dict_def Let_def)

lemma registry_of_get_roadmap:
  assumes "store_inv h"
  shows "registry_of (fst (get_roadmap_store h rid)) = registry_of h"
proof (cases "hp_db h rid")
  case None
  then show ?thesis by (simp add: get_roadmap_store_unknown)
next
  case (Some a)
  show ?thesis
  proof
    fix rid'
    show "registry_of (fst (get_roadmap_store h rid)) rid' = registry_of h rid'"
    proof (cases "hp_db h rid'")
      case None
      then show ?thesis by (simp add: get_roadmap_store_found(1) [OF Some] registry_of_def)
    next
      case a': (Some a')
      from store_inv_allocated(1) [OF assms a'] a' show ?thesis
        by (simp add: get_roadmap_store_found(1) [OF Some] registry_of_def entry_of_def)
    qed
  qed
qed

lemma store_inv_get_roadmap:
  assumes "store_inv h"
  shows "store_inv (fst (get_roadmap_store h rid))"
proof (cases "hp_db h rid")
  case None
  with assms show ?thesis by (simp add: get_roadmap_store_unknown)
next
  case (Some a)
  show ?thesis
  proof (rule store_invI)
    fix rid' a'
    assume "hp_db (fst (get_roadmap_store h rid)) rid' = Some a'"
    then have "hp_db h rid' = Some a'" by (simp add: get_roadmap_store_found(1) [OF Some])
    from store_inv_allocated [OF assms this]
    show "a' < hp_next (fst (get_roadmap_store h rid))
      \<and> ed_progress (hp_entries (fst (get_roadmap_store h rid)) a')
          < hp_next (fst (get_roadmap_store h rid))
      \<and> ed_stats (hp_entries (fst (get_roadmap_store h rid)) a') = None"
      by (simp add: get_roadmap_store_found(1) [OF Some])
  next
    fix rid1 rid2 a1 a2
    assume "hp_db (fst (get_roadmap_store h rid)) rid1 = Some a1"
      and "hp_db (fst (get_roadmap_store h rid)) rid2 = Some a2"
      and eq: "ed_progress (hp_entries (fst (get_roadmap_store h rid)) a1)
        = ed_progress (hp_entries (fst (get_roadmap_store h rid)) a2)"
    then have a: "hp_db h rid1 = Some a1" "hp_db h rid2 = Some a2"
      by (simp_all add: get_roadmap_store_found(1) [OF Some])
    from store_inv_allocated(1) [OF assms a(1)] store_inv_allocated(1) [OF assms a(2)] eq
    have "ed_progress (hp_entries h a1) = ed_progress (hp_entries h a2)"
      by (simp add: get_roadmap_store_found(1) [OF Some])
    with assms a show "rid1 = rid2" by (rule store_inv_unshared)
  qed
qed

lemma get_visual_timeline_store_refines:
  "get_visual_timeline_store h rid = (h, get_visual_timeline (registry_of h) rid)"
  by (simp add: get_visual_timeline_store_def get_visual_timeline_def registry_of_def
        entry_of_def Let_def split: option.splits)


lemma get_roadmap_store_response:
  "snd (get_roadmap_store h rid) = map_sum id view_dict (get_roadmap (registry_of h) rid)"
  by (cases "hp_db h rid")
    (simp_all add: get_roadmap_store_unknown get_roadmap_store_found(2) get_roadmap_def
      registry_of_def)

section \<open>Reachable stores\<close>

lemma registry_of_update_progress_store:
  assumes "store_inv h"
  shows "registry_of (fst (update_progress_store h now u))
      = fst (handle (registry_of h) (Update_progress now u))"
proof (cases "hp_db h (pu_roadmap_id u)")
  case None
  then show ?thesis
    by (simp add: update_progress_store_unknown update_progress_def registry_of_def)
next
  case (Some a)
  then have "update_progress (registry_of h) now u \<noteq> Inl e" for e
    by (simp add: update_progress_def registry_of_def Let_def)
  with update_progress_store_refines(1) [OF assms, of now u] show ?thesis
    by (cases "snd (update_progress_store h now u)") auto
qed

lemma registry_of_generate_roadmap_store:
  assumes "store_inv h"
  shows "registry_of (fst (generate_roadmap_store h env user_input))
      = fst (handle (registry_of h) (Generate_roadmap env user_input))"
  using generate_roadmap_store_refines(1) [OF assms, of env user_input]
  by (simp add: prod_eq_iff)

lemma stored_example_inv [simp]: "store_inv stored_example"
  by (simp add: stored_example_def store_inv_store_roadmap)

lemma stored_example_db [simp]: "hp_db stored_example ''0f8fad5b'' = Some 1"
  by (simp add: stored_example_def empty_store_def)

section \<open>Properties of the store\<close>

text \<open>
  C6.  Under the invariant of the store, the handlers on the store and the
  handlers on the registry as a value agree.  A generation gives the same plan and
  a store that stands for the registry the functional handler gives;
  \<^verbatim>\<open>update_progress\<close> gives the same response or the same error, and its store
  stands for the updated registry, although it changes one progress dictionary in
  place; \<^verbatim>\<open>get_roadmap\<close> sends the dictionary of the functional view and leaves the
  registry as it was; \<^verbatim>\<open>get_visual_timeline\<close> changes nothing.
\<close>

theorem store_refines_registry:
  assumes "store_inv h"
  shows "map_prod registry_of id (generate_roadmap_store h env user_input)
        = generate_roadmap (registry_of h) env user_input
     \<and> update_progress (registry_of h) now u
        = map_sum id (Pair (registry_of (fst (update_progress_store h now u))))
            (snd (update_progress_store h now u))
     \<and> registry_of (fst (get_roadmap_store h rid)) = registry_of h
     \<and> snd (get_roadmap_store h rid) = map_sum id view_dict (get_roadmap (registry_of h) rid)
     \<and> get_visual_timeline_store h rid = (h, get_visual_timeline (registry_of h) rid)"
  using assms
  by (simp add: generate_roadmap_store_refines(1) update_progress_store_refines(1) [symmetric]
      registry_of_get_roadmap get_roadmap_store_response get_visual_timeline_store_refines)

theorem store_refines_registry_witness:
  "update_progress (registry_of stored_example) ''2024-01-02T00:00:00'' example_update
      = map_sum id (Pair (registry_of
          (fst (update_progress_store stored_example ''2024-01-02T00:00:00'' example_update))))
          (snd (update_progress_store stored_example ''2024-01-02T00:00:00'' example_update))
   \<and> registry_of (fst (get_roadmap_store stored_example ''0f8fad5b'')) = registry_of stored_example"
  using store_refines_registry [OF stored_example_inv,
      of example_env example_input "''2024-01-02T00:00:00''" example_update "''0f8fad5b''"]
  by simp

text \<open>
  C7.  \<^verbatim>\<open>get_roadmap\<close> writes the key \<^verbatim>\<open>stats\<close> into a copy.  For a registered
  identifier the handler allocates one dictionary; the entry the registry refers
  to is the same object with the same items as before and has no key \<^verbatim>\<open>stats\<close>;
  the registry and every progress dictionary are unchanged.  The copy is shallow:
  the dictionary sent refers to the progress dictionary of the stored entry, and
  it carries the statistics.
\<close>

theorem get_roadmap_copies_entry:
  assumes "store_inv h" and "hp_db h rid = Some a"
    and "h' = fst (get_roadmap_store h rid)"
  shows "hp_db h' = hp_db h \<and> hp_progress h' = hp_progress h
     \<and> hp_entries h' a = hp_entries h a \<and> ed_stats (hp_entries h' a) = None
     \<and> hp_next h' = Suc (hp_next h)
     \<and> ed_progress (hp_entries h' (hp_next h)) = ed_progress (hp_entries h a)
     \<and> ed_stats (hp_entries h' (hp_next h))
        = Some (rv_stats (projr (get_roadmap (registry_of h) rid)))"
  using store_inv_allocated [OF assms(1,2)]
  by (simp add: assms(3) get_roadmap_store_found(1) [OF assms(2)])

theorem get_roadmap_copies_entry_witness:
  "hp_entries (fst (get_roadmap_store stored_example ''0f8fad5b'')) 1 = hp_entries stored_example 1
   \<and> ed_stats (hp_entries (fst (get_roadmap_store stored_example ''0f8fad5b'')) 1) = None
   \<and> hp_next (fst (get_roadmap_store stored_example ''0f8fad5b'')) = 3"
  using get_roadmap_copies_entry [OF stored_example_inv stored_example_db refl]
  by (simp add: stored_example_def empty_store_def)

text \<open>
  C8.  Every store the service can be in satisfies the invariant of the store and
  stands for a registry that the service of \<open>Roadmap_Service\<close> can reach; so the
  invariant of the registry holds of it.
\<close>

theorem reachable_store_represents_registry:
  assumes "store_reachable h"
  shows "store_inv h \<and> reachable (registry_of h) \<and> db_inv (registry_of h)"
proof -
  from assms have "store_inv h \<and> reachable (registry_of h)"
  proof induction
    case empty
    show ?case by (simp add: reachable.start)
  next
    case (generate h env user_input)
    then show ?case
      by (simp add: generate_roadmap_store_refines(2) registry_of_generate_roadmap_store
          reachable.step del: fst_handle)
  next
    case (update h now u)
    then show ?case
      by (simp add: update_progress_store_refines(2) registry_of_update_progress_store
          reachable.step del: fst_handle)
  next
    case (get h rid)
    then show ?case by (simp add: store_inv_get_roadmap registry_of_get_roadmap)
  next
    case (timeline h rid)
    then show ?case by (simp add: get_visual_timeline_store_refines)
  qed
  then show ?thesis by (simp add: reachable_db_inv)
qed

theorem reachable_store_represents_registry_witness:
  "store_inv (fst (generate_roadmap_store empty_store example_env example_input))
   \<and> reachable (registry_of (fst (generate_roadmap_store empty_store example_env example_input)))
   \<and> db_inv (registry_of (fst (generate_roadmap_store empty_store example_env example_input)))"
  using reachable_store_represents_registry
    [OF store_reachable.generate [OF store_reachable.empty, of example_env example_input]]
  by simp

end
