(* ===== verification/Update_Interleaving.thy ===== *)
theory Update_Interleaving
  imports Progress_Tracker
begin

text \<open>
  Concurrent calls of \<^verbatim>\<open>update_progress\<close> (lines 436-467 of \<^verbatim>\<open>src/main.py\<close>).  The
  handler is a synchronous function, which the framework runs on a pool of
  threads, and it takes no lock.  Each handler is cut into the steps between which
  another thread can run: the membership test of line 444, the append of line 445,
  the append to \<^verbatim>\<open>completed_projects\<close> (line 448), the append of the note (lines
  451-455) and the reading of the length (line 459).  A method call on a list or a
  dictionary is one step, as under the interpreter lock.  All handlers work on the
  progress dictionary of one entry; a schedule says which handler moves next.
  The lemmas show that a handler that is not interrupted is \<open>record_update\<close>, that
  two interleaved handlers can store a week twice, and what every schedule
  preserves.
\<close>

section \<open>One handler in steps\<close>

datatype pc = At_test | At_append | At_project | At_note | At_count | Finished

text \<open>
  A running handler: its request, the time it reads for a note, where it is, and
  the value of \<^verbatim>\<open>completed\<close> once line 459 has run.
\<close>

record handler_thread =
  th_update :: ProgressUpdate
  th_now :: string
  th_pc :: pc
  th_completed :: "nat option"

definition start_thread :: "ProgressUpdate \<Rightarrow> string \<Rightarrow> handler_thread" where
  "start_thread update now =
     \<lparr>th_update = update, th_now = now, th_pc = At_test, th_completed = None\<rparr>"

definition thread_step :: "handler_thread \<Rightarrow> progress \<Rightarrow> handler_thread \<times> progress" where
  "thread_step t p =
     (let update = th_update t; week = pu_week_completed update in
      case th_pc t of
        At_test \<Rightarrow>
          (t\<lparr>th_pc := (if week \<notin> set (completed_weeks p) then At_append else At_project)\<rparr>, p)
      | At_append \<Rightarrow>
          (t\<lparr>th_pc := At_project\<rparr>, p\<lparr>completed_weeks := completed_weeks p @ [week]\<rparr>)
      | At_project \<Rightarrow> (t\<lparr>th_pc := At_note\<rparr>, mark_project (pu_project_done update) week p)
      | At_note \<Rightarrow> (t\<lparr>th_pc := At_count\<rparr>, add_note (pu_notes update) week (th_now t) p)
      | At_count \<Rightarrow>
          (t\<lparr>th_pc := Finished, th_completed := Some (length (completed_weeks p))\<rparr>, p)
      | Finished \<Rightarrow> (t, p))"

section \<open>Handlers on a shared progress dictionary\<close>

type_synonym config = "handler_thread list \<times> progress"

text \<open>Handler \<open>i\<close> moves; an index without a handler moves nothing.\<close>

definition sched_step :: "nat \<Rightarrow> config \<Rightarrow> config" where
  "sched_step i c =
     (if i < length (fst c)
      then (case thread_step (fst c ! i) (snd c) of (t, p) \<Rightarrow> ((fst c)[i := t], p))
      else c)"

primrec run_schedule :: "nat list \<Rightarrow> config \<Rightarrow> config" where
  "run_schedule [] c = c"
| "run_schedule (i # sched) c = run_schedule sched (sched_step i c)"

text \<open>The same requests served one after the other, in the order of the list.\<close>

definition serve :: "handler_thread list \<Rightarrow> progress \<Rightarrow> progress" where
  "serve ts p = fold (\<lambda>t. record_update (th_now t) (th_update t)) ts p"

section \<open>Specification-level definitions\<close>

definition th_week :: "handler_thread \<Rightarrow> int" where
  "th_week t = pu_week_completed (th_update t)"

text \<open>An upper bound of the steps a handler still takes.\<close>

fun remaining :: "pc \<Rightarrow> nat" where
  "remaining At_test = 5"
| "remaining At_append = 4"
| "remaining At_project = 3"
| "remaining At_note = 2"
| "remaining At_count = 1"
| "remaining Finished = 0"

definition all_finished :: "handler_thread list \<Rightarrow> bool" where
  "all_finished ts \<longleftrightarrow> list_all (\<lambda>t. th_pc t = Finished) ts"

definition all_fresh :: "handler_thread list \<Rightarrow> bool" where
  "all_fresh ts \<longleftrightarrow> list_all (\<lambda>t. th_pc t = At_test) ts"

text \<open>What a handler has done to the dictionary, as a function of where it is.\<close>

definition week_done :: "handler_thread \<Rightarrow> bool" where
  "week_done t \<longleftrightarrow> remaining (th_pc t) \<le> 3"

definition project_added :: "handler_thread \<Rightarrow> bool" where
  "project_added t \<longleftrightarrow> remaining (th_pc t) \<le> 2 \<and> pu_project_done (th_update t)"

definition note_added :: "handler_thread \<Rightarrow> bool" where
  "note_added t \<longleftrightarrow>
     remaining (th_pc t) \<le> 1 \<and> pu_notes (th_update t) \<noteq> None \<and> pu_notes (th_update t) \<noteq> Some []"

definition note_of :: "handler_thread \<Rightarrow> note_entry" where
  "note_of t =
     \<lparr>ne_week = th_week t,
      ne_note = (case pu_notes (th_update t) of None \<Rightarrow> [] | Some n \<Rightarrow> n),
      ne_timestamp = th_now t\<rparr>"

text \<open>The request a handler serves; no step changes it.\<close>

definition request_of :: "handler_thread \<Rightarrow> ProgressUpdate \<times> string" where
  "request_of t = (th_update t, th_now t)"

text \<open>
  The invariant of a run that started from the dictionary \<open>p0\<close>, over the handlers
  as a multiset: nothing was removed, a handler past line 445 finds its week,
  every week comes from \<open>p0\<close> or from a handler and each handler added it at most
  once, and the projects and the notes are those of \<open>p0\<close> and of the handlers past
  the respective line.
\<close>

definition inv_on :: "progress \<Rightarrow> handler_thread multiset \<Rightarrow> progress \<Rightarrow> bool" where
  "inv_on p0 M p \<longleftrightarrow>
     mset (completed_weeks p0) \<subseteq># mset (completed_weeks p)
     \<and> mset (completed_weeks p) \<subseteq>#
         mset (completed_weeks p0) + image_mset th_week (filter_mset week_done M)
     \<and> (\<forall>t \<in># M. week_done t \<longrightarrow> th_week t \<in> set (completed_weeks p))
     \<and> mset (completed_projects p) =
         mset (completed_projects p0) + image_mset th_week (filter_mset project_added M)
     \<and> mset (notes_of p) =
         mset (notes_of p0) + image_mset note_of (filter_mset note_added M)"

definition run_inv :: "progress \<Rightarrow> config \<Rightarrow> bool" where
  "run_inv p0 c \<longleftrightarrow> inv_on p0 (mset (fst c)) (snd c)"

text \<open>Two handlers for the update of the worked example, and a schedule that alternates.\<close>

definition two_updates :: "handler_thread list" where
  "two_updates =
     [start_thread example_update ''2024-01-02T00:00:00'',
      start_thread example_update ''2024-01-02T00:00:01'']"

definition alternating :: "nat list" where
  "alternating = [0, 1, 0, 1, 0, 1, 0, 1, 0, 1]"

section \<open>Steps of one handler\<close>

lemma thread_step_pc:
  "th_pc t = At_test \<Longrightarrow> thread_step t p =
     (t\<lparr>th_pc := (if th_week t \<notin> set (completed_weeks p) then At_append else At_project)\<rparr>, p)"
  "th_pc t = At_append \<Longrightarrow> thread_step t p =
     (t\<lparr>th_pc := At_project\<rparr>, p\<lparr>completed_weeks := completed_weeks p @ [th_week t]\<rparr>)"
  "th_pc t = At_project \<Longrightarrow> thread_step t p =
     (t\<lparr>th_pc := At_note\<rparr>, mark_project (pu_project_done (th_update t)) (th_week t) p)"
  "th_pc t = At_note \<Longrightarrow> thread_step t p =
     (t\<lparr>th_pc := At_count\<rparr>, add_note (pu_notes (th_update t)) (th_week t) (th_now t) p)"
  "th_pc t = At_count \<Longrightarrow> thread_step t p =
     (t\<lparr>th_pc := Finished, th_completed := Some (length (completed_weeks p))\<rparr>, p)"
  "th_pc t = Finished \<Longrightarrow> thread_step t p = (t, p)"
  by (simp_all add: thread_step_def th_week_def Let_def)

lemma request_of_thread_step [simp]: "request_of (fst (thread_step t p)) = request_of t"
  by (cases "th_pc t") (simp_all add: thread_step_pc request_of_def)

lemma remaining_thread_step:
  "remaining (th_pc (fst (thread_step t p))) \<le> remaining (th_pc t) - 1"
  by (cases "th_pc t") (simp_all add: thread_step_pc)

section \<open>Steps of a schedule\<close>

lemma length_sched_step [simp]: "length (fst (sched_step i c)) = length (fst c)"
  by (simp add: sched_step_def case_prod_beta)

lemma length_run_schedule [simp]: "length (fst (run_schedule sched c)) = length (fst c)"
  by (induction sched arbitrary: c) simp_all

lemma nth_sched_step:
  "j < length (fst c) \<Longrightarrow> fst (sched_step i c) ! j =
     (if i = j then fst (thread_step (fst c ! j) (snd c)) else fst c ! j)"
  by (simp add: sched_step_def case_prod_beta)

lemma sched_step_thread:
  assumes "i < length ts"
  shows "sched_step i (ts, p) = (ts[i := fst (thread_step (ts ! i) p)], snd (thread_step (ts ! i) p))"
  using assms by (simp add: sched_step_def case_prod_beta)

lemma request_of_sched_step [simp]:
  "map request_of (fst (sched_step i c)) = map request_of (fst c)"
  by (simp add: sched_step_def case_prod_beta map_update list_update_same_conv)

lemma request_of_run_schedule [simp]:
  "map request_of (fst (run_schedule sched c)) = map request_of (fst c)"
  by (induction sched arbitrary: c) simp_all

text \<open>Every turn of a handler brings it nearer to its end.\<close>

lemma remaining_run_schedule:
  "j < length (fst c) \<Longrightarrow>
     remaining (th_pc (fst (run_schedule sched c) ! j))
       \<le> remaining (th_pc (fst c ! j)) - count_list sched j"
proof (induction sched arbitrary: c)
  case Nil
  show ?case by simp
next
  case (Cons i sched)
  from Cons.prems have j: "j < length (fst (sched_step i c))" by simp
  have "remaining (th_pc (fst (sched_step i c) ! j))
      \<le> remaining (th_pc (fst c ! j)) - (if i = j then 1 else 0)"
    using Cons.prems remaining_thread_step [of "fst c ! j" "snd c"]
    by (simp add: nth_sched_step)
  with Cons.IH [OF j] show ?case by auto
qed

lemma remaining_0 [simp]: "remaining q = 0 \<longleftrightarrow> q = Finished"
  by (cases q) simp_all

lemma remaining_le_5: "remaining q \<le> 5"
  by (cases q) simp_all


section \<open>What every schedule preserves\<close>

lemmas done_defs = week_done_def project_added_def note_added_def th_week_def note_of_def

lemma notes_of_weeks_update [simp]: "notes_of (p\<lparr>completed_weeks := ws\<rparr>) = notes_of p"
  by (simp add: notes_of_def)

lemma inv_on_thread_step:
  assumes "inv_on p0 (add_mset t M) p"
  shows "inv_on p0 (add_mset (fst (thread_step t p)) M) (snd (thread_step t p))"
proof (cases "th_pc t")
  case At_test
  with assms show ?thesis
    by (auto simp: thread_step_pc inv_on_def done_defs intro: subset_mset.order_trans)
next
  case At_append
  with assms show ?thesis
    by (auto simp: thread_step_pc inv_on_def done_defs intro: subset_mset.order_trans)
next
  case At_project
  with assms show ?thesis
    by (auto simp: thread_step_pc inv_on_def done_defs mark_project_projects)
next
  case At_note
  with assms show ?thesis
    by (auto simp: thread_step_pc inv_on_def done_defs notes_of_add_note split: option.splits)
next
  case At_count
  with assms show ?thesis by (auto simp: thread_step_pc inv_on_def done_defs)
next
  case Finished
  with assms show ?thesis by (simp add: thread_step_pc)
qed

lemma run_inv_sched_step:
  assumes "run_inv p0 c"
  shows "run_inv p0 (sched_step i c)"
proof (cases "i < length (fst c)")
  case True
  define M where "M = mset (fst c) - {#fst c ! i#}"
  from True have old: "mset (fst c) = add_mset (fst c ! i) M"
    by (simp add: M_def)
  from True have new: "mset ((fst c)[i := t]) = add_mset t M" for t
    by (simp add: M_def mset_update)
  from assms have "inv_on p0 (add_mset (fst c ! i) M) (snd c)"
    by (simp add: run_inv_def old)
  from inv_on_thread_step [OF this] True show ?thesis
    by (simp add: run_inv_def sched_step_def case_prod_beta new)
next
  case False
  with assms show ?thesis by (simp add: sched_step_def)
qed

lemma run_inv_run_schedule:
  "run_inv p0 c \<Longrightarrow> run_inv p0 (run_schedule sched c)"
  by (induction sched arbitrary: c) (simp_all add: run_inv_sched_step)

lemma run_inv_fresh:
  assumes "all_fresh ts"
  shows "run_inv p (ts, p)"
proof -
  from assms have "\<not> week_done t \<and> \<not> project_added t \<and> \<not> note_added t" if "t \<in> set ts" for t
    using that by (simp add: all_fresh_def list_all_iff done_defs)
  then have "filter_mset week_done (mset ts) = {#}" "filter_mset project_added (mset ts) = {#}"
    "filter_mset note_added (mset ts) = {#}"
    by simp_all
  with \<open>\<And>t. t \<in> set ts \<Longrightarrow> _\<close> show ?thesis by (simp add: run_inv_def inv_on_def)
qed


section \<open>The requests served in order\<close>

lemma serve_simps [simp]:
  "serve [] p = p"
  "serve (t # ts) p = serve ts (record_update (th_now t) (th_update t) p)"
  by (simp_all add: serve_def)

lemma serve_weeks:
  "set (completed_weeks (serve ts p)) = set (completed_weeks p) \<union> th_week ` set ts"
  by (induction ts arbitrary: p) (simp_all add: th_week_def)

lemma serve_projects:
  "mset (completed_projects (serve ts p)) =
     mset (completed_projects p)
       + mset (map th_week (filter (\<lambda>t. pu_project_done (th_update t)) ts))"
  by (induction ts arbitrary: p) (simp_all add: th_week_def record_update_projects)

lemma serve_notes:
  "mset (notes_of (serve ts p)) =
     mset (notes_of p) + mset (map note_of (filter (\<lambda>t. pu_notes (th_update t) \<noteq> None
       \<and> pu_notes (th_update t) \<noteq> Some []) ts))"
  by (induction ts arbitrary: p)
    (auto simp: th_week_def note_of_def notes_of_record_update split: option.splits)

text \<open>What the handlers add depends on their requests only.\<close>

lemma requests_determine:
  assumes "map request_of ts' = map request_of ts"
  shows "th_week ` set ts' = th_week ` set ts"
    and "map th_week (filter (\<lambda>t. pu_project_done (th_update t)) ts')
       = map th_week (filter (\<lambda>t. pu_project_done (th_update t)) ts)"
    and "map note_of (filter (\<lambda>t. pu_notes (th_update t) \<noteq> None
           \<and> pu_notes (th_update t) \<noteq> Some []) ts')
       = map note_of (filter (\<lambda>t. pu_notes (th_update t) \<noteq> None
           \<and> pu_notes (th_update t) \<noteq> Some []) ts)"
proof -
  have w: "map th_week xs = map (\<lambda>r. pu_week_completed (fst r)) (map request_of xs)" for xs
    by (simp add: th_week_def request_of_def)
  have "set (map th_week ts') = set (map th_week ts)"
    unfolding w assms ..
  then show "th_week ` set ts' = th_week ` set ts" by simp
  have "map th_week (filter (\<lambda>t. pu_project_done (th_update t)) xs)
      = map (\<lambda>r. pu_week_completed (fst r))
          (filter (\<lambda>r. pu_project_done (fst r)) (map request_of xs))" for xs
    by (simp add: filter_map comp_def th_week_def request_of_def)
  with assms show "map th_week (filter (\<lambda>t. pu_project_done (th_update t)) ts')
       = map th_week (filter (\<lambda>t. pu_project_done (th_update t)) ts)"
    by simp
  have "map note_of (filter (\<lambda>t. pu_notes (th_update t) \<noteq> None
           \<and> pu_notes (th_update t) \<noteq> Some []) xs)
      = map (\<lambda>r. \<lparr>ne_week = pu_week_completed (fst r),
                 ne_note = (case pu_notes (fst r) of None \<Rightarrow> [] | Some n \<Rightarrow> n),
                 ne_timestamp = snd r\<rparr>)
          (filter (\<lambda>r. pu_notes (fst r) \<noteq> None \<and> pu_notes (fst r) \<noteq> Some [])
             (map request_of xs))" for xs
    by (simp add: filter_map comp_def th_week_def note_of_def request_of_def)
  with assms show "map note_of (filter (\<lambda>t. pu_notes (th_update t) \<noteq> None
           \<and> pu_notes (th_update t) \<noteq> Some []) ts')
       = map note_of (filter (\<lambda>t. pu_notes (th_update t) \<noteq> None
           \<and> pu_notes (th_update t) \<noteq> Some []) ts)"
    by simp
qed

text \<open>Once every handler has finished, the invariant says what the dictionary holds.\<close>

lemma inv_on_finished:
  assumes "inv_on p0 (mset ts) p" and "all_finished ts"
  shows "set (completed_weeks p) = set (completed_weeks p0) \<union> th_week ` set ts"
    and "mset (completed_projects p) = mset (completed_projects p0)
       + mset (map th_week (filter (\<lambda>t. pu_project_done (th_update t)) ts))"
    and "mset (notes_of p) = mset (notes_of p0)
       + mset (map note_of (filter (\<lambda>t. pu_notes (th_update t) \<noteq> None
           \<and> pu_notes (th_update t) \<noteq> Some []) ts))"
    and "length (completed_weeks p) \<le> length (completed_weeks p0) + length ts"
proof -
  from assms(2) have fin: "th_pc t = Finished" if "t \<in> set ts" for t
    using that by (simp add: all_finished_def list_all_iff)
  then have w: "filter_mset week_done (mset ts) = mset ts"
    by (simp add: filter_mset_eq_conv week_done_def)
  from fin have pr: "filter_mset project_added (mset ts)
      = filter_mset (\<lambda>t. pu_project_done (th_update t)) (mset ts)"
    by (intro filter_mset_cong) (simp_all add: project_added_def)
  from fin have nt: "filter_mset note_added (mset ts)
      = filter_mset (\<lambda>t. pu_notes (th_update t) \<noteq> None
           \<and> pu_notes (th_update t) \<noteq> Some []) (mset ts)"
    by (intro filter_mset_cong) (simp_all add: note_added_def)
  from assms(1) have sub: "mset (completed_weeks p0) \<subseteq># mset (completed_weeks p)"
    and sup: "mset (completed_weeks p) \<subseteq># mset (completed_weeks p0) + image_mset th_week (mset ts)"
    and found: "\<And>t. t \<in> set ts \<Longrightarrow> th_week t \<in> set (completed_weeks p)"
    by (simp_all add: inv_on_def w week_done_def fin)
  from set_mset_mono [OF sub] set_mset_mono [OF sup] found
  show "set (completed_weeks p) = set (completed_weeks p0) \<union> th_week ` set ts"
    by auto
  from size_mset_mono [OF sup]
  show "length (completed_weeks p) \<le> length (completed_weeks p0) + length ts"
    by simp
  from assms(1) show "mset (completed_projects p) = mset (completed_projects p0)
       + mset (map th_week (filter (\<lambda>t. pu_project_done (th_update t)) ts))"
    by (simp add: inv_on_def pr)
  from assms(1) show "mset (notes_of p) = mset (notes_of p0)
       + mset (map note_of (filter (\<lambda>t. pu_notes (th_update t) \<noteq> None
           \<and> pu_notes (th_update t) \<noteq> Some []) ts))"
    by (simp add: inv_on_def nt)
qed

lemma finished_after_fair:
  assumes "\<forall>i<length ts. 5 \<le> count_list sched i"
  shows "all_finished (fst (run_schedule sched (ts, p)))"
  unfolding all_finished_def list_all_length
proof (intro allI impI)
  fix i
  assume "i < length (fst (run_schedule sched (ts, p)))"
  then have i: "i < length ts" by simp
  with remaining_run_schedule [of i "(ts, p)" sched] remaining_le_5 [of "th_pc (ts ! i)"] assms
  have "remaining (th_pc (fst (run_schedule sched (ts, p)) ! i)) = 0" by fastforce
  then show "th_pc (fst (run_schedule sched (ts, p)) ! i) = Finished" by simp
qed


lemma two_updates_fresh [simp]: "all_fresh two_updates"
  by (simp add: two_updates_def all_fresh_def start_thread_def)

lemma alternating_fair: "\<forall>i<length two_updates. 5 \<le> count_list alternating i"
  by (simp add: two_updates_def alternating_def less_Suc_eq)

section \<open>Properties of interleaved updates\<close>

text \<open>
  C15.  A handler that runs its five steps without another handler in between does
  what \<open>record_update\<close> does: the dictionary afterwards is the one of the sequential
  model, the handler has finished, the number of completed weeks it read is the
  length of the new list, and the other handlers are where they were.
\<close>

theorem uninterrupted_update_is_record_update:
  assumes "i < length ts" and "th_pc (ts ! i) = At_test"
    and "c = run_schedule (replicate 5 i) (ts, p)"
  shows "snd c = record_update (th_now (ts ! i)) (th_update (ts ! i)) p
     \<and> fst c = ts[i := (ts ! i)\<lparr>th_pc := Finished, th_completed := Some (length
          (completed_weeks (record_update (th_now (ts ! i)) (th_update (ts ! i)) p)))\<rparr>]"
  using assms(1,2) unfolding assms(3)
  by (cases "th_week (ts ! i) \<in> set (completed_weeks p)")
    (simp_all add: eval_nat_numeral sched_step_thread thread_step_pc record_update_def
      mark_week_def th_week_def)

theorem uninterrupted_update_is_record_update_witness:
  "completed_weeks (snd (run_schedule (replicate 5 0) (two_updates, initial_progress))) = [2]
   \<and> map th_pc (fst (run_schedule (replicate 5 0) (two_updates, initial_progress)))
      = [Finished, At_test]"
  using uninterrupted_update_is_record_update [of 0 two_updates _ initial_progress, OF _ _ refl]
  by (simp add: two_updates_def start_thread_def record_update_weeks initial_progress_def
      example_update_def)

text \<open>
  C14.  Two handlers for the same week that both run the test of line 444 before
  either runs the append of line 445 store the week twice.  Both answer with a
  list that holds the week twice and count it twice, and the dictionary no longer
  satisfies the invariant of the sequential service.
\<close>

theorem interleaved_updates_duplicate_week:
  assumes "pu_week_completed u1 = w" and "pu_week_completed u2 = w"
    and "w \<notin> set (completed_weeks p)"
    and "c = run_schedule alternating ([start_thread u1 n1, start_thread u2 n2], p)"
  shows "completed_weeks (snd c) = completed_weeks p @ [w, w]
     \<and> map th_completed (fst c)
        = [Some (length (completed_weeks p) + 2), Some (length (completed_weeks p) + 2)]
     \<and> \<not> progress_inv (snd c)"
  using assms(1-3) unfolding assms(4)
  by (simp add: alternating_def sched_step_def thread_step_pc start_thread_def th_week_def
      progress_inv_def)

theorem interleaved_updates_duplicate_week_witness:
  "completed_weeks (snd (run_schedule alternating (two_updates, initial_progress))) = [2, 2]
   \<and> map th_completed (fst (run_schedule alternating (two_updates, initial_progress)))
      = [Some 2, Some 2]"
  using interleaved_updates_duplicate_week [of example_update 2 example_update initial_progress _
      "''2024-01-02T00:00:00''" "''2024-01-02T00:00:01''", OF _ _ _ refl]
  by (simp add: two_updates_def initial_progress_def example_update_def)

text \<open>
  C13.  Whatever the schedule, once every handler has finished the dictionary
  agrees with the one the sequential service leaves after the same requests in the
  order of the list, up to the order of the entries and the number of times a
  week is stored: the same weeks are completed, the same projects are recorded
  the same number of times, the same notes are kept, and the list of completed
  weeks has grown by at most one entry per handler.
\<close>

theorem interleaved_updates_agree_with_sequential:
  assumes "all_fresh ts" and "c = run_schedule sched (ts, p)" and "all_finished (fst c)"
  shows "set (completed_weeks (snd c)) = set (completed_weeks (serve ts p))
     \<and> mset (completed_projects (snd c)) = mset (completed_projects (serve ts p))
     \<and> mset (notes_of (snd c)) = mset (notes_of (serve ts p))
     \<and> length (completed_weeks (snd c)) \<le> length (completed_weeks p) + length ts"
proof -
  have req: "map request_of (fst c) = map request_of ts"
    by (simp add: assms(2))
  from run_inv_run_schedule [OF run_inv_fresh [OF assms(1)], of p sched]
  have "inv_on p (mset (fst c)) (snd c)"
    by (simp add: run_inv_def assms(2))
  note fin = inv_on_finished [OF this assms(3)]
  from fin(4) have "length (completed_weeks (snd c)) \<le> length (completed_weeks p) + length ts"
    by (simp add: assms(2))
  then show ?thesis
    unfolding serve_weeks serve_projects serve_notes fin(1-3) requests_determine [OF req]
    by simp
qed

theorem interleaved_updates_agree_with_sequential_witness:
  "set (completed_weeks (snd (run_schedule alternating (two_updates, initial_progress))))
     = set (completed_weeks (serve two_updates initial_progress))
   \<and> mset (completed_projects (snd (run_schedule alternating (two_updates, initial_progress))))
     = mset (completed_projects (serve two_updates initial_progress))"
  using interleaved_updates_agree_with_sequential [OF two_updates_fresh refl
      finished_after_fair [OF alternating_fair], of initial_progress]
  by simp



end
