(* ===== verification/Spec2Isabelle.thy ===== *)
theory Spec2Isabelle
  imports Registry_Store Update_Interleaving
begin

text \<open>
  A verification library for the learning-roadmap service of \<^verbatim>\<open>src/main.py\<close>.

  \<^bold>\<open>The program.\<close>  One Python module serves five HTTP endpoints.  \<^verbatim>\<open>generate_roadmap\<close>
  classifies the goal of a request into a topic (\<^verbatim>\<open>detect_topic\<close>), obtains a plan
  structure (\<^verbatim>\<open>get_ai_roadmap_structure\<close>: from a language-model service when a
  credential is configured and the exchange succeeds, else the fixed structure of
  \<^verbatim>\<open>create_basic_structure\<close>), fills the structure with resources and projects from
  two static catalogs (\<^verbatim>\<open>enhance_with_real_content\<close>, \<^verbatim>\<open>generate_timeline_data\<close>), adds an
  identifier, a time stamp and the topic, and stores the plan with empty progress
  in the dictionary \<^verbatim>\<open>progress_db\<close>.  When anything in that sequence raises, it
  answers with the fixed plan of \<^verbatim>\<open>create_fallback_roadmap\<close> instead.
  \<^verbatim>\<open>update_progress\<close> appends to the progress of a stored plan and reports a
  percentage, \<^verbatim>\<open>get_roadmap\<close> and \<^verbatim>\<open>get_visual_timeline\<close> read a stored plan, and \<^verbatim>\<open>root\<close>
  describes the service.  The handlers are synchronous functions without a lock;
  the framework runs them on a pool of threads.

  \<^bold>\<open>The theories.\<close>  The first ten form a chain, each importing the one before it;
  \<open>Registry_Store\<close> imports \<open>Roadmap_Service\<close>, \<open>Update_Interleaving\<close> imports
  \<open>Progress_Tracker\<close>, and this theory imports both.

  \<^item> \<open>Roadmap_Prelude\<close>: exceptions as values (\<open>py_error\<close>, \<open>'a result = py_error + 'a\<close>,
    \<open>bind_res\<close>, \<open>map_res\<close> for a loop that stops at the first exception), and the
    Python container operations \<open>dict_get\<close>, \<open>py_slice\<close>, \<open>first_matches\<close>.
  \<^item> \<open>Py_String\<close>: \<^verbatim>\<open>str.lower\<close> (\<open>lower\<close>), the substring test (\<open>py_in\<close>, \<open>any_in\<close>),
    decimal rendering in f-strings (\<open>str_nat\<close>) with its inverse, and \<^verbatim>\<open>join\<close>.
  \<^item> \<open>Json_Value\<close>: decoded JSON as the datatype \<open>json\<close>; \<open>py_getitem\<close>, \<open>py_getidx\<close>
    and \<open>py_len\<close> are \<^verbatim>\<open>x[key]\<close>, \<^verbatim>\<open>x[i]\<close> and \<^verbatim>\<open>len(x)\<close> on a value of any shape, with
    the \<^verbatim>\<open>KeyError\<close>, \<^verbatim>\<open>IndexError\<close> or \<^verbatim>\<open>TypeError\<close> that Python raises.
  \<^item> \<open>Catalog\<close>: \<^verbatim>\<open>REAL_PROJECTS\<close> and \<^verbatim>\<open>REAL_RESOURCES\<close> (lines 43-114) entry by entry, as
    association lists in source order, and the lookups with the python default
    (\<open>projects_for\<close>, \<open>resources_for\<close>; lines 254-255 and 330-331).
  \<^item> \<open>Topic_Classifier\<close>: \<^verbatim>\<open>detect_topic\<close> (lines 157-167) with its three keyword lists.
  \<^item> \<open>Structure_Provider\<close>: the request models, \<^verbatim>\<open>create_basic_structure\<close> (lines
    224-248) and \<^verbatim>\<open>get_ai_roadmap_structure\<close> (lines 169-222): the credential test,
    the request that is sent with both prompts, and every path back to the fixed
    structure.  The record \<open>environment\<close> holds what the program reads from outside
    during one request: the credential, the outcome of the HTTP exchange as a
    function of the request sent, \<^verbatim>\<open>json.loads\<close> as a function, the string of
    \<^verbatim>\<open>uuid.uuid4()\<close> and the string of \<^verbatim>\<open>datetime.now().isoformat()\<close>.
  \<^item> \<open>Plan_Assembler\<close>: \<^verbatim>\<open>enhance_with_real_content\<close> (lines 250-313) as \<open>build_week\<close> for
    the loop body with \<open>week_resources\<close>, \<open>week_project\<close> and \<open>time_estimate\<close>, and
    \<^verbatim>\<open>generate_timeline_data\<close> (lines 315-325).  The structure is an arbitrary \<open>json\<close>
    value, since the service may answer anything; the assembler returns a
    \<open>roadmap_content result\<close>.
  \<^item> \<open>Fallback_Plan\<close>: \<^verbatim>\<open>create_fallback_roadmap\<close> (lines 327-434), week by week.
  \<^item> \<open>Progress_Tracker\<close>: the three conditional appends of \<^verbatim>\<open>update_progress\<close> (lines
    442-455) as \<open>mark_week\<close>, \<open>mark_project\<close>, \<open>add_note\<close> and their composition
    \<open>record_update\<close>; the percentage (lines 458-460) as \<open>py_percentage\<close>, whose division
    \<open>py_truediv\<close> raises \<^verbatim>\<open>ZeroDivisionError\<close> on a zero divisor as in Python, so that the
    test \<^verbatim>\<open>total_weeks > 0\<close> matters, and \<^verbatim>\<open>round(x, 1)\<close> (line 464) as \<open>py_round1\<close>; the
    abstract tracker \<open>track\<close> with the abstraction function.
  \<^item> \<open>Roadmap_Service\<close>: \<^verbatim>\<open>progress_db\<close> as a map from identifiers to entries, and the
    handlers \<open>root\<close>, \<open>generate_roadmap\<close>, \<open>update_progress\<close>, \<open>get_roadmap\<close>,
    \<open>get_visual_timeline\<close> (lines 116-155 and 436-511) as functions from the registry
    to the new registry and the response, or the \<^verbatim>\<open>HTTPException\<close>.  \<open>handle\<close>
    dispatches one request, \<open>run\<close> serves a list of requests in order, and the
    inductive predicate \<open>reachable\<close> holds of the registries the service can be in.
  \<^item> \<open>Registry_Store\<close>: the registry once more, with the identity of the Python
    objects.  A \<open>heap\<close> holds \<^verbatim>\<open>progress_db\<close> as a map from identifiers to addresses, the
    entry dictionaries (\<open>entry_dict\<close>, with the key \<^verbatim>\<open>stats\<close> optional) and the progress
    dictionaries at addresses given out by a counter.  \<open>store_roadmap\<close> is lines
    145-149, \<open>update_progress_store\<close> appends through the reference of line 442,
    \<open>get_roadmap_store\<close> allocates the shallow copy of line 475 and writes \<^verbatim>\<open>stats\<close> into
    it, \<open>get_visual_timeline_store\<close> reads.  \<open>registry_of\<close> is the registry a heap stands
    for, \<open>store_inv\<close> its invariant, \<open>store_reachable\<close> the heaps the service reaches.
  \<^item> \<open>Update_Interleaving\<close>: concurrent calls of \<^verbatim>\<open>update_progress\<close> on the progress
    dictionary of one entry.  \<open>thread_step\<close> is one step of one call, between the
    points where another thread can run (\<open>pc\<close>: the test of line 444, the append of
    line 445, the append of line 448, the note of lines 451-455, the length of line
    459); \<open>sched_step\<close> lets the call with a given index move, \<open>run_schedule\<close> runs a
    list of such indices, and \<open>serve\<close> is the same requests one after the other.
  \<^item> this theory: the properties that span components, and the worked examples.

  \<^bold>\<open>What is proved.\<close>  Per component: the behaviour of every operation on every
  branch, with its errors; for the assembler the exact set of structures on which
  it returns (\<open>well_formed_structure\<close>), the number and numbering of the weeks, and
  the resource and project of every week; for the tracker the refinement of the
  abstract tracker, the absence of duplicate weeks, the range of the percentage,
  and that for the plans the service stores (one to four weeks) every number
  within 1/60 of the exact percentage is rounded to the same tenth; for the
  classifier the exact set of goals of each topic in terms of its sixteen keywords;
  for the service the invariant of every reachable registry (\<open>db_inv\<close>) by rule
  induction over \<open>reachable\<close>, that the lookups raise only the 404 error, and that
  progress only grows.  For the heap: the handlers on the heap and the handlers on
  the registry as a value give the same responses and registries,
  \<^verbatim>\<open>get_roadmap\<close> leaves the stored entry as it was and
  writes \<^verbatim>\<open>stats\<close> into a new dictionary, and every reachable heap satisfies
  \<open>store_inv\<close> and stands for a reachable registry.  For concurrent updates: a call
  that is not interrupted is \<open>record_update\<close>; under every schedule the finished
  calls leave the same set of weeks, the same projects and the same notes as the
  sequential service, with at most one new entry of \<^verbatim>\<open>completed_weeks\<close> per call;
  every call finishes under a schedule that gives it five turns; and two calls
  for the same week can store the week twice.  The examples of the specification
  are theorems about the functions above, evaluated on the concrete request.
  Several theorems state behaviour that a client would not expect: the fallback
  plan is returned but not stored, a structure without themes yields a stored plan
  of zero weeks, an identifier that repeats resets the stored progress, weeks
  outside the plan push the percentage over 100, keywords match inside words,
  an empty note is dropped, and concurrent updates duplicate a week.

  \<^bold>\<open>Modelling decisions and their limits.\<close>
  \<^item> A \<open>char\<close> stands for one character of a Python string; \<open>lower\<close> maps the ASCII
    capitals and leaves every other character alone, so the classification of a
    goal with non-ASCII capitals is outside the model.
  \<^item> Python integers are \<open>int\<close> (week numbers of requests) or \<open>nat\<close> (indices and
    lengths); nothing in the program can overflow.
  \<^item> The percentage is an exact rational, and \<^verbatim>\<open>round(x, 1)\<close> is rounding to the
    nearest tenth with ties to the even tenth.  Python computes in binary floating
    point, so the number it rounds differs from the rational by a rounding error.
    For a plan of one to four weeks the exact percentage is never nearer than
    1/60 to a tie, and the tracker's stability theorem shows that every number
    within 1/60 of it is rounded to the same tenth; the error of two floating-point
    operations is far below that for any number of completed weeks a list can
    hold.  For plans of more weeks, which the service does not store, the model and
    Python can differ in the last digit.
  \<^item> JSON numbers other than integers carry no information the program uses; a
    \<open>JNum\<close> payload is never inspected.  A JSON object is an association list in
    which the first binding of a key counts.
  \<^item> No loop of the program is unbounded: the only loops run over a range of at
    most four indices or over a stored list, so every function of the model is
    total by structural recursion and needs no fuel.  A call of \<^verbatim>\<open>update_progress\<close>
    takes at most five steps, which is why five turns per call are enough for
    every call to finish.
  \<^item> In \<open>Roadmap_Service\<close> and \<open>Registry_Store\<close> requests are served one after the
    other.  \<open>Update_Interleaving\<close> covers concurrent calls of \<^verbatim>\<open>update_progress\<close> on
    one entry, with a method call on a list or dictionary as one step, as under
    the interpreter lock.  Concurrent calls of the other handlers are not
    modelled: each reads or assigns \<^verbatim>\<open>progress_db\<close> in a single step.
  \<^item> In the heap, the plan of an entry and the lists of a progress dictionary are
    values, not objects: the program never changes a stored plan and reaches the
    lists only through their progress dictionary.  A cell that was never allocated
    holds no object; the invariant \<open>store_inv\<close> keeps every reference of the
    registry below the allocation counter.
  \<^item> The identifier and the time stamp of a request are parameters
    (\<open>env_uuid4\<close>, \<open>env_now\<close>) and range over all strings, which includes the strings
    \<^verbatim>\<open>uuid.uuid4()\<close> and \<^verbatim>\<open>isoformat()\<close> produce.

  \<^bold>\<open>Not modelled:\<close> the construction of the application object and its CORS
  middleware, request validation and response serialisation by the framework,
  the network exchange and the JSON parser themselves (their outcome is a
  parameter), \<^verbatim>\<open>print\<close> in the exception handler, \<^verbatim>\<open>load_dotenv\<close> and the
  \<^verbatim>\<open>uvicorn\<close> entry point.

  \<^bold>\<open>Plan of further work:\<close> a printer for \<open>json\<close> with the shape of the plan as
  sent to the client, binary floating point for the percentage of plans of more
  than four weeks, and interleavings of an update with a generation that reuses
  its identifier.
\<close>

section \<open>Inputs of the worked examples\<close>

text \<open>A structure that announces no week at all.\<close>

definition empty_structure :: json where
  "empty_structure =
     JObj [(''title'', JStr ''Nothing to learn''), (''overview'', JStr ''No weeks''),
       (''weekly_themes'', JArr [])]"

text \<open>An update that marks one week of the example plan, without a project.\<close>

definition week_update :: "int \<Rightarrow> request" where
  "week_update w =
     Update_progress ''2024-01-02T00:00:00''
       (example_update\<lparr>pu_week_completed := w, pu_project_done := False\<rparr>)"

text \<open>The registry after generating the example plan and completing its four weeks.\<close>

definition full_db :: progress_db where
  "full_db = fst (run Map.empty
     (Generate_roadmap example_env example_input # map week_update [1, 2, 3, 4]))"

section \<open>Facts about the examples\<close>

lemma full_db_entry:
  "full_db = [''0f8fad5b'' \<mapsto> example_entry
       \<lparr>completed_weeks = [1, 2, 3, 4], completed_projects = [], pg_notes = None\<rparr>]"
  by (simp add: full_db_def week_update_def example_run_simps del: fst_handle(3))

lemma full_db_lookup:
  "full_db ''0f8fad5b'' = Some (example_entry
       \<lparr>completed_weeks = [1, 2, 3, 4], completed_projects = [], pg_notes = None\<rparr>)"
  by (simp add: full_db_entry)

lemma reachable_full_db: "reachable full_db"
  unfolding full_db_def by (rule reachable_run [OF reachable.start])

section \<open>Generation\<close>

text \<open>
  C1.  Whatever the registry, the environment and the request, \<^verbatim>\<open>generate_roadmap\<close>
  answers with a plan of at most four weeks, numbered 1, 2, ... without a gap,
  that carries the first eight characters of the fresh identifier, the time
  stamp and the detected topic.  If the structure is well formed the plan is
  stored under its identifier with empty progress and nothing else in the
  registry changes; otherwise the registry is unchanged and the plan is the
  fallback plan.
\<close>

theorem generate_roadmap_answers:
  "length (rm_weekly_plan (snd (generate_roadmap db env user_input))) \<le> 4
   \<and> map wp_week (rm_weekly_plan (snd (generate_roadmap db env user_input)))
       = [1..int (length (rm_weekly_plan (snd (generate_roadmap db env user_input))))]
   \<and> rm_roadmap_id (snd (generate_roadmap db env user_input)) = take 8 (env_uuid4 env)
   \<and> rm_generated_at (snd (generate_roadmap db env user_input)) = env_now env
   \<and> rm_topic (snd (generate_roadmap db env user_input))
       = detect_topic (lower (ui_goal user_input))
   \<and> (well_formed_structure (get_ai_roadmap_structure env user_input) \<longrightarrow>
        fst (generate_roadmap db env user_input)
          = db(take 8 (env_uuid4 env) \<mapsto>
              \<lparr>entry_roadmap = snd (generate_roadmap db env user_input),
               entry_progress = initial_progress, entry_created_at = env_now env\<rparr>))
   \<and> (\<not> well_formed_structure (get_ai_roadmap_structure env user_input) \<longrightarrow>
        fst (generate_roadmap db env user_input) = db
        \<and> snd (generate_roadmap db env user_input)
          = create_fallback_roadmap env user_input (detect_topic (lower (ui_goal user_input))))"
  using generate_roadmap_weeks [of db env user_input]
  by (simp add: week_numbers_upto fst_generate_roadmap generate_roadmap_fallback_iff
      store_def initial_progress_def)

theorem generate_roadmap_answers_witness:
  "length (rm_weekly_plan (snd (generate_roadmap Map.empty example_env example_input))) \<le> 4
   \<and> dom (fst (generate_roadmap Map.empty example_env example_input)) = {''0f8fad5b''}
   \<and> rm_topic (snd (generate_roadmap Map.empty example_env example_input)) = ''python''"
  using generate_roadmap_answers [of Map.empty example_env example_input]
  by simp

text \<open>
  C23.  The example of the specification.  Without a credential, the request for
  \<^verbatim>\<open>Learn Python basics\<close> at level \<^verbatim>\<open>beginner\<close> is classified as python and gets the
  four weeks of the fixed structure: the first with theme \<^verbatim>\<open>Foundation & Setup\<close>
  and the estimate \<^verbatim>\<open>10-15 hours\<close>, each with two resources of the python catalog
  chosen by type and a project of the python catalog.  The plan is stored under
  its identifier with empty progress.
\<close>

theorem offline_generation_example:
  "rm_topic (snd (generate_roadmap Map.empty example_env example_input)) = ''python''
   \<and> rm_roadmap_id (snd (generate_roadmap Map.empty example_env example_input)) = ''0f8fad5b''
   \<and> rm_title (snd (generate_roadmap Map.empty example_env example_input))
       = JStr ''Learn Learn Python basics - beginner Roadmap''
   \<and> map wp_week (rm_weekly_plan (snd (generate_roadmap Map.empty example_env example_input)))
       = [1, 2, 3, 4]
   \<and> map wp_theme (rm_weekly_plan (snd (generate_roadmap Map.empty example_env example_input)))
       = [JStr ''Foundation & Setup'', JStr ''Core Concepts'', JStr ''Advanced Techniques'',
          JStr ''Real Projects'']
   \<and> map wp_time_estimate
         (rm_weekly_plan (snd (generate_roadmap Map.empty example_env example_input)))
       = [''10-15 hours'', ''15-20 hours'', ''20-25 hours'', ''25-30 hours'']
   \<and> map (\<lambda>w. map res_title (wp_resources w))
         (rm_weekly_plan (snd (generate_roadmap Map.empty example_env example_input)))
       = [[''Python for Beginners - Full Course'', ''Python for Everybody''],
          [''Python for Everybody'', ''Python Official Tutorial''],
          [''Python for Beginners - Full Course'', ''100 Days of Code: Python''],
          [''Python for Beginners - Full Course'', ''100 Days of Code: Python'']]
   \<and> map (\<lambda>w. pj_title (wp_project w))
         (rm_weekly_plan (snd (generate_roadmap Map.empty example_env example_input)))
       = [''Build a Personal Finance Tracker'', ''Web Scraper for News Articles'',
          ''Web Scraper for News Articles'', ''Web Scraper for News Articles'']
   \<and> fst (generate_roadmap Map.empty example_env example_input)
       = [''0f8fad5b'' \<mapsto>
           \<lparr>entry_roadmap = snd (generate_roadmap Map.empty example_env example_input),
            entry_progress = \<lparr>completed_weeks = [], completed_projects = [],
              pg_notes = None\<rparr>,
            entry_created_at = ''2024-01-01T00:00:00''\<rparr>]"
proof -
  have "rm_title example_roadmap = JStr (''Learn '' @ ui_goal example_input @ '' - ''
      @ ui_proficiency example_input @ '' Roadmap'')"
    by (simp add: example_roadmap_def generate_roadmap_def Let_def
        enhance_with_real_content_def build_week_def py_path_def upt_0_4)
  then have "rm_title example_roadmap = JStr ''Learn Learn Python basics - beginner Roadmap''"
    by (simp add: example_input_def)
  moreover have "fst (generate_roadmap Map.empty example_env example_input)
       = [''0f8fad5b'' \<mapsto>
           \<lparr>entry_roadmap = example_roadmap,
            entry_progress = \<lparr>completed_weeks = [], completed_projects = [],
              pg_notes = None\<rparr>,
            entry_created_at = ''2024-01-01T00:00:00''\<rparr>]"
    by (simp add: example_generate store_def)
  ultimately show ?thesis
    using python_week_projects
    by (simp add: example_roadmap_def [symmetric] example_plan python_week_resources)
qed

section \<open>The registry\<close>

text \<open>
  C2.  In every registry the service can reach, every entry is stored under the
  identifier of its plan, which has at most eight characters; the plan has at
  most four weeks, numbered 1, 2, ... without a gap, and one of the four topics;
  the completed weeks contain no week twice; every completed project and every
  note belongs to a completed week; and a list of notes that exists is not
  empty.
\<close>

theorem reachable_registry_invariant:
  assumes "reachable db" and "db rid = Some e"
  shows "rm_roadmap_id (entry_roadmap e) = rid \<and> length rid \<le> 8
    \<and> entry_created_at e = rm_generated_at (entry_roadmap e)
    \<and> rm_topic (entry_roadmap e) \<in> set topics
    \<and> length (rm_weekly_plan (entry_roadmap e)) \<le> 4
    \<and> map wp_week (rm_weekly_plan (entry_roadmap e))
        = [1..int (length (rm_weekly_plan (entry_roadmap e)))]
    \<and> distinct (completed_weeks (entry_progress e))
    \<and> set (completed_projects (entry_progress e)) \<subseteq> set (completed_weeks (entry_progress e))
    \<and> ne_week ` set (notes_of (entry_progress e)) \<subseteq> set (completed_weeks (entry_progress e))
    \<and> pg_notes (entry_progress e) \<noteq> Some []"
proof -
  from assms have "entry_inv rid e"
    by (auto dest: reachable_db_inv simp: db_inv_def)
  then show ?thesis
    by (auto simp: entry_inv_def plan_inv_def progress_inv_def notes_of_def
        week_numbers_upto split: option.splits)
qed

theorem reachable_registry_invariant_witness:
  "reachable (fst (run Map.empty [Generate_roadmap example_env example_input,
       Update_progress ''2024-01-02T00:00:00'' example_update]))
   \<and> fst (run Map.empty [Generate_roadmap example_env example_input,
       Update_progress ''2024-01-02T00:00:00'' example_update]) ''0f8fad5b''
     = Some (example_entry
         \<lparr>completed_weeks = [2], completed_projects = [2], pg_notes = None\<rparr>)
   \<and> length (rm_weekly_plan example_roadmap) \<le> 4"
  using reachable_registry_invariant [of
      "fst (run Map.empty [Generate_roadmap example_env example_input,
         Update_progress ''2024-01-02T00:00:00'' example_update])"
      "''0f8fad5b''"
      "example_entry \<lparr>completed_weeks = [2], completed_projects = [2], pg_notes = None\<rparr>"]
    reachable_run [OF reachable.start, of "[Generate_roadmap example_env example_input,
         Update_progress ''2024-01-02T00:00:00'' example_update]"]
    example_served [of Map.empty "''2024-01-02T00:00:00''"]
  by (simp add: example_entry_def)

text \<open>
  C24.  The second example of the specification, as one session.  After the example
  plan is generated, an update for week 2 with \<^verbatim>\<open>project_done\<close> answers success,
  25.0, the list with the week 2, and 4 weeks.  The same update again answers the
  same, and the stored progress then holds week 2 once among the completed weeks
  and twice among the completed projects.  Reading an identifier that was never
  issued is refused with 404.
\<close>

theorem progress_update_example:
  "snd (run Map.empty
     [Generate_roadmap example_env example_input,
      Update_progress ''2024-01-02T00:00:00'' example_update,
      Update_progress ''2024-01-03T00:00:00'' example_update,
      Get_roadmap ''0f8fad5b'',
      Get_roadmap ''00000000''])
   = [Roadmap example_roadmap,
      Progress \<lparr>pr_status = ''success'', pr_progress_percentage = 25,
        pr_completed_weeks = [2], pr_total_weeks = 4\<rparr>,
      Progress \<lparr>pr_status = ''success'', pr_progress_percentage = 25,
        pr_completed_weeks = [2], pr_total_weeks = 4\<rparr>,
      View \<lparr>rv_roadmap = example_roadmap,
        rv_progress = \<lparr>completed_weeks = [2], completed_projects = [2, 2],
          pg_notes = None\<rparr>,
        rv_created_at = ''2024-01-01T00:00:00'',
        rv_stats = \<lparr>st_progress_percentage = 25, st_completed_weeks = 1,
          st_total_weeks = 4\<rparr>\<rparr>,
      Failure (HTTPException 404 ''Roadmap not found'')]"
  by (simp add: example_run_simps progress_percentage_quarters get_roadmap_def Let_def
      progress_percentage_def [symmetric] not_found_def del: fst_handle(3) snd_handle(3))

section \<open>Behaviour a client would not expect\<close>

text \<open>
  C19.  When the structure is not well formed, the client receives the fallback
  plan with an identifier, but the plan is not stored: the registry is unchanged,
  and if the identifier was not in the registry before, an update of progress, a
  read of the plan and a read of the timeline with that identifier are all
  refused with not found.
\<close>

theorem fallback_plan_not_registered:
  assumes "\<not> well_formed_structure (get_ai_roadmap_structure env user_input)"
    and "take 8 (env_uuid4 env) \<notin> dom db"
  shows "snd (run db [Generate_roadmap env user_input,
           Update_progress now (u\<lparr>pu_roadmap_id := take 8 (env_uuid4 env)\<rparr>),
           Get_roadmap (take 8 (env_uuid4 env)),
           Get_visual_timeline (take 8 (env_uuid4 env))])
     = [Roadmap (create_fallback_roadmap env user_input
                (detect_topic (lower (ui_goal user_input)))),
        Failure not_found, Failure not_found, Failure not_found]
    \<and> fst (handle db (Generate_roadmap env user_input)) = db
    \<and> rm_roadmap_id (create_fallback_roadmap env user_input
          (detect_topic (lower (ui_goal user_input)))) = take 8 (env_uuid4 env)"
proof -
  from assms(2) have "db (take 8 (env_uuid4 env)) = None" by auto
  with assms(1) show ?thesis
    by (simp add: fst_generate_roadmap generate_roadmap_fallback_iff
        update_progress_not_found get_roadmap_not_found get_visual_timeline_not_found)
qed

theorem fallback_plan_not_registered_witness:
  "snd (run Map.empty
     [Generate_roadmap (answering_env (JArr []) ''0f8fad5b-d9cb'' ''2024-01-01T00:00:00'')
        example_input,
      Update_progress ''2024-01-02T00:00:00'' example_update,
      Get_roadmap ''0f8fad5b'', Get_visual_timeline ''0f8fad5b''])
   = [Roadmap (create_fallback_roadmap
         (answering_env (JArr []) ''0f8fad5b-d9cb'' ''2024-01-01T00:00:00'') example_input
         ''python''),
      Failure not_found, Failure not_found, Failure not_found]"
  using fallback_plan_not_registered [of
      "answering_env (JArr []) ''0f8fad5b-d9cb'' ''2024-01-01T00:00:00''" example_input
      Map.empty "''2024-01-02T00:00:00''" example_update]
  by (simp add: example_update_def update_progress_not_found get_roadmap_not_found
      get_visual_timeline_not_found)

text \<open>
  C20.  A structure with a title, an overview and an empty list of themes is well
  formed: the plan that is generated has no week, it is stored, and an update of
  progress on it succeeds and reports 0 percent of 0 weeks.
\<close>

theorem empty_plan_is_stored:
  assumes "get_ai_roadmap_structure env user_input = JObj kvs"
    and "map_of kvs ''weekly_themes'' = Some (JArr [])"
    and "map_of kvs ''title'' \<noteq> None" and "map_of kvs ''overview'' \<noteq> None"
  shows "rm_weekly_plan (snd (generate_roadmap db env user_input)) = []
    \<and> fst (generate_roadmap db env user_input) (take 8 (env_uuid4 env))
        = Some \<lparr>entry_roadmap = snd (generate_roadmap db env user_input),
                 entry_progress = initial_progress, entry_created_at = env_now env\<rparr>
    \<and> snd (handle (fst (generate_roadmap db env user_input))
          (Update_progress now (u\<lparr>pu_roadmap_id := take 8 (env_uuid4 env)\<rparr>)))
        = Progress \<lparr>pr_status = ''success'', pr_progress_percentage = 0,
            pr_completed_weeks = [pu_week_completed u], pr_total_weeks = 0\<rparr>"
proof -
  from assms have wf: "well_formed_structure (get_ai_roadmap_structure env user_input)"
    by simp
  from assms have "themes_count (get_ai_roadmap_structure env user_input) = 0"
    by (simp add: themes_count_def)
  with wf have weeks: "rm_weekly_plan (snd (generate_roadmap db env user_input)) = []"
    using generate_roadmap_length [OF wf, of db] by simp
  let ?e = "\<lparr>entry_roadmap = snd (generate_roadmap db env user_input),
                 entry_progress = initial_progress, entry_created_at = env_now env\<rparr>"
  from wf have stored: "fst (generate_roadmap db env user_input) (take 8 (env_uuid4 env)) = Some ?e"
    using store_simps(1) [of db "snd (generate_roadmap db env user_input)"]
    by (simp add: fst_generate_roadmap)
  with handle_update_entry(2) [of "fst (generate_roadmap db env user_input)"
      "u\<lparr>pu_roadmap_id := take 8 (env_uuid4 env)\<rparr>" ?e now] weeks
  show ?thesis
    by (simp add: record_update_weeks initial_progress_def)
qed

theorem empty_plan_is_stored_witness:
  "rm_weekly_plan (snd (generate_roadmap Map.empty
       (answering_env empty_structure ''0f8fad5b-d9cb'' ''2024-01-01T00:00:00'')
       example_input)) = []
   \<and> snd (handle (fst (generate_roadmap Map.empty
       (answering_env empty_structure ''0f8fad5b-d9cb'' ''2024-01-01T00:00:00'')
       example_input)) (Update_progress ''2024-01-02T00:00:00'' example_update))
     = Progress \<lparr>pr_status = ''success'', pr_progress_percentage = 0,
         pr_completed_weeks = [2], pr_total_weeks = 0\<rparr>"
  using empty_plan_is_stored [of
      "answering_env empty_structure ''0f8fad5b-d9cb'' ''2024-01-01T00:00:00''" example_input
      "[(''title'', JStr ''Nothing to learn''), (''overview'', JStr ''No weeks''),
        (''weekly_themes'', JArr [])]" Map.empty "''2024-01-02T00:00:00''" example_update]
  by (simp add: empty_structure_def example_update_def)

text \<open>
  C21.  Generation stores the plan under its identifier without looking whether
  the identifier is taken: whatever was stored there, afterwards the entry holds
  the new plan with empty progress, and every other entry is as before.  In
  particular a second plan with the same first eight characters erases the
  recorded progress of the first.
\<close>

theorem identifier_collision_resets_progress:
  assumes "well_formed_structure (get_ai_roadmap_structure env user_input)"
  shows "fst (generate_roadmap db env user_input) (take 8 (env_uuid4 env))
        = Some \<lparr>entry_roadmap = snd (generate_roadmap db env user_input),
                 entry_progress = initial_progress, entry_created_at = env_now env\<rparr>
    \<and> (\<forall>rid. rid \<noteq> take 8 (env_uuid4 env) \<longrightarrow>
          fst (generate_roadmap db env user_input) rid = db rid)"
  using assms store_simps(1) [of db "snd (generate_roadmap db env user_input)"]
  by (simp add: fst_generate_roadmap)

theorem identifier_collision_resets_progress_witness:
  "map_option (\<lambda>e. completed_weeks (entry_progress e))
     (fst (run Map.empty [Generate_roadmap example_env example_input,
        Update_progress ''2024-01-02T00:00:00'' example_update]) ''0f8fad5b'') = Some [2]
   \<and> map_option (\<lambda>e. completed_weeks (entry_progress e))
     (fst (run Map.empty [Generate_roadmap example_env example_input,
        Update_progress ''2024-01-02T00:00:00'' example_update,
        Generate_roadmap example_env example_input]) ''0f8fad5b'') = Some []"
  using identifier_collision_resets_progress [of example_env example_input
      "fst (run Map.empty [Generate_roadmap example_env example_input,
         Update_progress ''2024-01-02T00:00:00'' example_update])"]
    fst_run_append [of Map.empty "[Generate_roadmap example_env example_input,
         Update_progress ''2024-01-02T00:00:00'' example_update]"
      "[Generate_roadmap example_env example_input]"]
    example_served [of Map.empty "''2024-01-02T00:00:00''"]
  by (simp add: example_entry_def initial_progress_def)

text \<open>
  C22.  The week of an update is not compared with the weeks of the plan.  In a
  reachable registry, if an entry with a non-empty plan has at least as many
  completed weeks as the plan has weeks, an update with a week that is not yet
  completed succeeds, and it reports more completed weeks than the plan has and
  a percentage of at least 125.
\<close>

theorem percentage_exceeds_hundred:
  assumes "reachable db" and "db (pu_roadmap_id u) = Some e"
    and "rm_weekly_plan (entry_roadmap e) \<noteq> []"
    and "length (rm_weekly_plan (entry_roadmap e)) \<le> length (completed_weeks (entry_progress e))"
    and "pu_week_completed u \<notin> set (completed_weeks (entry_progress e))"
  shows "\<exists>db' r. update_progress db now u = Inr (db', r)
    \<and> pr_total_weeks r < length (pr_completed_weeks r)
    \<and> 125 \<le> pr_progress_percentage r"
proof -
  from assms(1,2) have "length (rm_weekly_plan (entry_roadmap e)) \<le> 4"
    by (auto dest: reachable_db_inv simp: db_inv_def entry_inv_def plan_inv_def)
  with assms(3,4) have
    "125 \<le> progress_percentage (Suc (length (completed_weeks (entry_progress e))))
       (length (rm_weekly_plan (entry_roadmap e)))"
    by (intro percentage_overrun) simp_all
  with assms(2,4,5) show ?thesis
    by (simp add: update_progress_found [of db u e now] record_update_weeks)
qed

theorem percentage_exceeds_hundred_witness:
  "\<exists>db' r. update_progress full_db ''2024-01-02T00:00:00''
        (example_update\<lparr>pu_week_completed := 5\<rparr>) = Inr (db', r)
     \<and> pr_total_weeks r < length (pr_completed_weeks r)
     \<and> 125 \<le> pr_progress_percentage r"
  using percentage_exceeds_hundred [of full_db "example_update\<lparr>pu_week_completed := 5\<rparr>"
      "example_entry \<lparr>completed_weeks = [1, 2, 3, 4], completed_projects = [],
         pg_notes = None\<rparr>" "''2024-01-02T00:00:00''"]
  by (simp add: reachable_full_db full_db_lookup)

end
